theory Spec2Isabelle
  imports Main
begin

section \<open>Values, errors and payloads\<close>

text \<open>
  The file \<^verbatim>\<open>src/exodus/rpctx.cpp\<close> holds the RPC calls that create and send Exodus
  transactions. Every call receives its positional parameters as a JSON array
  (\<^verbatim>\<open>UniValue\<close>), parses them, runs the precondition checks of
  \<^verbatim>\<open>rpcrequirements.h\<close>, encodes a payload, hands it to \<^verbatim>\<open>WalletTxBuilder\<close> and
  finally returns the raw transaction or the transaction id.

  Unsigned machine integers (\<^verbatim>\<open>uint8_t\<close>, \<^verbatim>\<open>uint16_t\<close>, \<^verbatim>\<open>uint32_t\<close>) are natural
  numbers and signed ones (\<^verbatim>\<open>int\<close>, \<^verbatim>\<open>int64_t\<close>) are integers; the narrowing
  conversions of the file that can wrap are written with \<open>mod\<close>.
\<close>

datatype UniValue =
    VNULL
  | VBOOL bool
  | VNUM int
  | VSTR string
  | VARR "UniValue list"
  | VOBJ "(string \<times> UniValue) list"

type_synonym uint256 = nat
type_synonym CFeeRate = int

text \<open>
  The first argument of \<^verbatim>\<open>JSONRPCError\<close> is either one of the named codes of the RPC
  protocol or the result code of the transaction builder.
\<close>

datatype rpc_error_code =
    RPC_TYPE_ERROR
  | RPC_INVALID_PARAMETER
  | RPC_WALLET_ERROR
  | RPC_WALLET_INSUFFICIENT_FUNDS
  | result_code int

text \<open>
  What a call can throw: the \<^verbatim>\<open>JSONRPCError\<close> object, the exception classes the file
  names in its \<^verbatim>\<open>throw\<close> and \<^verbatim>\<open>catch\<close> clauses, a failed \<^verbatim>\<open>assert\<close>, and any other
  exception of a collaborator.
\<close>

datatype cpp_exception =
    JSONRPCError rpc_error_code string
  | runtime_error string
  | invalid_argument string
  | overflow_error string
  | InsufficientFunds string
  | WalletError string
  | assertion_failure string
  | other_exception string

text \<open>
  \<^verbatim>\<open>catch (std::runtime_error const &e)\<close> also catches the classes derived from
  \<^verbatim>\<open>std::runtime_error\<close>. Of the classes above these are \<^verbatim>\<open>std::overflow_error\<close>
  and the two exception classes of the wallet, \<^verbatim>\<open>WalletError\<close> and
  \<^verbatim>\<open>InsufficientFunds\<close>. \<^verbatim>\<open>std::invalid_argument\<close> derives from
  \<^verbatim>\<open>std::logic_error\<close>, and \<^verbatim>\<open>JSONRPCError\<close> gives a JSON object, which is no
  \<^verbatim>\<open>std::exception\<close> at all.
\<close>

fun caught_as_runtime_error :: "cpp_exception \<Rightarrow> string option" where
  "caught_as_runtime_error (runtime_error m) = Some m"
| "caught_as_runtime_error (overflow_error m) = Some m"
| "caught_as_runtime_error (InsufficientFunds m) = Some m"
| "caught_as_runtime_error (WalletError m) = Some m"
| "caught_as_runtime_error _ = None"

datatype tx_type =
    EXODUS_TYPE_SIMPLE_SEND
  | EXODUS_TYPE_TRADE_OFFER
  | EXODUS_TYPE_SEND_TO_OWNERS
  | EXODUS_TYPE_METADEX_TRADE
  | EXODUS_TYPE_METADEX_CANCEL_PRICE
  | EXODUS_TYPE_METADEX_CANCEL_PAIR
  | EXODUS_TYPE_METADEX_CANCEL_ECOSYSTEM
  | EXODUS_TYPE_SIMPLE_MINT
  | EXODUS_TYPE_SIMPLE_SPEND

datatype InputMode = InputMode_NORMAL | InputMode_SIGMA

record SigmaMintId =
  property :: nat
  denomination :: nat
  pubKey :: nat

record SigmaSpend =
  mint :: SigmaMintId
  group :: nat
  groupSize :: nat
  spendProof :: nat

text \<open>
  The encoders of \<^verbatim>\<open>createpayload.h\<close> are pure functions of their arguments. A payload
  is written as the encoder applied to its arguments; \<open>RawPayload\<close> is the byte string
  that \<^verbatim>\<open>exodus_sendrawtx\<close> passes through.
\<close>

datatype payload =
    RawPayload "nat list"
  | CreatePayload_SimpleSend nat int
  | CreatePayload_SendAll nat
  | CreatePayload_DExSell nat int int nat int nat
  | CreatePayload_DExAccept nat int
  | CreatePayload_IssuanceVariable nat nat nat string string string string string nat int int nat nat
  | CreatePayload_IssuanceFixed nat nat nat string string string string string int "nat option"
  | CreatePayload_IssuanceManaged nat nat nat string string string string string "nat option"
  | CreatePayload_SendToOwners nat int nat
  | CreatePayload_Grant nat int string
  | CreatePayload_Revoke nat int string
  | CreatePayload_CloseCrowdsale nat
  | CreatePayload_MetaDExTrade nat int nat int
  | CreatePayload_MetaDExCancelPrice nat int nat int
  | CreatePayload_MetaDExCancelPair nat nat
  | CreatePayload_MetaDExCancelEcosystem nat
  | CreatePayload_ChangeIssuer nat
  | CreatePayload_EnableFreezing nat
  | CreatePayload_DisableFreezing nat
  | CreatePayload_FreezeTokens nat int string
  | CreatePayload_UnfreezeTokens nat int string
  | CreatePayload_ActivateFeature nat nat nat
  | CreatePayload_DeactivateFeature nat
  | CreatePayload_ExodusAlert nat nat string
  | CreatePayload_CreateDenomination nat int
  | CreatePayload_SimpleMint nat "(nat \<times> nat) list"
  | CreatePayload_SimpleSpend nat nat nat nat nat

text \<open>The named checks of \<^verbatim>\<open>rpcrequirements.h\<close>, each with its arguments.\<close>

datatype requirement =
    RequireExistingProperty nat
  | RequireBalance string nat int
  | RequireSaneReferenceAmount int
  | RequirePrimaryToken nat
  | RequireNoOtherDExOffer string nat
  | RequireMatchingDExOffer string nat
  | RequireSaneDExFee string nat
  | RequireSaneDExPaymentWindow string nat
  | RequirePropertyName string
  | RequireSameEcosystem nat nat
  | RequireSigmaStatus nat
  | RequireManagedProperty nat
  | RequireTokenIssuer string nat
  | RequireCrowdsale nat
  | RequireActiveCrowdsale nat
  | RequireDifferentIds nat nat
  | RequireSigma nat
  | RequireExistingDenomination nat nat

text \<open>
  A check is either one of the named ones or one the file writes in place, as
  \<^verbatim>\<open>if (...) throw JSONRPCError(...)\<close>: the sell offer was found; the alert type and
  the expiry value are in range; the property has room for a new denomination and does
  not have one of that value; the key of a mint request is a denomination, its value an
  amount of mints, and the denomination has the confirmations asked for.
\<close>

datatype check =
    Named requirement
  | SellOfferLoaded string nat
  | AlertTypeInRange int
  | ExpiryValueInRange int
  | RoomForNewDenomination nat
  | NewDenominationValue nat int
  | ValidDenomination nat
  | ValidAmountOfMints int
  | ConfirmedDenomination nat nat int

section \<open>The process state and the collaborators\<close>

text \<open>
  The arguments of one \<^verbatim>\<open>WalletTxBuilder\<close> call: sender, receiver and redemption
  address, reference amount, payload, the commit flag and the input mode (\<open>None\<close> where
  the call leaves the last argument to its default).
\<close>

type_synonym build_args = "string \<times> string \<times> string \<times> int \<times> payload \<times> bool \<times> InputMode option"

text \<open>What the builder hands back: the result code, the transaction id and the raw hex.\<close>

type_synonym build_result = "int \<times> uint256 \<times> string"

text \<open>
  A call of the file into the wallet, the builder, the pending table or the log, with
  what it returned. The builder's entry also records the value of the global
  \<^verbatim>\<open>payTxFee\<close> at the time of the call. \<^verbatim>\<open>PendingAdd\<close>,
  \<^verbatim>\<open>SetSigmaMintUsedTransaction\<close> and \<^verbatim>\<open>LogPrintf\<close> return nothing; the others
  return a value or throw.
\<close>

datatype call =
    WalletTxBuilder_call build_args CFeeRate "cpp_exception + build_result"
  | PendingAdd_call uint256 string tx_type nat int bool
  | CreateSigmaMints_call nat "nat list" "cpp_exception + SigmaMintId list"
  | EraseSigmaMint_call SigmaMintId "cpp_exception option"
  | CreateSigmaSpend_call nat nat "cpp_exception + SigmaSpend"
  | SetSigmaMintUsedTransaction_call SigmaMintId uint256
  | LogPrintf_call string

text \<open>
  The state a call can read and change: the globals \<^verbatim>\<open>payTxFee\<close> and \<^verbatim>\<open>autoCommit\<close>,
  the calls made so far into the stateful collaborators, in order, and the checks
  evaluated so far with their outcome (\<open>None\<close> when the check passed).
\<close>

record world =
  payTxFee :: CFeeRate
  autoCommit :: bool
  calls :: "call list"
  checked :: "(check \<times> cpp_exception option) list"

text \<open>The parsers of \<^verbatim>\<open>rpcvalues.h\<close> and the accessors of \<^verbatim>\<open>UniValue\<close>.\<close>

record rpcvalues =
  ParseAddress :: "UniValue \<Rightarrow> cpp_exception + string"
  ParseAddressOrEmpty :: "UniValue \<Rightarrow> cpp_exception + string"
  ParseHexV :: "UniValue \<Rightarrow> string \<Rightarrow> cpp_exception + nat list"
  ParseText :: "UniValue \<Rightarrow> cpp_exception + string"
  ParsePropertyId :: "UniValue \<Rightarrow> cpp_exception + nat"
  ParseAmount :: "UniValue \<Rightarrow> bool \<Rightarrow> cpp_exception + int"
  ParseAmountOfType :: "UniValue \<Rightarrow> nat \<Rightarrow> cpp_exception + int"
  ParseEcosystem :: "UniValue \<Rightarrow> cpp_exception + nat"
  ParsePropertyType :: "UniValue \<Rightarrow> cpp_exception + nat"
  ParsePreviousPropertyId :: "UniValue \<Rightarrow> cpp_exception + nat"
  ParseDeadline :: "UniValue \<Rightarrow> cpp_exception + int"
  ParseEarlyBirdBonus :: "UniValue \<Rightarrow> cpp_exception + nat"
  ParseIssuerBonus :: "UniValue \<Rightarrow> cpp_exception + nat"
  ParseDExAction :: "UniValue \<Rightarrow> cpp_exception + nat"
  ParseDExPaymentWindow :: "UniValue \<Rightarrow> cpp_exception + nat"
  ParseDExFee :: "UniValue \<Rightarrow> cpp_exception + int"
  ParseMetaDExAction :: "UniValue \<Rightarrow> cpp_exception + nat"
  ParseSigmaDenomination :: "UniValue \<Rightarrow> cpp_exception + nat"
  get_bool :: "UniValue \<Rightarrow> cpp_exception + bool"
  get_int :: "UniValue \<Rightarrow> cpp_exception + int"
  get_int64 :: "UniValue \<Rightarrow> cpp_exception + int"
  get_obj :: "UniValue \<Rightarrow> cpp_exception + UniValue"
  getKeys :: "UniValue \<Rightarrow> cpp_exception + string list"
  at_key :: "UniValue \<Rightarrow> string \<Rightarrow> UniValue"
  stoul :: "string \<Rightarrow> cpp_exception + nat"

text \<open>
  The token ledger (\<^verbatim>\<open>exodus.h\<close>, \<^verbatim>\<open>sp.h\<close>, \<^verbatim>\<open>dex.h\<close>, \<^verbatim>\<open>errors.h\<close>): only read by
  this file. \<open>DEx_getOffer\<close> gives the minimum accept fee of the offer it finds.
  \<open>to_SigmaStatus\<close> is \<^verbatim>\<open>static_cast<SigmaStatus>\<close> on an \<^verbatim>\<open>int\<close>: what it gives depends on
  the width of the enumeration, which \<^verbatim>\<open>sp.h\<close> declares.
\<close>

record ledger =
  Require :: "requirement \<Rightarrow> cpp_exception option"
  isPropertyDivisible :: "nat \<Rightarrow> bool"
  isMainEcosystemProperty :: "nat \<Rightarrow> bool"
  isTestEcosystemProperty :: "nat \<Rightarrow> bool"
  DEx_getOffer_getMinFee :: "string \<Rightarrow> nat \<Rightarrow> int option"
  to_SigmaStatus :: "int \<Rightarrow> nat"
  getSP_denominations :: "nat \<Rightarrow> int list option"
  MAX_DENOMINATIONS :: nat
  getDenominationRemainingConfirmation :: "nat \<Rightarrow> nat \<Rightarrow> int \<Rightarrow> cpp_exception + int"
  SumDenominationsValue :: "nat \<Rightarrow> nat list \<Rightarrow> cpp_exception + int"
  GetDenominationValue :: "nat \<Rightarrow> nat \<Rightarrow> cpp_exception + int"
  FormatMP :: "nat \<Rightarrow> int \<Rightarrow> string"
  error_str :: "int \<Rightarrow> string"

text \<open>
  The wallet and the base chain (\<^verbatim>\<open>wallet.h\<close>, \<^verbatim>\<open>tx.h\<close>, \<^verbatim>\<open>amount.h\<close>,
  \<^verbatim>\<open>uint256.h\<close>). Their answers may depend on everything that happened before, so each
  takes the current state.
\<close>

record wallet =
  WalletTxBuilder :: "world \<Rightarrow> build_args \<Rightarrow> cpp_exception + build_result"
  CreateSigmaMints :: "world \<Rightarrow> nat \<Rightarrow> nat list \<Rightarrow> cpp_exception + SigmaMintId list"
  EraseSigmaMint :: "world \<Rightarrow> SigmaMintId \<Rightarrow> cpp_exception option"
  CreateSigmaSpend :: "world \<Rightarrow> nat \<Rightarrow> nat \<Rightarrow> cpp_exception + SigmaSpend"
  CFeeRate_of :: "int \<Rightarrow> nat \<Rightarrow> CFeeRate"
  GetHex :: "uint256 \<Rightarrow> string"

record env =
  rv :: rpcvalues
  lg :: ledger
  wl :: wallet

section \<open>Sequencing calls that can throw\<close>

text \<open>
  A computation takes the state and gives back either the exception it threw or its
  value, with the state it left behind.
\<close>

type_synonym 'a rpc = "world \<Rightarrow> (cpp_exception + 'a) \<times> world"

definition returns :: "'a \<Rightarrow> 'a rpc" where
  "returns x = (\<lambda>s. (Inr x, s))"

definition throws :: "cpp_exception \<Rightarrow> 'a rpc" where
  "throws e = (\<lambda>s. (Inl e, s))"

definition bnd :: "'a rpc \<Rightarrow> ('a \<Rightarrow> 'b rpc) \<Rightarrow> 'b rpc" where
  "bnd m f = (\<lambda>s. case m s of (Inl e, s') \<Rightarrow> (Inl e, s') | (Inr x, s') \<Rightarrow> f x s')"

text \<open>A parser or a ledger query: it throws or returns, and leaves the state alone.\<close>

definition lift :: "cpp_exception + 'a \<Rightarrow> 'a rpc" where
  "lift r = (\<lambda>s. (r, s))"

text \<open>A named check: its outcome is noted, and a failure is thrown.\<close>

definition require :: "env \<Rightarrow> requirement \<Rightarrow> unit rpc" where
  "require env q = (\<lambda>s.
     let r = Require (lg env) q;
         s' = s\<lparr>checked := checked s @ [(Named q, r)]\<rparr>
     in case r of None \<Rightarrow> (Inr (), s') | Some e \<Rightarrow> (Inl e, s'))"

text \<open>
  A check written in place: \<^verbatim>\<open>if (failed) throw e;\<close>, and its form for a pointer that
  must not be null, which hands on what the pointer refers to.
\<close>

definition throw_if :: "check \<Rightarrow> bool \<Rightarrow> cpp_exception \<Rightarrow> unit rpc" where
  "throw_if c failed e = (\<lambda>s.
     if failed then (Inl e, s\<lparr>checked := checked s @ [(c, Some e)]\<rparr>)
     else (Inr (), s\<lparr>checked := checked s @ [(c, None)]\<rparr>))"

definition throw_if_null :: "check \<Rightarrow> 'a option \<Rightarrow> cpp_exception \<Rightarrow> 'a rpc" where
  "throw_if_null c p e = (\<lambda>s.
     case p of
       None \<Rightarrow> (Inl e, s\<lparr>checked := checked s @ [(c, Some e)]\<rparr>)
     | Some x \<Rightarrow> (Inr x, s\<lparr>checked := checked s @ [(c, None)]\<rparr>))"

definition read_autoCommit :: "bool rpc" where
  "read_autoCommit = (\<lambda>s. (Inr (autoCommit s), s))"

definition read_payTxFee :: "CFeeRate rpc" where
  "read_payTxFee = (\<lambda>s. (Inr (payTxFee s), s))"

definition write_payTxFee :: "CFeeRate \<Rightarrow> unit rpc" where
  "write_payTxFee f = (\<lambda>s. (Inr (), s\<lparr>payTxFee := f\<rparr>))"

definition call_WalletTxBuilder :: "env \<Rightarrow> build_args \<Rightarrow> build_result rpc" where
  "call_WalletTxBuilder env a = (\<lambda>s.
     let r = WalletTxBuilder (wl env) s a
     in (r, s\<lparr>calls := calls s @ [WalletTxBuilder_call a (payTxFee s) r]\<rparr>))"

text \<open>
  \<^verbatim>\<open>PendingAdd\<close> inserts one entry into the table of pending effects: transaction id,
  sender, transaction type, property, amount and the flag that says whether the amount
  is subtracted from the visible balance.

  Modelled from the spec: the default of the last parameter of \<^verbatim>\<open>PendingAdd\<close>, which
  \<^verbatim>\<open>pending.h\<close> declares and the sources do not include. The spec gives the signature
  \<^verbatim>\<open>insert(txid, address, actionKind, propertyId, amount, subtractFromBalance=true)\<close>.
\<close>

definition PendingAdd_default_fSubtract :: bool where
  "PendingAdd_default_fSubtract = True"

definition PendingAdd :: "uint256 \<Rightarrow> string \<Rightarrow> tx_type \<Rightarrow> nat \<Rightarrow> int \<Rightarrow> bool \<Rightarrow> unit rpc" where
  "PendingAdd txid a t p n fSubtract = (\<lambda>s.
     (Inr (), s\<lparr>calls := calls s @ [PendingAdd_call txid a t p n fSubtract]\<rparr>))"

definition call_CreateSigmaMints :: "env \<Rightarrow> nat \<Rightarrow> nat list \<Rightarrow> SigmaMintId list rpc" where
  "call_CreateSigmaMints env p ds = (\<lambda>s.
     let r = CreateSigmaMints (wl env) s p ds
     in (r, s\<lparr>calls := calls s @ [CreateSigmaMints_call p ds r]\<rparr>))"

definition call_EraseSigmaMint :: "env \<Rightarrow> SigmaMintId \<Rightarrow> unit rpc" where
  "call_EraseSigmaMint env i = (\<lambda>s.
     let r = EraseSigmaMint (wl env) s i;
         s' = s\<lparr>calls := calls s @ [EraseSigmaMint_call i r]\<rparr>
     in case r of None \<Rightarrow> (Inr (), s') | Some e \<Rightarrow> (Inl e, s'))"

definition call_CreateSigmaSpend :: "env \<Rightarrow> nat \<Rightarrow> nat \<Rightarrow> SigmaSpend rpc" where
  "call_CreateSigmaSpend env p d = (\<lambda>s.
     let r = CreateSigmaSpend (wl env) s p d
     in (r, s\<lparr>calls := calls s @ [CreateSigmaSpend_call p d r]\<rparr>))"

definition SetSigmaMintUsedTransaction :: "SigmaMintId \<Rightarrow> uint256 \<Rightarrow> unit rpc" where
  "SetSigmaMintUsedTransaction i txid = (\<lambda>s.
     (Inr (), s\<lparr>calls := calls s @ [SetSigmaMintUsedTransaction_call i txid]\<rparr>))"

definition LogPrintf :: "string \<Rightarrow> unit rpc" where
  "LogPrintf m = (\<lambda>s. (Inr (), s\<lparr>calls := calls s @ [LogPrintf_call m]\<rparr>))"

text \<open>
  The help text a call throws when asked for help or given the wrong number of
  parameters, shortened to the name of the call.
\<close>

definition usage :: "string \<Rightarrow> 'a rpc" where
  "usage name = throws (runtime_error name)"

text \<open>
  \<^verbatim>\<open>try { ... } catch (...) { ... }\<close>: the handler gives the code to run for an
  exception a \<^verbatim>\<open>catch\<close> clause matches, and \<open>None\<close> for one that passes through.
\<close>

definition try_catch :: "'a rpc \<Rightarrow> (cpp_exception \<Rightarrow> 'a rpc option) \<Rightarrow> 'a rpc" where
  "try_catch m handler = (\<lambda>s.
     case m s of
       (Inl e, s') \<Rightarrow> (case handler e of Some h \<Rightarrow> h s' | None \<Rightarrow> (Inl e, s'))
     | (Inr x, s') \<Rightarrow> (Inr x, s'))"

section \<open>Constants\<close>

text \<open>
  The action codes of \<^verbatim>\<open>CMPTransaction\<close> and the two base tokens, with the values the
  help texts and error messages of the file give them: ``1 for new offers, 2 to update,
  3 to cancel'', ``Invalid action (1,2,3,4 only)'', ``must be 1 for EXODUS or 2 for
  TEXODUS''.
\<close>

definition CMPTransaction_NEW :: nat where "CMPTransaction_NEW = 1"
definition CMPTransaction_UPDATE :: nat where "CMPTransaction_UPDATE = 2"
definition CMPTransaction_CANCEL :: nat where "CMPTransaction_CANCEL = 3"

definition CMPTransaction_ADD :: nat where "CMPTransaction_ADD = 1"
definition CMPTransaction_CANCEL_AT_PRICE :: nat where "CMPTransaction_CANCEL_AT_PRICE = 2"
definition CMPTransaction_CANCEL_ALL_FOR_PAIR :: nat where "CMPTransaction_CANCEL_ALL_FOR_PAIR = 3"
definition CMPTransaction_CANCEL_EVERYTHING :: nat where "CMPTransaction_CANCEL_EVERYTHING = 4"

definition EXODUS_PROPERTY_EXODUS :: nat where "EXODUS_PROPERTY_EXODUS = 1"
definition EXODUS_PROPERTY_TEXODUS :: nat where "EXODUS_PROPERTY_TEXODUS = 2"

definition UINT8_MAX :: nat where "UINT8_MAX = 255"

section \<open>The RPC calls\<close>

text \<open>
  Each call is written in the order of its source: the help and parameter-count guard,
  the parameters, the checks, the payload, the builder, and the handling of its result.
  The global \<^verbatim>\<open>autoCommit\<close> is read where the source reads it: once for the builder's
  argument and once when the result is returned.
\<close>

definition exodus_sendrawtx :: "env \<Rightarrow> UniValue list \<Rightarrow> bool \<Rightarrow> UniValue rpc" where
  "exodus_sendrawtx env params fHelp =
    (if fHelp \<or> length params < 2 \<or> length params > 5 then usage ''exodus_sendrawtx'' else
     bnd (lift (ParseAddress (rv env) (params ! 0))) (\<lambda>fromAddress.
     bnd (lift (map_sum id RawPayload (ParseHexV (rv env) (params ! 1) ''raw transaction''))) (\<lambda>payload.
     bnd (if length params > 2 then lift (ParseAddressOrEmpty (rv env) (params ! 2)) else returns []) (\<lambda>toAddress.
     bnd (if length params > 3 then lift (ParseAddressOrEmpty (rv env) (params ! 3)) else returns []) (\<lambda>redeemAddress.
     bnd (if length params > 4 then lift (ParseAmount (rv env) (params ! 4) True) else returns 0) (\<lambda>referenceAmount.
     bnd read_autoCommit (\<lambda>commit.
     bnd (call_WalletTxBuilder env
            (fromAddress, toAddress, redeemAddress, referenceAmount, payload, commit, None))
       (\<lambda>(result, txid, rawHex).
     if result \<noteq> 0 then throws (JSONRPCError (result_code result) (error_str (lg env) result))
     else bnd read_autoCommit (\<lambda>commit.
          if \<not> commit then returns (VSTR rawHex)
          else returns (VSTR (GetHex (wl env) txid)))))))))))"

definition exodus_send :: "env \<Rightarrow> UniValue list \<Rightarrow> bool \<Rightarrow> UniValue rpc" where
  "exodus_send env params fHelp =
    (if fHelp \<or> length params < 4 \<or> length params > 6 then usage ''exodus_send'' else
     bnd (lift (ParseAddress (rv env) (params ! 0))) (\<lambda>fromAddress.
     bnd (lift (ParseAddress (rv env) (params ! 1))) (\<lambda>toAddress.
     bnd (lift (ParsePropertyId (rv env) (params ! 2))) (\<lambda>propertyId.
     bnd (lift (ParseAmount (rv env) (params ! 3) (isPropertyDivisible (lg env) propertyId))) (\<lambda>amount.
     bnd (if length params > 4
          then bnd (lift (ParseText (rv env) (params ! 4))) (\<lambda>t.
               if t \<noteq> [] then lift (ParseAddress (rv env) (params ! 4)) else returns [])
          else returns []) (\<lambda>redeemAddress.
     bnd (if length params > 5 then lift (ParseAmount (rv env) (params ! 5) True) else returns 0) (\<lambda>referenceAmount.
     bnd (require env (RequireExistingProperty propertyId)) (\<lambda>_.
     bnd (require env (RequireBalance fromAddress propertyId amount)) (\<lambda>_.
     bnd (require env (RequireSaneReferenceAmount referenceAmount)) (\<lambda>_.
     bnd (returns (CreatePayload_SimpleSend propertyId amount)) (\<lambda>payload.
     bnd read_autoCommit (\<lambda>commit.
     bnd (call_WalletTxBuilder env
            (fromAddress, toAddress, redeemAddress, referenceAmount, payload, commit, None))
       (\<lambda>(result, txid, rawHex).
     if result \<noteq> 0 then throws (JSONRPCError (result_code result) (error_str (lg env) result))
     else bnd read_autoCommit (\<lambda>commit.
          if \<not> commit then returns (VSTR rawHex)
          else bnd (PendingAdd txid fromAddress EXODUS_TYPE_SIMPLE_SEND propertyId amount
                                     PendingAdd_default_fSubtract) (\<lambda>_.
               returns (VSTR (GetHex (wl env) txid)))))))))))))))))"

definition exodus_sendall :: "env \<Rightarrow> UniValue list \<Rightarrow> bool \<Rightarrow> UniValue rpc" where
  "exodus_sendall env params fHelp =
    (if fHelp \<or> length params < 3 \<or> length params > 5 then usage ''exodus_sendall'' else
     bnd (lift (ParseAddress (rv env) (params ! 0))) (\<lambda>fromAddress.
     bnd (lift (ParseAddress (rv env) (params ! 1))) (\<lambda>toAddress.
     bnd (lift (ParseEcosystem (rv env) (params ! 2))) (\<lambda>ecosystem.
     bnd (if length params > 3
          then bnd (lift (ParseText (rv env) (params ! 3))) (\<lambda>t.
               if t \<noteq> [] then lift (ParseAddress (rv env) (params ! 3)) else returns [])
          else returns []) (\<lambda>redeemAddress.
     bnd (if length params > 4 then lift (ParseAmount (rv env) (params ! 4) True) else returns 0) (\<lambda>referenceAmount.
     bnd (require env (RequireSaneReferenceAmount referenceAmount)) (\<lambda>_.
     bnd (returns (CreatePayload_SendAll ecosystem)) (\<lambda>payload.
     bnd read_autoCommit (\<lambda>commit.
     bnd (call_WalletTxBuilder env
            (fromAddress, toAddress, redeemAddress, referenceAmount, payload, commit, None))
       (\<lambda>(result, txid, rawHex).
     if result \<noteq> 0 then throws (JSONRPCError (result_code result) (error_str (lg env) result))
     else bnd read_autoCommit (\<lambda>commit.
          if \<not> commit then returns (VSTR rawHex)
          else returns (VSTR (GetHex (wl env) txid)))))))))))))"

text \<open>
  The amounts, the payment window and the fee of an exchange offer are parsed only for
  the actions up to \<^verbatim>\<open>UPDATE\<close>; they keep their initial value 0 otherwise. The
  \<^verbatim>\<open>switch\<close> has no default case.
\<close>

definition exodus_senddexsell :: "env \<Rightarrow> UniValue list \<Rightarrow> bool \<Rightarrow> UniValue rpc" where
  "exodus_senddexsell env params fHelp =
    (if fHelp \<or> length params \<noteq> 7 then usage ''exodus_senddexsell'' else
     bnd (lift (ParseAddress (rv env) (params ! 0))) (\<lambda>fromAddress.
     bnd (lift (ParsePropertyId (rv env) (params ! 1))) (\<lambda>propertyIdForSale.
     bnd (lift (ParseDExAction (rv env) (params ! 6))) (\<lambda>action.
     bnd (if action \<le> CMPTransaction_UPDATE
          then bnd (lift (ParseAmount (rv env) (params ! 2) True)) (\<lambda>amountForSale.
               bnd (lift (ParseAmount (rv env) (params ! 3) True)) (\<lambda>amountDesired.
               bnd (lift (ParseDExPaymentWindow (rv env) (params ! 4))) (\<lambda>paymentWindow.
               bnd (lift (ParseDExFee (rv env) (params ! 5))) (\<lambda>minAcceptFee.
               returns (amountForSale, amountDesired, paymentWindow, minAcceptFee)))))
          else returns (0, 0, 0, 0)) (\<lambda>(amountForSale, amountDesired, paymentWindow, minAcceptFee).
     bnd (if action = CMPTransaction_NEW
          then bnd (require env (RequirePrimaryToken propertyIdForSale)) (\<lambda>_.
               bnd (require env (RequireBalance fromAddress propertyIdForSale amountForSale)) (\<lambda>_.
               require env (RequireNoOtherDExOffer fromAddress propertyIdForSale)))
          else if action = CMPTransaction_UPDATE
          then bnd (require env (RequirePrimaryToken propertyIdForSale)) (\<lambda>_.
               bnd (require env (RequireBalance fromAddress propertyIdForSale amountForSale)) (\<lambda>_.
               require env (RequireMatchingDExOffer fromAddress propertyIdForSale)))
          else if action = CMPTransaction_CANCEL
          then bnd (require env (RequirePrimaryToken propertyIdForSale)) (\<lambda>_.
               require env (RequireMatchingDExOffer fromAddress propertyIdForSale))
          else returns ()) (\<lambda>_.
     bnd (returns (CreatePayload_DExSell propertyIdForSale amountForSale amountDesired
                       paymentWindow minAcceptFee action)) (\<lambda>payload.
     bnd read_autoCommit (\<lambda>commit.
     bnd (call_WalletTxBuilder env
            (fromAddress, [], [], 0, payload, commit, None))
       (\<lambda>(result, txid, rawHex).
     if result \<noteq> 0 then throws (JSONRPCError (result_code result) (error_str (lg env) result))
     else bnd read_autoCommit (\<lambda>commit.
          if \<not> commit then returns (VSTR rawHex)
          else bnd (returns (action \<le> CMPTransaction_UPDATE)) (\<lambda>fSubtract.
               bnd (PendingAdd txid fromAddress EXODUS_TYPE_TRADE_OFFER propertyIdForSale
                                     amountForSale fSubtract) (\<lambda>_.
               returns (VSTR (GetHex (wl env) txid))))))))))))))"

text \<open>
  Accepting an offer saves \<^verbatim>\<open>payTxFee\<close>, replaces it by the rate for the offer's
  minimum accept fee over 225 bytes, calls the builder and then assigns the saved value
  back. The assignment is an ordinary statement after the call.
\<close>

definition exodus_senddexaccept :: "env \<Rightarrow> UniValue list \<Rightarrow> bool \<Rightarrow> UniValue rpc" where
  "exodus_senddexaccept env params fHelp =
    (if fHelp \<or> length params < 4 \<or> length params > 5 then usage ''exodus_senddexaccept'' else
     bnd (lift (ParseAddress (rv env) (params ! 0))) (\<lambda>fromAddress.
     bnd (lift (ParseAddress (rv env) (params ! 1))) (\<lambda>toAddress.
     bnd (lift (ParsePropertyId (rv env) (params ! 2))) (\<lambda>propertyId.
     bnd (lift (ParseAmount (rv env) (params ! 3) True)) (\<lambda>amount.
     bnd (if length params > 4 then lift (get_bool (rv env) (params ! 4)) else returns False) (\<lambda>override.
     bnd (require env (RequirePrimaryToken propertyId)) (\<lambda>_.
     bnd (require env (RequireMatchingDExOffer toAddress propertyId)) (\<lambda>_.
     bnd (if \<not> override
          then bnd (require env (RequireSaneDExFee toAddress propertyId)) (\<lambda>_.
               require env (RequireSaneDExPaymentWindow toAddress propertyId))
          else returns ()) (\<lambda>_.
     bnd (throw_if_null (SellOfferLoaded toAddress propertyId)
            (DEx_getOffer_getMinFee (lg env) toAddress propertyId)
            (JSONRPCError RPC_TYPE_ERROR
               ''Unable to load sell offer from the distributed exchange'')) (\<lambda>nMinimumAcceptFee.
     bnd (read_payTxFee) (\<lambda>payTxFeeOriginal.
     bnd (write_payTxFee (CFeeRate_of (wl env) nMinimumAcceptFee 225)) (\<lambda>_.
     bnd (returns (CreatePayload_DExAccept propertyId amount)) (\<lambda>payload.
     bnd read_autoCommit (\<lambda>commit.
     bnd (call_WalletTxBuilder env
            (fromAddress, toAddress, [], 0, payload, commit, None))
       (\<lambda>(result, txid, rawHex).
     bnd (write_payTxFee payTxFeeOriginal) (\<lambda>_.
     if result \<noteq> 0 then throws (JSONRPCError (result_code result) (error_str (lg env) result))
     else bnd read_autoCommit (\<lambda>commit.
          if \<not> commit then returns (VSTR rawHex)
          else returns (VSTR (GetHex (wl env) txid)))))))))))))))))))"

definition exodus_sendissuancecrowdsale :: "env \<Rightarrow> UniValue list \<Rightarrow> bool \<Rightarrow> UniValue rpc" where
  "exodus_sendissuancecrowdsale env params fHelp =
    (if fHelp \<or> length params \<noteq> 14 then usage ''exodus_sendissuancecrowdsale'' else
     bnd (lift (ParseAddress (rv env) (params ! 0))) (\<lambda>fromAddress.
     bnd (lift (ParseEcosystem (rv env) (params ! 1))) (\<lambda>ecosystem.
     bnd (lift (ParsePropertyType (rv env) (params ! 2))) (\<lambda>type.
     bnd (lift (ParsePreviousPropertyId (rv env) (params ! 3))) (\<lambda>previousId.
     bnd (lift (ParseText (rv env) (params ! 4))) (\<lambda>category.
     bnd (lift (ParseText (rv env) (params ! 5))) (\<lambda>subcategory.
     bnd (lift (ParseText (rv env) (params ! 6))) (\<lambda>name.
     bnd (lift (ParseText (rv env) (params ! 7))) (\<lambda>url.
     bnd (lift (ParseText (rv env) (params ! 8))) (\<lambda>data.
     bnd (lift (ParsePropertyId (rv env) (params ! 9))) (\<lambda>propertyIdDesired.
     bnd (lift (ParseAmountOfType (rv env) (params ! 10) type)) (\<lambda>numTokens.
     bnd (lift (ParseDeadline (rv env) (params ! 11))) (\<lambda>deadline.
     bnd (lift (ParseEarlyBirdBonus (rv env) (params ! 12))) (\<lambda>earlyBonus.
     bnd (lift (ParseIssuerBonus (rv env) (params ! 13))) (\<lambda>issuerPercentage.
     bnd (require env (RequirePropertyName name)) (\<lambda>_.
     bnd (require env (RequireExistingProperty propertyIdDesired)) (\<lambda>_.
     bnd (require env (RequireSameEcosystem ecosystem propertyIdDesired)) (\<lambda>_.
     bnd (returns (CreatePayload_IssuanceVariable ecosystem type previousId category
                       subcategory name url data propertyIdDesired numTokens deadline earlyBonus
                       issuerPercentage)) (\<lambda>payload.
     bnd read_autoCommit (\<lambda>commit.
     bnd (call_WalletTxBuilder env
            (fromAddress, [], [], 0, payload, commit, None))
       (\<lambda>(result, txid, rawHex).
     if result \<noteq> 0 then throws (JSONRPCError (result_code result) (error_str (lg env) result))
     else bnd read_autoCommit (\<lambda>commit.
          if \<not> commit then returns (VSTR rawHex)
          else returns (VSTR (GetHex (wl env) txid))))))))))))))))))))))))"

definition exodus_sendissuancefixed :: "env \<Rightarrow> UniValue list \<Rightarrow> bool \<Rightarrow> UniValue rpc" where
  "exodus_sendissuancefixed env params fHelp =
    (if fHelp \<or> length params < 10 \<or> length params > 11 then usage ''exodus_sendissuancefixed'' else
     bnd (lift (ParseAddress (rv env) (params ! 0))) (\<lambda>fromAddress.
     bnd (lift (ParseEcosystem (rv env) (params ! 1))) (\<lambda>ecosystem.
     bnd (lift (ParsePropertyType (rv env) (params ! 2))) (\<lambda>type.
     bnd (lift (ParsePreviousPropertyId (rv env) (params ! 3))) (\<lambda>previousId.
     bnd (lift (ParseText (rv env) (params ! 4))) (\<lambda>category.
     bnd (lift (ParseText (rv env) (params ! 5))) (\<lambda>subcategory.
     bnd (lift (ParseText (rv env) (params ! 6))) (\<lambda>name.
     bnd (lift (ParseText (rv env) (params ! 7))) (\<lambda>url.
     bnd (lift (ParseText (rv env) (params ! 8))) (\<lambda>data.
     bnd (lift (ParseAmountOfType (rv env) (params ! 9) type)) (\<lambda>amount.
     bnd (if length params > 10
          then bnd (lift (get_int (rv env) (params ! 10))) (\<lambda>v.
               returns (Some (to_SigmaStatus (lg env) v)))
          else returns None) (\<lambda>sigma.
     bnd (require env (RequirePropertyName name)) (\<lambda>_.
     bnd (case sigma of Some status \<Rightarrow> require env (RequireSigmaStatus status)
          | None \<Rightarrow> returns ()) (\<lambda>_.
     bnd (returns (CreatePayload_IssuanceFixed ecosystem type previousId category
                       subcategory name url data amount sigma)) (\<lambda>payload.
     bnd read_autoCommit (\<lambda>commit.
     bnd (call_WalletTxBuilder env
            (fromAddress, [], [], 0, payload, commit, None))
       (\<lambda>(result, txid, rawHex).
     if result \<noteq> 0 then throws (JSONRPCError (result_code result) (error_str (lg env) result))
     else bnd read_autoCommit (\<lambda>commit.
          if \<not> commit then returns (VSTR rawHex)
          else returns (VSTR (GetHex (wl env) txid))))))))))))))))))))"

definition exodus_sendissuancemanaged :: "env \<Rightarrow> UniValue list \<Rightarrow> bool \<Rightarrow> UniValue rpc" where
  "exodus_sendissuancemanaged env params fHelp =
    (if fHelp \<or> length params < 9 \<or> length params > 10 then usage ''exodus_sendissuancemanaged'' else
     bnd (lift (ParseAddress (rv env) (params ! 0))) (\<lambda>fromAddress.
     bnd (lift (ParseEcosystem (rv env) (params ! 1))) (\<lambda>ecosystem.
     bnd (lift (ParsePropertyType (rv env) (params ! 2))) (\<lambda>type.
     bnd (lift (ParsePreviousPropertyId (rv env) (params ! 3))) (\<lambda>previousId.
     bnd (lift (ParseText (rv env) (params ! 4))) (\<lambda>category.
     bnd (lift (ParseText (rv env) (params ! 5))) (\<lambda>subcategory.
     bnd (lift (ParseText (rv env) (params ! 6))) (\<lambda>name.
     bnd (lift (ParseText (rv env) (params ! 7))) (\<lambda>url.
     bnd (lift (ParseText (rv env) (params ! 8))) (\<lambda>data.
     bnd (if length params > 9
          then bnd (lift (get_int (rv env) (params ! 9))) (\<lambda>v.
               returns (Some (to_SigmaStatus (lg env) v)))
          else returns None) (\<lambda>sigma.
     bnd (require env (RequirePropertyName name)) (\<lambda>_.
     bnd (case sigma of Some status \<Rightarrow> require env (RequireSigmaStatus status)
          | None \<Rightarrow> returns ()) (\<lambda>_.
     bnd (returns (CreatePayload_IssuanceManaged ecosystem type previousId category
                       subcategory name url data sigma)) (\<lambda>payload.
     bnd read_autoCommit (\<lambda>commit.
     bnd (call_WalletTxBuilder env
            (fromAddress, [], [], 0, payload, commit, None))
       (\<lambda>(result, txid, rawHex).
     if result \<noteq> 0 then throws (JSONRPCError (result_code result) (error_str (lg env) result))
     else bnd read_autoCommit (\<lambda>commit.
          if \<not> commit then returns (VSTR rawHex)
          else returns (VSTR (GetHex (wl env) txid)))))))))))))))))))"

definition exodus_sendsto :: "env \<Rightarrow> UniValue list \<Rightarrow> bool \<Rightarrow> UniValue rpc" where
  "exodus_sendsto env params fHelp =
    (if fHelp \<or> length params < 3 \<or> length params > 5 then usage ''exodus_sendsto'' else
     bnd (lift (ParseAddress (rv env) (params ! 0))) (\<lambda>fromAddress.
     bnd (lift (ParsePropertyId (rv env) (params ! 1))) (\<lambda>propertyId.
     bnd (lift (ParseAmount (rv env) (params ! 2) (isPropertyDivisible (lg env) propertyId))) (\<lambda>amount.
     bnd (if length params > 3
          then bnd (lift (ParseText (rv env) (params ! 3))) (\<lambda>t.
               if t \<noteq> [] then lift (ParseAddress (rv env) (params ! 3)) else returns [])
          else returns []) (\<lambda>redeemAddress.
     bnd (if length params > 4 then lift (ParsePropertyId (rv env) (params ! 4)) else returns propertyId) (\<lambda>distributionPropertyId.
     bnd (require env (RequireBalance fromAddress propertyId amount)) (\<lambda>_.
     bnd (returns (CreatePayload_SendToOwners propertyId amount distributionPropertyId)) (\<lambda>payload.
     bnd read_autoCommit (\<lambda>commit.
     bnd (call_WalletTxBuilder env
            (fromAddress, [], redeemAddress, 0, payload, commit, None))
       (\<lambda>(result, txid, rawHex).
     if result \<noteq> 0 then throws (JSONRPCError (result_code result) (error_str (lg env) result))
     else bnd read_autoCommit (\<lambda>commit.
          if \<not> commit then returns (VSTR rawHex)
          else bnd (PendingAdd txid fromAddress EXODUS_TYPE_SEND_TO_OWNERS propertyId amount
                                     PendingAdd_default_fSubtract) (\<lambda>_.
               returns (VSTR (GetHex (wl env) txid))))))))))))))"

definition exodus_sendgrant :: "env \<Rightarrow> UniValue list \<Rightarrow> bool \<Rightarrow> UniValue rpc" where
  "exodus_sendgrant env params fHelp =
    (if fHelp \<or> length params < 4 \<or> length params > 5 then usage ''exodus_sendgrant'' else
     bnd (lift (ParseAddress (rv env) (params ! 0))) (\<lambda>fromAddress.
     bnd (bnd (lift (ParseText (rv env) (params ! 1))) (\<lambda>t.
          if t \<noteq> [] then lift (ParseAddress (rv env) (params ! 1)) else returns [])) (\<lambda>toAddress.
     bnd (lift (ParsePropertyId (rv env) (params ! 2))) (\<lambda>propertyId.
     bnd (lift (ParseAmount (rv env) (params ! 3) (isPropertyDivisible (lg env) propertyId))) (\<lambda>amount.
     bnd (if length params > 4 then lift (ParseText (rv env) (params ! 4)) else returns []) (\<lambda>memo.
     bnd (require env (RequireExistingProperty propertyId)) (\<lambda>_.
     bnd (require env (RequireManagedProperty propertyId)) (\<lambda>_.
     bnd (require env (RequireTokenIssuer fromAddress propertyId)) (\<lambda>_.
     bnd (returns (CreatePayload_Grant propertyId amount memo)) (\<lambda>payload.
     bnd read_autoCommit (\<lambda>commit.
     bnd (call_WalletTxBuilder env
            (fromAddress, toAddress, [], 0, payload, commit, None))
       (\<lambda>(result, txid, rawHex).
     if result \<noteq> 0 then throws (JSONRPCError (result_code result) (error_str (lg env) result))
     else bnd read_autoCommit (\<lambda>commit.
          if \<not> commit then returns (VSTR rawHex)
          else returns (VSTR (GetHex (wl env) txid)))))))))))))))"

definition exodus_sendrevoke :: "env \<Rightarrow> UniValue list \<Rightarrow> bool \<Rightarrow> UniValue rpc" where
  "exodus_sendrevoke env params fHelp =
    (if fHelp \<or> length params < 3 \<or> length params > 4 then usage ''exodus_sendrevoke'' else
     bnd (lift (ParseAddress (rv env) (params ! 0))) (\<lambda>fromAddress.
     bnd (lift (ParsePropertyId (rv env) (params ! 1))) (\<lambda>propertyId.
     bnd (lift (ParseAmount (rv env) (params ! 2) (isPropertyDivisible (lg env) propertyId))) (\<lambda>amount.
     bnd (if length params > 3 then lift (ParseText (rv env) (params ! 3)) else returns []) (\<lambda>memo.
     bnd (require env (RequireExistingProperty propertyId)) (\<lambda>_.
     bnd (require env (RequireManagedProperty propertyId)) (\<lambda>_.
     bnd (require env (RequireTokenIssuer fromAddress propertyId)) (\<lambda>_.
     bnd (require env (RequireBalance fromAddress propertyId amount)) (\<lambda>_.
     bnd (returns (CreatePayload_Revoke propertyId amount memo)) (\<lambda>payload.
     bnd read_autoCommit (\<lambda>commit.
     bnd (call_WalletTxBuilder env
            (fromAddress, [], [], 0, payload, commit, None))
       (\<lambda>(result, txid, rawHex).
     if result \<noteq> 0 then throws (JSONRPCError (result_code result) (error_str (lg env) result))
     else bnd read_autoCommit (\<lambda>commit.
          if \<not> commit then returns (VSTR rawHex)
          else returns (VSTR (GetHex (wl env) txid)))))))))))))))"

definition exodus_sendclosecrowdsale :: "env \<Rightarrow> UniValue list \<Rightarrow> bool \<Rightarrow> UniValue rpc" where
  "exodus_sendclosecrowdsale env params fHelp =
    (if fHelp \<or> length params \<noteq> 2 then usage ''exodus_sendclosecrowdsale'' else
     bnd (lift (ParseAddress (rv env) (params ! 0))) (\<lambda>fromAddress.
     bnd (lift (ParsePropertyId (rv env) (params ! 1))) (\<lambda>propertyId.
     bnd (require env (RequireExistingProperty propertyId)) (\<lambda>_.
     bnd (require env (RequireCrowdsale propertyId)) (\<lambda>_.
     bnd (require env (RequireActiveCrowdsale propertyId)) (\<lambda>_.
     bnd (require env (RequireTokenIssuer fromAddress propertyId)) (\<lambda>_.
     bnd (returns (CreatePayload_CloseCrowdsale propertyId)) (\<lambda>payload.
     bnd read_autoCommit (\<lambda>commit.
     bnd (call_WalletTxBuilder env
            (fromAddress, [], [], 0, payload, commit, None))
       (\<lambda>(result, txid, rawHex).
     if result \<noteq> 0 then throws (JSONRPCError (result_code result) (error_str (lg env) result))
     else bnd read_autoCommit (\<lambda>commit.
          if \<not> commit then returns (VSTR rawHex)
          else returns (VSTR (GetHex (wl env) txid)))))))))))))"

definition exodus_sendtrade :: "env \<Rightarrow> UniValue list \<Rightarrow> bool \<Rightarrow> UniValue rpc" where
  "exodus_sendtrade env params fHelp =
    (if fHelp \<or> length params \<noteq> 5 then usage ''exodus_sendtrade'' else
     bnd (lift (ParseAddress (rv env) (params ! 0))) (\<lambda>fromAddress.
     bnd (lift (ParsePropertyId (rv env) (params ! 1))) (\<lambda>propertyIdForSale.
     bnd (lift (ParseAmount (rv env) (params ! 2) (isPropertyDivisible (lg env) propertyIdForSale))) (\<lambda>amountForSale.
     bnd (lift (ParsePropertyId (rv env) (params ! 3))) (\<lambda>propertyIdDesired.
     bnd (lift (ParseAmount (rv env) (params ! 4) (isPropertyDivisible (lg env) propertyIdDesired))) (\<lambda>amountDesired.
     bnd (require env (RequireExistingProperty propertyIdForSale)) (\<lambda>_.
     bnd (require env (RequireExistingProperty propertyIdDesired)) (\<lambda>_.
     bnd (require env (RequireBalance fromAddress propertyIdForSale amountForSale)) (\<lambda>_.
     bnd (require env (RequireSameEcosystem propertyIdForSale propertyIdDesired)) (\<lambda>_.
     bnd (require env (RequireDifferentIds propertyIdForSale propertyIdDesired)) (\<lambda>_.
     bnd (returns (CreatePayload_MetaDExTrade propertyIdForSale amountForSale
                       propertyIdDesired amountDesired)) (\<lambda>payload.
     bnd read_autoCommit (\<lambda>commit.
     bnd (call_WalletTxBuilder env
            (fromAddress, [], [], 0, payload, commit, None))
       (\<lambda>(result, txid, rawHex).
     if result \<noteq> 0 then throws (JSONRPCError (result_code result) (error_str (lg env) result))
     else bnd read_autoCommit (\<lambda>commit.
          if \<not> commit then returns (VSTR rawHex)
          else bnd (PendingAdd txid fromAddress EXODUS_TYPE_METADEX_TRADE propertyIdForSale
                                     amountForSale PendingAdd_default_fSubtract) (\<lambda>_.
               returns (VSTR (GetHex (wl env) txid))))))))))))))))))"

definition exodus_sendcanceltradesbyprice :: "env \<Rightarrow> UniValue list \<Rightarrow> bool \<Rightarrow> UniValue rpc" where
  "exodus_sendcanceltradesbyprice env params fHelp =
    (if fHelp \<or> length params \<noteq> 5 then usage ''exodus_sendcanceltradesbyprice'' else
     bnd (lift (ParseAddress (rv env) (params ! 0))) (\<lambda>fromAddress.
     bnd (lift (ParsePropertyId (rv env) (params ! 1))) (\<lambda>propertyIdForSale.
     bnd (lift (ParseAmount (rv env) (params ! 2) (isPropertyDivisible (lg env) propertyIdForSale))) (\<lambda>amountForSale.
     bnd (lift (ParsePropertyId (rv env) (params ! 3))) (\<lambda>propertyIdDesired.
     bnd (lift (ParseAmount (rv env) (params ! 4) (isPropertyDivisible (lg env) propertyIdDesired))) (\<lambda>amountDesired.
     bnd (require env (RequireExistingProperty propertyIdForSale)) (\<lambda>_.
     bnd (require env (RequireExistingProperty propertyIdDesired)) (\<lambda>_.
     bnd (require env (RequireSameEcosystem propertyIdForSale propertyIdDesired)) (\<lambda>_.
     bnd (require env (RequireDifferentIds propertyIdForSale propertyIdDesired)) (\<lambda>_.
     bnd (returns (CreatePayload_MetaDExCancelPrice propertyIdForSale amountForSale
                       propertyIdDesired amountDesired)) (\<lambda>payload.
     bnd read_autoCommit (\<lambda>commit.
     bnd (call_WalletTxBuilder env
            (fromAddress, [], [], 0, payload, commit, None))
       (\<lambda>(result, txid, rawHex).
     if result \<noteq> 0 then throws (JSONRPCError (result_code result) (error_str (lg env) result))
     else bnd read_autoCommit (\<lambda>commit.
          if \<not> commit then returns (VSTR rawHex)
          else bnd (PendingAdd txid fromAddress EXODUS_TYPE_METADEX_CANCEL_PRICE propertyIdForSale
                                     amountForSale False) (\<lambda>_.
               returns (VSTR (GetHex (wl env) txid)))))))))))))))))"

definition exodus_sendcanceltradesbypair :: "env \<Rightarrow> UniValue list \<Rightarrow> bool \<Rightarrow> UniValue rpc" where
  "exodus_sendcanceltradesbypair env params fHelp =
    (if fHelp \<or> length params \<noteq> 3 then usage ''exodus_sendcanceltradesbypair'' else
     bnd (lift (ParseAddress (rv env) (params ! 0))) (\<lambda>fromAddress.
     bnd (lift (ParsePropertyId (rv env) (params ! 1))) (\<lambda>propertyIdForSale.
     bnd (lift (ParsePropertyId (rv env) (params ! 2))) (\<lambda>propertyIdDesired.
     bnd (require env (RequireExistingProperty propertyIdForSale)) (\<lambda>_.
     bnd (require env (RequireExistingProperty propertyIdDesired)) (\<lambda>_.
     bnd (require env (RequireSameEcosystem propertyIdForSale propertyIdDesired)) (\<lambda>_.
     bnd (require env (RequireDifferentIds propertyIdForSale propertyIdDesired)) (\<lambda>_.
     bnd (returns (CreatePayload_MetaDExCancelPair propertyIdForSale propertyIdDesired)) (\<lambda>payload.
     bnd read_autoCommit (\<lambda>commit.
     bnd (call_WalletTxBuilder env
            (fromAddress, [], [], 0, payload, commit, None))
       (\<lambda>(result, txid, rawHex).
     if result \<noteq> 0 then throws (JSONRPCError (result_code result) (error_str (lg env) result))
     else bnd read_autoCommit (\<lambda>commit.
          if \<not> commit then returns (VSTR rawHex)
          else bnd (PendingAdd txid fromAddress EXODUS_TYPE_METADEX_CANCEL_PAIR propertyIdForSale 0
                                     False) (\<lambda>_.
               returns (VSTR (GetHex (wl env) txid)))))))))))))))"

definition exodus_sendcancelalltrades :: "env \<Rightarrow> UniValue list \<Rightarrow> bool \<Rightarrow> UniValue rpc" where
  "exodus_sendcancelalltrades env params fHelp =
    (if fHelp \<or> length params \<noteq> 2 then usage ''exodus_sendcancelalltrades'' else
     bnd (lift (ParseAddress (rv env) (params ! 0))) (\<lambda>fromAddress.
     bnd (lift (ParseEcosystem (rv env) (params ! 1))) (\<lambda>ecosystem.
     bnd (returns (CreatePayload_MetaDExCancelEcosystem ecosystem)) (\<lambda>payload.
     bnd read_autoCommit (\<lambda>commit.
     bnd (call_WalletTxBuilder env
            (fromAddress, [], [], 0, payload, commit, None))
       (\<lambda>(result, txid, rawHex).
     if result \<noteq> 0 then throws (JSONRPCError (result_code result) (error_str (lg env) result))
     else bnd read_autoCommit (\<lambda>commit.
          if \<not> commit then returns (VSTR rawHex)
          else bnd (PendingAdd txid fromAddress EXODUS_TYPE_METADEX_CANCEL_ECOSYSTEM ecosystem 0
                                     False) (\<lambda>_.
               returns (VSTR (GetHex (wl env) txid))))))))))"

text \<open>
  The deprecated \<^verbatim>\<open>trade_MP\<close> repacks its parameters and calls one of the four calls
  above. Its two property ids are read as 64-bit integers and passed to predicates on
  32-bit ones.
\<close>

definition trade_MP :: "env \<Rightarrow> UniValue list \<Rightarrow> bool \<Rightarrow> UniValue rpc" where
  "trade_MP env params fHelp =
    (if fHelp \<or> length params \<noteq> 6 then usage ''trade_MP'' else
     bnd (lift (ParseMetaDExAction (rv env) (params ! 5))) (\<lambda>action.
     if action = CMPTransaction_ADD
     then exodus_sendtrade env
            [params ! 0, params ! 1, params ! 2, params ! 3, params ! 4] fHelp
     else if action = CMPTransaction_CANCEL_AT_PRICE
     then exodus_sendcanceltradesbyprice env
            [params ! 0, params ! 1, params ! 2, params ! 3, params ! 4] fHelp
     else if action = CMPTransaction_CANCEL_ALL_FOR_PAIR
     then exodus_sendcanceltradesbypair env [params ! 0, params ! 1, params ! 3] fHelp
     else if action = CMPTransaction_CANCEL_EVERYTHING
     then
       bnd (bnd (lift (get_int64 (rv env) (params ! 1))) (\<lambda>p1.
            if isMainEcosystemProperty (lg env) (nat (p1 mod 2 ^ 32))
            then bnd (lift (get_int64 (rv env) (params ! 3))) (\<lambda>p3.
                 returns (isMainEcosystemProperty (lg env) (nat (p3 mod 2 ^ 32))))
            else returns False)) (\<lambda>bothMain.
       bnd (returns (if bothMain then EXODUS_PROPERTY_EXODUS else 0)) (\<lambda>ecosystem.
       bnd (bnd (lift (get_int64 (rv env) (params ! 1))) (\<lambda>p1.
            if isTestEcosystemProperty (lg env) (nat (p1 mod 2 ^ 32))
            then bnd (lift (get_int64 (rv env) (params ! 3))) (\<lambda>p3.
                 returns (isTestEcosystemProperty (lg env) (nat (p3 mod 2 ^ 32))))
            else returns False)) (\<lambda>bothTest.
       bnd (returns (if bothTest then EXODUS_PROPERTY_TEXODUS else ecosystem)) (\<lambda>ecosystem.
       exodus_sendcancelalltrades env [params ! 0, VNUM (int ecosystem)] fHelp))))
     else throws (JSONRPCError RPC_TYPE_ERROR ''Invalid action (1,2,3,4 only)'')))"

definition exodus_sendchangeissuer :: "env \<Rightarrow> UniValue list \<Rightarrow> bool \<Rightarrow> UniValue rpc" where
  "exodus_sendchangeissuer env params fHelp =
    (if fHelp \<or> length params \<noteq> 3 then usage ''exodus_sendchangeissuer'' else
     bnd (lift (ParseAddress (rv env) (params ! 0))) (\<lambda>fromAddress.
     bnd (lift (ParseAddress (rv env) (params ! 1))) (\<lambda>toAddress.
     bnd (lift (ParsePropertyId (rv env) (params ! 2))) (\<lambda>propertyId.
     bnd (require env (RequireExistingProperty propertyId)) (\<lambda>_.
     bnd (require env (RequireTokenIssuer fromAddress propertyId)) (\<lambda>_.
     bnd (returns (CreatePayload_ChangeIssuer propertyId)) (\<lambda>payload.
     bnd read_autoCommit (\<lambda>commit.
     bnd (call_WalletTxBuilder env
            (fromAddress, toAddress, [], 0, payload, commit, None))
       (\<lambda>(result, txid, rawHex).
     if result \<noteq> 0 then throws (JSONRPCError (result_code result) (error_str (lg env) result))
     else bnd read_autoCommit (\<lambda>commit.
          if \<not> commit then returns (VSTR rawHex)
          else returns (VSTR (GetHex (wl env) txid))))))))))))"

definition exodus_sendenablefreezing :: "env \<Rightarrow> UniValue list \<Rightarrow> bool \<Rightarrow> UniValue rpc" where
  "exodus_sendenablefreezing env params fHelp =
    (if fHelp \<or> length params \<noteq> 2 then usage ''exodus_sendenablefreezing'' else
     bnd (lift (ParseAddress (rv env) (params ! 0))) (\<lambda>fromAddress.
     bnd (lift (ParsePropertyId (rv env) (params ! 1))) (\<lambda>propertyId.
     bnd (require env (RequireExistingProperty propertyId)) (\<lambda>_.
     bnd (require env (RequireManagedProperty propertyId)) (\<lambda>_.
     bnd (require env (RequireTokenIssuer fromAddress propertyId)) (\<lambda>_.
     bnd (returns (CreatePayload_EnableFreezing propertyId)) (\<lambda>payload.
     bnd read_autoCommit (\<lambda>commit.
     bnd (call_WalletTxBuilder env
            (fromAddress, [], [], 0, payload, commit, None))
       (\<lambda>(result, txid, rawHex).
     if result \<noteq> 0 then throws (JSONRPCError (result_code result) (error_str (lg env) result))
     else bnd read_autoCommit (\<lambda>commit.
          if \<not> commit then returns (VSTR rawHex)
          else returns (VSTR (GetHex (wl env) txid))))))))))))"

definition exodus_senddisablefreezing :: "env \<Rightarrow> UniValue list \<Rightarrow> bool \<Rightarrow> UniValue rpc" where
  "exodus_senddisablefreezing env params fHelp =
    (if fHelp \<or> length params \<noteq> 2 then usage ''exodus_senddisablefreezing'' else
     bnd (lift (ParseAddress (rv env) (params ! 0))) (\<lambda>fromAddress.
     bnd (lift (ParsePropertyId (rv env) (params ! 1))) (\<lambda>propertyId.
     bnd (require env (RequireExistingProperty propertyId)) (\<lambda>_.
     bnd (require env (RequireManagedProperty propertyId)) (\<lambda>_.
     bnd (require env (RequireTokenIssuer fromAddress propertyId)) (\<lambda>_.
     bnd (returns (CreatePayload_DisableFreezing propertyId)) (\<lambda>payload.
     bnd read_autoCommit (\<lambda>commit.
     bnd (call_WalletTxBuilder env
            (fromAddress, [], [], 0, payload, commit, None))
       (\<lambda>(result, txid, rawHex).
     if result \<noteq> 0 then throws (JSONRPCError (result_code result) (error_str (lg env) result))
     else bnd read_autoCommit (\<lambda>commit.
          if \<not> commit then returns (VSTR rawHex)
          else returns (VSTR (GetHex (wl env) txid))))))))))))"

definition exodus_sendfreeze :: "env \<Rightarrow> UniValue list \<Rightarrow> bool \<Rightarrow> UniValue rpc" where
  "exodus_sendfreeze env params fHelp =
    (if fHelp \<or> length params \<noteq> 4 then usage ''exodus_sendfreeze'' else
     bnd (lift (ParseAddress (rv env) (params ! 0))) (\<lambda>fromAddress.
     bnd (lift (ParseAddress (rv env) (params ! 1))) (\<lambda>refAddress.
     bnd (lift (ParsePropertyId (rv env) (params ! 2))) (\<lambda>propertyId.
     bnd (lift (ParseAmount (rv env) (params ! 3) (isPropertyDivisible (lg env) propertyId))) (\<lambda>amount.
     bnd (require env (RequireExistingProperty propertyId)) (\<lambda>_.
     bnd (require env (RequireManagedProperty propertyId)) (\<lambda>_.
     bnd (require env (RequireTokenIssuer fromAddress propertyId)) (\<lambda>_.
     bnd (returns (CreatePayload_FreezeTokens propertyId amount refAddress)) (\<lambda>payload.
     bnd read_autoCommit (\<lambda>commit.
     bnd (call_WalletTxBuilder env
            (fromAddress, [], [], 0, payload, commit, None))
       (\<lambda>(result, txid, rawHex).
     if result \<noteq> 0 then throws (JSONRPCError (result_code result) (error_str (lg env) result))
     else bnd read_autoCommit (\<lambda>commit.
          if \<not> commit then returns (VSTR rawHex)
          else returns (VSTR (GetHex (wl env) txid))))))))))))))"

definition exodus_sendunfreeze :: "env \<Rightarrow> UniValue list \<Rightarrow> bool \<Rightarrow> UniValue rpc" where
  "exodus_sendunfreeze env params fHelp =
    (if fHelp \<or> length params \<noteq> 4 then usage ''exodus_sendunfreeze'' else
     bnd (lift (ParseAddress (rv env) (params ! 0))) (\<lambda>fromAddress.
     bnd (lift (ParseAddress (rv env) (params ! 1))) (\<lambda>refAddress.
     bnd (lift (ParsePropertyId (rv env) (params ! 2))) (\<lambda>propertyId.
     bnd (lift (ParseAmount (rv env) (params ! 3) (isPropertyDivisible (lg env) propertyId))) (\<lambda>amount.
     bnd (require env (RequireExistingProperty propertyId)) (\<lambda>_.
     bnd (require env (RequireManagedProperty propertyId)) (\<lambda>_.
     bnd (require env (RequireTokenIssuer fromAddress propertyId)) (\<lambda>_.
     bnd (returns (CreatePayload_UnfreezeTokens propertyId amount refAddress)) (\<lambda>payload.
     bnd read_autoCommit (\<lambda>commit.
     bnd (call_WalletTxBuilder env
            (fromAddress, [], [], 0, payload, commit, None))
       (\<lambda>(result, txid, rawHex).
     if result \<noteq> 0 then throws (JSONRPCError (result_code result) (error_str (lg env) result))
     else bnd read_autoCommit (\<lambda>commit.
          if \<not> commit then returns (VSTR rawHex)
          else returns (VSTR (GetHex (wl env) txid))))))))))))))"

definition exodus_sendactivation :: "env \<Rightarrow> UniValue list \<Rightarrow> bool \<Rightarrow> UniValue rpc" where
  "exodus_sendactivation env params fHelp =
    (if fHelp \<or> length params \<noteq> 4 then usage ''exodus_sendactivation'' else
     bnd (lift (ParseAddress (rv env) (params ! 0))) (\<lambda>fromAddress.
     bnd (bnd (lift (get_int (rv env) (params ! 1))) (\<lambda>v. returns (nat (v mod 2 ^ 16)))) (\<lambda>featureId.
     bnd (bnd (lift (get_int (rv env) (params ! 2))) (\<lambda>v. returns (nat (v mod 2 ^ 32)))) (\<lambda>activationBlock.
     bnd (bnd (lift (get_int (rv env) (params ! 3))) (\<lambda>v. returns (nat (v mod 2 ^ 32)))) (\<lambda>minClientVersion.
     bnd (returns (CreatePayload_ActivateFeature featureId activationBlock
                       minClientVersion)) (\<lambda>payload.
     bnd read_autoCommit (\<lambda>commit.
     bnd (call_WalletTxBuilder env
            (fromAddress, [], [], 0, payload, commit, None))
       (\<lambda>(result, txid, rawHex).
     if result \<noteq> 0 then throws (JSONRPCError (result_code result) (error_str (lg env) result))
     else bnd read_autoCommit (\<lambda>commit.
          if \<not> commit then returns (VSTR rawHex)
          else returns (VSTR (GetHex (wl env) txid)))))))))))"

definition exodus_senddeactivation :: "env \<Rightarrow> UniValue list \<Rightarrow> bool \<Rightarrow> UniValue rpc" where
  "exodus_senddeactivation env params fHelp =
    (if fHelp \<or> length params \<noteq> 2 then usage ''exodus_senddeactivation'' else
     bnd (lift (ParseAddress (rv env) (params ! 0))) (\<lambda>fromAddress.
     bnd (bnd (lift (get_int64 (rv env) (params ! 1))) (\<lambda>v. returns (nat (v mod 2 ^ 16)))) (\<lambda>featureId.
     bnd (returns (CreatePayload_DeactivateFeature featureId)) (\<lambda>payload.
     bnd read_autoCommit (\<lambda>commit.
     bnd (call_WalletTxBuilder env
            (fromAddress, [], [], 0, payload, commit, None))
       (\<lambda>(result, txid, rawHex).
     if result \<noteq> 0 then throws (JSONRPCError (result_code result) (error_str (lg env) result))
     else bnd read_autoCommit (\<lambda>commit.
          if \<not> commit then returns (VSTR rawHex)
          else returns (VSTR (GetHex (wl env) txid)))))))))"

definition exodus_sendalert :: "env \<Rightarrow> UniValue list \<Rightarrow> bool \<Rightarrow> UniValue rpc" where
  "exodus_sendalert env params fHelp =
    (if fHelp \<or> length params \<noteq> 4 then usage ''exodus_sendalert'' else
     bnd (lift (ParseAddress (rv env) (params ! 0))) (\<lambda>fromAddress.
     bnd (lift (get_int64 (rv env) (params ! 1))) (\<lambda>tempAlertType.
     bnd (throw_if (AlertTypeInRange tempAlertType) (tempAlertType < 1 \<or> 65535 < tempAlertType)
            (JSONRPCError RPC_INVALID_PARAMETER ''Alert type is out of range'')) (\<lambda>_.
     bnd (returns (nat tempAlertType)) (\<lambda>alertType.
     bnd (lift (get_int64 (rv env) (params ! 2))) (\<lambda>tempExpiryValue.
     bnd (throw_if (ExpiryValueInRange tempExpiryValue) (tempExpiryValue < 1 \<or> 4294967295 < tempExpiryValue)
            (JSONRPCError RPC_INVALID_PARAMETER ''Expiry value is out of range'')) (\<lambda>_.
     bnd (returns (nat tempExpiryValue)) (\<lambda>expiryValue.
     bnd (lift (ParseText (rv env) (params ! 3))) (\<lambda>alertMessage.
     bnd (returns (CreatePayload_ExodusAlert alertType expiryValue alertMessage)) (\<lambda>payload.
     bnd read_autoCommit (\<lambda>commit.
     bnd (call_WalletTxBuilder env
            (fromAddress, [], [], 0, payload, commit, None))
       (\<lambda>(result, txid, rawHex).
     if result \<noteq> 0 then throws (JSONRPCError (result_code result) (error_str (lg env) result))
     else bnd read_autoCommit (\<lambda>commit.
          if \<not> commit then returns (VSTR rawHex)
          else returns (VSTR (GetHex (wl env) txid)))))))))))))))"

definition exodus_sendcreatedenomination :: "env \<Rightarrow> UniValue list \<Rightarrow> bool \<Rightarrow> UniValue rpc" where
  "exodus_sendcreatedenomination env params fHelp =
    (if fHelp \<or> length params \<noteq> 3 then usage ''exodus_sendcreatedenomination'' else
     bnd (lift (ParseAddress (rv env) (params ! 0))) (\<lambda>fromAddress.
     bnd (lift (ParsePropertyId (rv env) (params ! 1))) (\<lambda>propertyId.
     bnd (lift (ParseAmount (rv env) (params ! 2) (isPropertyDivisible (lg env) propertyId))) (\<lambda>value.
     bnd (require env (RequireExistingProperty propertyId)) (\<lambda>_.
     bnd (require env (RequireTokenIssuer fromAddress propertyId)) (\<lambda>_.
     bnd (require env (RequireSigma propertyId)) (\<lambda>_.
     bnd (case getSP_denominations (lg env) propertyId of
            None \<Rightarrow> throws (assertion_failure ''_my_sps->getSP(propertyId, info)'')
          | Some ds \<Rightarrow> returns ds) (\<lambda>denominations.
     bnd (throw_if (RoomForNewDenomination propertyId)
            (length denominations \<ge> MAX_DENOMINATIONS (lg env))
            (JSONRPCError RPC_INVALID_PARAMETER ''No more room for new denomination'')) (\<lambda>_.
     bnd (throw_if (NewDenominationValue propertyId value) (value \<in> set denominations)
            (JSONRPCError RPC_INVALID_PARAMETER
               (''Denomination with value '' @ FormatMP (lg env) propertyId value
                  @ '' already exists''))) (\<lambda>_.
     bnd (returns (CreatePayload_CreateDenomination propertyId value)) (\<lambda>payload.
     bnd read_autoCommit (\<lambda>commit.
     bnd (call_WalletTxBuilder env
            (fromAddress, [], [], 0, payload, commit, None))
       (\<lambda>(result, txid, rawHex).
     if result \<noteq> 0 then throws (JSONRPCError (result_code result) (error_str (lg env) result))
     else bnd read_autoCommit (\<lambda>commit.
          if \<not> commit then returns (VSTR rawHex)
          else returns (VSTR (GetHex (wl env) txid))))))))))))))))"

text \<open>
  The loop of \<^verbatim>\<open>exodus_sendmint\<close> over the keys of the denominations object: it
  appends \<open>amount\<close> copies of each denomination to \<open>denoms\<close> and rejects a denomination
  that still needs confirmations.
\<close>

fun exodus_sendmint_collect ::
  "env \<Rightarrow> nat \<Rightarrow> UniValue \<Rightarrow> int \<Rightarrow> string list \<Rightarrow> nat list \<Rightarrow> nat list rpc" where
  "exodus_sendmint_collect env propertyId denominations minConfirms [] denoms = returns denoms"
| "exodus_sendmint_collect env propertyId denominations minConfirms (denom # keys) denoms =
     bnd (lift (stoul (rv env) denom)) (\<lambda>denomId.
     bnd (throw_if (ValidDenomination denomId) (denomId > UINT8_MAX)
            (JSONRPCError RPC_INVALID_PARAMETER ''invalid denomination'')) (\<lambda>_.
     bnd (lift (get_int (rv env) (at_key (rv env) denominations denom))) (\<lambda>amount.
     bnd (throw_if (ValidAmountOfMints amount) (amount < 0 \<or> amount > int UINT8_MAX)
            (JSONRPCError RPC_INVALID_PARAMETER ''invalid amount of mints'')) (\<lambda>_.
     bnd (returns (denoms @ replicate (nat amount) denomId)) (\<lambda>denoms.
     bnd (try_catch
            (lift (getDenominationRemainingConfirmation (lg env) propertyId denomId minConfirms))
            (\<lambda>e. case e of
                   invalid_argument what \<Rightarrow>
                     Some (throws (JSONRPCError RPC_INVALID_PARAMETER what))
                 | _ \<Rightarrow> None)) (\<lambda>remainingConfirms.
     bnd (throw_if (ConfirmedDenomination propertyId denomId minConfirms) (remainingConfirms \<noteq> 0)
            (JSONRPCError RPC_INVALID_PARAMETER
               ''confirmations of the denomination is less than required'')) (\<lambda>_.
     exodus_sendmint_collect env propertyId denominations minConfirms keys denoms)))))))"

text \<open>
  The loop of \<^verbatim>\<open>exodus_sendmint\<close> that erases the mints after a failed build; the
  caller passes the identifiers reversed.
\<close>

fun exodus_sendmint_erase :: "env \<Rightarrow> SigmaMintId list \<Rightarrow> unit rpc" where
  "exodus_sendmint_erase env [] = returns ()"
| "exodus_sendmint_erase env (i # ids) =
     bnd (try_catch (call_EraseSigmaMint env i)
            (\<lambda>e. case caught_as_runtime_error e of
                   Some what \<Rightarrow>
                     Some (LogPrintf (''exodus_sendmint : Fail to erase sigma mints, '' @ what
                                        @ [CHR 0x0A]))
                 | None \<Rightarrow> None)) (\<lambda>_.
     exodus_sendmint_erase env ids)"

definition exodus_sendmint :: "env \<Rightarrow> UniValue list \<Rightarrow> bool \<Rightarrow> UniValue rpc" where
  "exodus_sendmint env params fHelp =
    (if fHelp \<or> length params < 3 \<or> length params > 4 then usage ''exodus_sendmint'' else
     bnd (lift (ParseAddress (rv env) (params ! 0))) (\<lambda>fromAddress.
     bnd (lift (ParsePropertyId (rv env) (params ! 1))) (\<lambda>propertyId.
     bnd (lift (get_obj (rv env) (params ! 2))) (\<lambda>denominations.
     bnd (if length params > 3 then lift (get_int (rv env) (params ! 3)) else returns 6) (\<lambda>minConfirms.
     bnd (require env (RequireExistingProperty propertyId)) (\<lambda>_.
     bnd (require env (RequireSigma propertyId)) (\<lambda>_.
     bnd (lift (getKeys (rv env) denominations)) (\<lambda>keys.
     bnd (exodus_sendmint_collect env propertyId denominations minConfirms keys []) (\<lambda>denoms.
     bnd (try_catch (lift (SumDenominationsValue (lg env) propertyId denoms))
            (\<lambda>e. case e of
                   invalid_argument what \<Rightarrow> Some (throws (JSONRPCError RPC_INVALID_PARAMETER what))
                 | overflow_error what \<Rightarrow> Some (throws (JSONRPCError RPC_INVALID_PARAMETER what))
                 | _ \<Rightarrow> None)) (\<lambda>amount.
     bnd (require env (RequireBalance fromAddress propertyId amount)) (\<lambda>_.
     bnd (call_CreateSigmaMints env propertyId denoms) (\<lambda>ids.
     bnd (returns (map (\<lambda>m. (denomination m, pubKey m)) ids)) (\<lambda>mints.
     bnd (returns (CreatePayload_SimpleMint propertyId mints)) (\<lambda>payload.
     bnd read_autoCommit (\<lambda>commit.
     bnd (call_WalletTxBuilder env
            (fromAddress, [], [], 0, payload, commit, None))
       (\<lambda>(result, txid, rawHex).
     if result \<noteq> 0 then bnd (exodus_sendmint_erase env (rev ids)) (\<lambda>_. throws (JSONRPCError (result_code result) (error_str (lg env) result)))
     else bnd read_autoCommit (\<lambda>commit.
          if \<not> commit then returns (VSTR rawHex)
          else bnd (PendingAdd txid fromAddress EXODUS_TYPE_SIMPLE_MINT propertyId amount
                                     PendingAdd_default_fSubtract) (\<lambda>_.
               returns (VSTR (GetHex (wl env) txid))))))))))))))))))))"

definition exodus_sendspend :: "env \<Rightarrow> UniValue list \<Rightarrow> bool \<Rightarrow> UniValue rpc" where
  "exodus_sendspend env params fHelp =
    (if fHelp \<or> length params < 3 \<or> length params > 4 then usage ''exodus_sendspend'' else
     bnd (lift (ParseAddress (rv env) (params ! 0))) (\<lambda>toAddress.
     bnd (lift (ParsePropertyId (rv env) (params ! 1))) (\<lambda>propertyId.
     bnd (lift (ParseSigmaDenomination (rv env) (params ! 2))) (\<lambda>denom.
     bnd (if length params > 3 then lift (ParseAmount (rv env) (params ! 3) True) else returns 0) (\<lambda>referenceAmount.
     bnd (require env (RequireExistingProperty propertyId)) (\<lambda>_.
     bnd (require env (RequireExistingDenomination propertyId denom)) (\<lambda>_.
     bnd (require env (RequireSaneReferenceAmount referenceAmount)) (\<lambda>_.
     bnd (try_catch
            (bnd (call_CreateSigmaSpend env propertyId denom) (\<lambda>spend.
             returns (mint spend,
               CreatePayload_SimpleSpend (property (mint spend)) (denomination (mint spend))
                 (group spend) (groupSize spend) (spendProof spend))))
            (\<lambda>e. case e of
                   InsufficientFunds what \<Rightarrow>
                     Some (throws (JSONRPCError RPC_WALLET_INSUFFICIENT_FUNDS what))
                 | WalletError what \<Rightarrow> Some (throws (JSONRPCError RPC_WALLET_ERROR what))
                 | _ \<Rightarrow> None)) (\<lambda>(spentMint, payload).
     bnd read_autoCommit (\<lambda>commit.
     bnd (call_WalletTxBuilder env
            ([], toAddress, [], referenceAmount, payload, commit, Some InputMode_SIGMA))
       (\<lambda>(result, txid, rawHex).
     if result \<noteq> 0 then throws (JSONRPCError (result_code result) (error_str (lg env) result))
     else bnd (SetSigmaMintUsedTransaction spentMint txid) (\<lambda>_.
          bnd read_autoCommit (\<lambda>commit.
          if \<not> commit then returns (VSTR rawHex)
          else bnd (lift (GetDenominationValue (lg env) (property spentMint)
                                             (denomination spentMint))) (\<lambda>faceValue.
               bnd (PendingAdd txid ''Spend'' EXODUS_TYPE_SIMPLE_SPEND propertyId faceValue False) (\<lambda>_.
               returns (VSTR (GetHex (wl env) txid)))))))))))))))))"

text \<open>
  The table of commands the file registers: category, name, actor and the safe-mode
  flag. The last four are the deprecated names.
\<close>

type_synonym actor = "UniValue list \<Rightarrow> bool \<Rightarrow> UniValue rpc"

definition commands :: "env \<Rightarrow> (string \<times> string \<times> actor \<times> bool) list" where
  "commands env = [
    (''exodus (transaction creation)'', ''exodus_sendrawtx'', exodus_sendrawtx env, False),
    (''exodus (transaction creation)'', ''exodus_send'', exodus_send env, False),
    (''hidden'', ''exodus_senddexsell'', exodus_senddexsell env, False),
    (''hidden'', ''exodus_senddexaccept'', exodus_senddexaccept env, False),
    (''hidden'', ''exodus_sendissuancecrowdsale'', exodus_sendissuancecrowdsale env, False),
    (''exodus (transaction creation)'', ''exodus_sendissuancefixed'', exodus_sendissuancefixed env, False),
    (''exodus (transaction creation)'', ''exodus_sendissuancemanaged'', exodus_sendissuancemanaged env, False),
    (''exodus (transaction creation)'', ''exodus_sendtrade'', exodus_sendtrade env, False),
    (''exodus (transaction creation)'', ''exodus_sendcanceltradesbyprice'', exodus_sendcanceltradesbyprice env, False),
    (''exodus (transaction creation)'', ''exodus_sendcanceltradesbypair'', exodus_sendcanceltradesbypair env, False),
    (''exodus (transaction creation)'', ''exodus_sendcancelalltrades'', exodus_sendcancelalltrades env, False),
    (''exodus (transaction creation)'', ''exodus_sendsto'', exodus_sendsto env, False),
    (''exodus (transaction creation)'', ''exodus_sendgrant'', exodus_sendgrant env, False),
    (''exodus (transaction creation)'', ''exodus_sendrevoke'', exodus_sendrevoke env, False),
    (''hidden'', ''exodus_sendclosecrowdsale'', exodus_sendclosecrowdsale env, False),
    (''exodus (transaction creation)'', ''exodus_sendchangeissuer'', exodus_sendchangeissuer env, False),
    (''hidden'', ''exodus_sendall'', exodus_sendall env, False),
    (''hidden'', ''exodus_sendenablefreezing'', exodus_sendenablefreezing env, False),
    (''hidden'', ''exodus_senddisablefreezing'', exodus_senddisablefreezing env, False),
    (''hidden'', ''exodus_sendfreeze'', exodus_sendfreeze env, False),
    (''hidden'', ''exodus_sendunfreeze'', exodus_sendunfreeze env, False),
    (''hidden'', ''exodus_senddeactivation'', exodus_senddeactivation env, True),
    (''hidden'', ''exodus_sendactivation'', exodus_sendactivation env, False),
    (''hidden'', ''exodus_sendalert'', exodus_sendalert env, True),
    (''exodus (transaction creation)'', ''exodus_sendcreatedenomination'', exodus_sendcreatedenomination env, False),
    (''exodus (transaction creation)'', ''exodus_sendmint'', exodus_sendmint env, False),
    (''exodus (transaction creation)'', ''exodus_sendspend'', exodus_sendspend env, False),
    (''hidden'', ''sendrawtx_MP'', exodus_sendrawtx env, False),
    (''hidden'', ''send_MP'', exodus_send env, False),
    (''hidden'', ''sendtoowners_MP'', exodus_sendsto env, False),
    (''hidden'', ''trade_MP'', trade_MP env, False)]"

section \<open>What a run checked and what it called\<close>

text \<open>
  The calls and the checks that one run adds to the state, and the shapes of runs the
  theorems below speak about.
\<close>

definition calls_made :: "world \<Rightarrow> world \<Rightarrow> call list" where
  "calls_made s s' = drop (length (calls s)) (calls s')"

definition checks_made :: "world \<Rightarrow> world \<Rightarrow> (check \<times> cpp_exception option) list" where
  "checks_made s s' = drop (length (checked s)) (checked s')"

definition all_passed :: "(check \<times> cpp_exception option) list \<Rightarrow> bool" where
  "all_passed cs = list_all (\<lambda>c. snd c = None) cs"

definition failed_last :: "(check \<times> cpp_exception option) list \<Rightarrow> cpp_exception \<Rightarrow> bool" where
  "failed_last cs e = (cs \<noteq> [] \<and> all_passed (butlast cs) \<and> snd (last cs) = Some e)"

definition first_failure ::
  "(check \<times> cpp_exception option) list \<Rightarrow> cpp_exception + 'a \<Rightarrow> bool" where
  "first_failure cs r = (case r of Inl e \<Rightarrow> failed_last cs e | Inr x \<Rightarrow> False)"

definition checks_only :: "'a rpc \<Rightarrow> bool" where
  "checks_only m = (\<forall>s r s'. m s = (r, s') \<longrightarrow>
     calls s' = calls s \<and> payTxFee s' = payTxFee s \<and> autoCommit s' = autoCommit s \<and>
     (\<exists>new. checked s' = checked s @ new \<and> (all_passed new \<or> first_failure new r)))"

definition no_checks :: "'a rpc \<Rightarrow> bool" where
  "no_checks m = (\<forall>s r s'. m s = (r, s') \<longrightarrow> checked s' = checked s)"

definition stops_at_first_failing_check :: "'a rpc \<Rightarrow> bool" where
  "stops_at_first_failing_check m = (\<forall>s r s'. m s = (r, s') \<longrightarrow>
     (\<exists>new. checked s' = checked s @ new \<and>
        (all_passed new \<or>
         first_failure new r \<and> calls s' = calls s \<and> payTxFee s' = payTxFee s)))"

fun is_PendingAdd :: "call \<Rightarrow> bool" where
  "is_PendingAdd (PendingAdd_call t a k p n b) = True"
| "is_PendingAdd _ = False"

fun built_raw :: "call \<Rightarrow> string option" where
  "built_raw (WalletTxBuilder_call a fee (Inr (result, txid, rawHex))) =
     (if result = 0 then Some rawHex else None)"
| "built_raw _ = None"

definition quiet :: "'a rpc \<Rightarrow> bool" where
  "quiet m = (\<forall>s r s'. m s = (r, s') \<longrightarrow>
     autoCommit s' = autoCommit s \<and>
     (\<exists>new. calls s' = calls s @ new \<and>
        list_all (\<lambda>c. \<not> is_PendingAdd c \<and> built_raw c = None) new))"

definition after_build :: "int \<Rightarrow> string \<Rightarrow> UniValue rpc \<Rightarrow> bool" where
  "after_build result rawHex m = (\<forall>s r s'. m s = (r, s') \<and> \<not> autoCommit s \<longrightarrow>
     (\<exists>new. calls s' = calls s @ new \<and>
        list_all (\<lambda>c. \<not> is_PendingAdd c \<and> built_raw c = None) new \<and>
        (result = 0 \<longrightarrow> r = Inr (VSTR rawHex))))"

definition dry_run_ok :: "UniValue rpc \<Rightarrow> bool" where
  "dry_run_ok m = (\<forall>s r s'. m s = (r, s') \<and> \<not> autoCommit s \<longrightarrow>
     (\<exists>new. calls s' = calls s @ new \<and>
        list_all (\<lambda>c. \<not> is_PendingAdd c) new \<and>
        (\<forall>c \<in> set new. \<forall>rawHex. built_raw c = Some rawHex \<longrightarrow> r = Inr (VSTR rawHex))))"

text \<open>
  What one pass of the erase loop of \<^verbatim>\<open>exodus_sendmint\<close> puts on record for one mint:
  the call, and after a failure that the handler catches the line it logs.
\<close>

fun erase_attempt :: "SigmaMintId \<Rightarrow> cpp_exception option \<Rightarrow> call list" where
  "erase_attempt i None = [EraseSigmaMint_call i None]"
| "erase_attempt i (Some e) =
     EraseSigmaMint_call i (Some e) #
     (case caught_as_runtime_error e of
        Some what \<Rightarrow>
          [LogPrintf_call (''exodus_sendmint : Fail to erase sigma mints, '' @ what @ [CHR 0x0A])]
      | None \<Rightarrow> [])"

text \<open>
  The loop goes on to the next mint after an erase that returned and after one whose
  exception the handler caught. \<open>erase_outcomes\<close> lists what the wallet answered to the
  attempts the loop made, each in the state the attempts before it left behind.
\<close>

fun erase_went_on :: "cpp_exception option \<Rightarrow> bool" where
  "erase_went_on None = True"
| "erase_went_on (Some e) = (caught_as_runtime_error e \<noteq> None)"

fun erase_outcomes :: "env \<Rightarrow> world \<Rightarrow> SigmaMintId list \<Rightarrow> cpp_exception option list" where
  "erase_outcomes env s [] = []"
| "erase_outcomes env s (i # ids) =
     EraseSigmaMint (wl env) s i #
     (if erase_went_on (EraseSigmaMint (wl env) s i)
      then erase_outcomes env (s\<lparr>calls := calls s @ erase_attempt i (EraseSigmaMint (wl env) s i)\<rparr>) ids
      else [])"

text \<open>
  How a rollback ends, given the outcomes of its attempts on \<open>n\<close> mints: either the loop
  went on after each of the \<open>n\<close> attempts and the caller gets the error of the build, or
  the last attempt made raised what the handler does not catch, and the caller gets
  that.
\<close>

definition rollback_ends ::
  "nat \<Rightarrow> cpp_exception option list \<Rightarrow> cpp_exception \<Rightarrow> cpp_exception \<Rightarrow> bool" where
  "rollback_ends n outs build_error e =
     (if list_all erase_went_on outs then length outs = n \<and> e = build_error
      else outs \<noteq> [] \<and> length outs \<le> n \<and> list_all erase_went_on (butlast outs) \<and>
           last outs = Some e)"

text \<open>
  A request that \<^verbatim>\<open>exodus_senddexaccept\<close> takes as far as the builder: it has four or
  five parameters, they parse, the checks made for them pass, and the offer is found.
\<close>

definition accept_goes_to_build ::
  "env \<Rightarrow> UniValue list \<Rightarrow> bool \<Rightarrow> string \<Rightarrow> string \<Rightarrow> nat \<Rightarrow> int \<Rightarrow> int \<Rightarrow> bool" where
  "accept_goes_to_build env params fHelp fromAddress toAddress propertyId amount nMinimumAcceptFee =
     (\<not> fHelp \<and> 4 \<le> length params \<and> length params \<le> 5 \<and>
      ParseAddress (rv env) (params ! 0) = Inr fromAddress \<and>
      ParseAddress (rv env) (params ! 1) = Inr toAddress \<and>
      ParsePropertyId (rv env) (params ! 2) = Inr propertyId \<and>
      ParseAmount (rv env) (params ! 3) True = Inr amount \<and>
      Require (lg env) (RequirePrimaryToken propertyId) = None \<and>
      Require (lg env) (RequireMatchingDExOffer toAddress propertyId) = None \<and>
      (\<exists>override.
         (if length params > 4 then get_bool (rv env) (params ! 4) else Inr False) = Inr override \<and>
         (\<not> override \<longrightarrow>
            Require (lg env) (RequireSaneDExFee toAddress propertyId) = None \<and>
            Require (lg env) (RequireSaneDExPaymentWindow toAddress propertyId) = None)) \<and>
      DEx_getOffer_getMinFee (lg env) toAddress propertyId = Some nMinimumAcceptFee)"

section \<open>A small ledger and wallet\<close>

text \<open>
  A concrete set of collaborators, used to run the calls on concrete requests. Addresses
  are passed as strings and numbers and amounts as JSON numbers.
\<close>

definition ex_string :: "UniValue \<Rightarrow> cpp_exception + string" where
  "ex_string v =
     (case v of VSTR a \<Rightarrow> Inr a | _ \<Rightarrow> Inl (JSONRPCError RPC_TYPE_ERROR ''Expected type string''))"

definition ex_integer :: "UniValue \<Rightarrow> cpp_exception + int" where
  "ex_integer v =
     (case v of VNUM n \<Rightarrow> Inr n | _ \<Rightarrow> Inl (JSONRPCError RPC_TYPE_ERROR ''Expected type number''))"

definition ex_natural :: "UniValue \<Rightarrow> cpp_exception + nat" where
  "ex_natural v =
     (case v of
        VNUM n \<Rightarrow> if 0 \<le> n then Inr (nat n)
                  else Inl (JSONRPCError RPC_INVALID_PARAMETER ''Value is out of range'')
      | _ \<Rightarrow> Inl (JSONRPCError RPC_TYPE_ERROR ''Expected type number''))"

definition ex_json_int :: "UniValue \<Rightarrow> cpp_exception + int" where
  "ex_json_int v =
     (case v of VNUM n \<Rightarrow> Inr n | _ \<Rightarrow> Inl (runtime_error ''JSON value is not an integer as expected''))"

definition ex_rpcvalues :: rpcvalues where
  "ex_rpcvalues = \<lparr>
     ParseAddress = ex_string,
     ParseAddressOrEmpty = ex_string,
     ParseHexV = (\<lambda>v n. case v of VARR bs \<Rightarrow> Inr (map (\<lambda>b. case b of VNUM k \<Rightarrow> nat k | _ \<Rightarrow> 0) bs)
                          | _ \<Rightarrow> Inl (JSONRPCError RPC_INVALID_PARAMETER (n @ '' must be hexadecimal''))),
     ParseText = ex_string,
     ParsePropertyId = ex_natural,
     ParseAmount = (\<lambda>v divisible. ex_integer v),
     ParseAmountOfType = (\<lambda>v propertyType. ex_integer v),
     ParseEcosystem = ex_natural,
     ParsePropertyType = ex_natural,
     ParsePreviousPropertyId = ex_natural,
     ParseDeadline = ex_integer,
     ParseEarlyBirdBonus = ex_natural,
     ParseIssuerBonus = ex_natural,
     ParseDExAction = ex_natural,
     ParseDExPaymentWindow = ex_natural,
     ParseDExFee = ex_integer,
     ParseMetaDExAction = ex_natural,
     ParseSigmaDenomination = ex_natural,
     get_bool = (\<lambda>v. case v of VBOOL b \<Rightarrow> Inr b
                         | _ \<Rightarrow> Inl (runtime_error ''JSON value is not a boolean as expected'')),
     get_int = ex_json_int,
     get_int64 = ex_json_int,
     get_obj = (\<lambda>v. case v of VOBJ kvs \<Rightarrow> Inr v
                        | _ \<Rightarrow> Inl (runtime_error ''JSON value is not an object as expected'')),
     getKeys = (\<lambda>v. case v of VOBJ kvs \<Rightarrow> Inr (map fst kvs)
                        | _ \<Rightarrow> Inl (runtime_error ''JSON value is not an object as expected'')),
     at_key = (\<lambda>v k. case v of VOBJ kvs \<Rightarrow> (case map_of kvs k of Some x \<Rightarrow> x | None \<Rightarrow> VNULL)
                          | _ \<Rightarrow> VNULL),
     stoul = (\<lambda>k. if k = ''0'' then Inr 0 else if k = ''1'' then Inr 1 else if k = ''2'' then Inr 2
                   else Inl (invalid_argument ''stoul''))\<rparr>"

text \<open>
  A ledger in which every sender holds 1000 units of every property, every offer asks
  for a minimum accept fee of 5000, and denomination 1 of every property still needs
  two confirmations.
\<close>

definition ex_ledger :: ledger where
  "ex_ledger = \<lparr>
     Require = (\<lambda>q. case q of
                  RequireBalance a p n \<Rightarrow>
                    if 1000 < n then Some (JSONRPCError RPC_TYPE_ERROR ''Sender has insufficient balance'')
                    else None
                | _ \<Rightarrow> None),
     isPropertyDivisible = (\<lambda>p. False),
     isMainEcosystemProperty = (\<lambda>p. p < 2147483648),
     isTestEcosystemProperty = (\<lambda>p. 2147483648 \<le> p),
     DEx_getOffer_getMinFee = (\<lambda>a p. Some 5000),
     to_SigmaStatus = (\<lambda>v. nat (v mod 256)),
     getSP_denominations = (\<lambda>p. Some [100, 200, 300]),
     MAX_DENOMINATIONS = 255,
     getDenominationRemainingConfirmation = (\<lambda>p d c. Inr (if d = 1 then 2 else 0)),
     SumDenominationsValue = (\<lambda>p ds. Inr (sum_list (map (\<lambda>d. 100 * (int d + 1)) ds))),
     GetDenominationValue = (\<lambda>p d. Inr (100 * (int d + 1))),
     FormatMP = (\<lambda>p n. ''?''),
     error_str = (\<lambda>r. ''Error creating transaction'')\<rparr>"

text \<open>
  A wallet whose builder always answers \<open>built\<close>, whose new mints carry the public keys
  1, 2, 3, ... and which cannot erase the mint with public key 2.
\<close>

definition ex_wallet :: "cpp_exception + build_result \<Rightarrow> wallet" where
  "ex_wallet built = \<lparr>
     WalletTxBuilder = (\<lambda>s a. built),
     CreateSigmaMints = (\<lambda>s p ds.
        Inr (map (\<lambda>(k, d). \<lparr>property = p, denomination = d, pubKey = Suc k\<rparr>) (enumerate 0 ds))),
     EraseSigmaMint = (\<lambda>s i. if pubKey i = 2 then Some (runtime_error ''no mint data in wallet'') else None),
     CreateSigmaSpend = (\<lambda>s p d.
        Inr \<lparr>mint = \<lparr>property = p, denomination = d, pubKey = 7\<rparr>,
             group = 0, groupSize = 1, spendProof = 9\<rparr>),
     CFeeRate_of = (\<lambda>nFeePaid nSize. if 0 < nSize then nFeePaid * 1000 div int nSize else 0),
     GetHex = (\<lambda>t. replicate 62 (CHR ''0'') @ [''0123456789abcdef'' ! (t div 16 mod 16),
                                              ''0123456789abcdef'' ! (t mod 16)])\<rparr>"

definition ex_env :: "cpp_exception + build_result \<Rightarrow> env" where
  "ex_env built = \<lparr>rv = ex_rpcvalues, lg = ex_ledger, wl = ex_wallet built\<rparr>"

definition ex_world :: "bool \<Rightarrow> world" where
  "ex_world commit = \<lparr>payTxFee = 1000, autoCommit = commit, calls = [], checked = []\<rparr>"

definition ex_built :: "cpp_exception + build_result" where
  "ex_built = Inr (0, 42, ''0100'')"

text \<open>A builder result with a non-zero result code, and a builder that raises.\<close>

definition ex_failed :: "cpp_exception + build_result" where
  "ex_failed = Inr (- 1, 0, [])"

definition ex_raised :: "cpp_exception + build_result" where
  "ex_raised = Inl (other_exception ''std::bad_alloc'')"

definition ex_send_request :: "int \<Rightarrow> UniValue list" where
  "ex_send_request amount = [VSTR ''A'', VSTR ''B'', VNUM 3, VNUM amount]"

text \<open>The requests the examples run.\<close>

definition ex_accept_request :: "UniValue list" where
  "ex_accept_request = [VSTR ''A'', VSTR ''B'', VNUM 1, VNUM 15]"

definition ex_unparsed_accept_request :: "UniValue list" where
  "ex_unparsed_accept_request = [VSTR ''A'', VSTR ''B'', VSTR ''one'', VNUM 15]"

definition ex_cancel_request :: "UniValue list" where
  "ex_cancel_request = [VSTR ''A'', VNUM 1, VNULL, VNULL, VNULL, VNULL, VNUM 3]"

definition ex_spend_request :: "UniValue list" where
  "ex_spend_request = [VSTR ''B'', VNUM 3, VNUM 1]"

definition ex_sell_request :: "UniValue list" where
  "ex_sell_request = [VSTR ''A'', VNUM 1, VNUM 100, VNUM 7, VNUM 10, VNUM 5, VNUM 1]"

definition ex_denomination_request :: "UniValue list" where
  "ex_denomination_request = [VSTR ''A'', VNUM 3, VNUM 200]"

definition ex_mint_request :: "string \<Rightarrow> UniValue list" where
  "ex_mint_request second = [VSTR ''A'', VNUM 3, VOBJ [(''0'', VNUM 1), (second, VNUM 2)]]"

text \<open>
  What the runs of \<^verbatim>\<open>exodus_sendspend\<close> on \<open>ex_spend_request\<close> create, build and check.
\<close>

definition ex_spent :: SigmaSpend where
  "ex_spent = \<lparr>mint = \<lparr>property = 3, denomination = 1, pubKey = 7\<rparr>,
               group = 0, groupSize = 1, spendProof = 9\<rparr>"

definition ex_spend_build :: "bool \<Rightarrow> cpp_exception + build_result \<Rightarrow> call" where
  "ex_spend_build commit out =
     WalletTxBuilder_call
       ([], ''B'', [], 0, CreatePayload_SimpleSpend 3 1 0 1 9, commit, Some InputMode_SIGMA) 1000 out"

definition ex_spend_checked :: "(check \<times> cpp_exception option) list" where
  "ex_spend_checked =
     [(Named (RequireExistingProperty 3), None), (Named (RequireExistingDenomination 3 1), None),
      (Named (RequireSaneReferenceAmount 0), None)]"

text \<open>What the runs of \<^verbatim>\<open>exodus_sendmint\<close> on \<open>ex_mint_request ''2''\<close> create.\<close>

definition ex_minted :: "SigmaMintId list" where
  "ex_minted = [\<lparr>property = 3, denomination = 0, pubKey = 1\<rparr>,
                \<lparr>property = 3, denomination = 2, pubKey = 2\<rparr>,
                \<lparr>property = 3, denomination = 2, pubKey = 3\<rparr>]"

text \<open>
  The same collaborators with a wallet whose erase of the mint with public key 2 raises
  an exception that is no \<^verbatim>\<open>std::runtime_error\<close>, and whose builder fails.
\<close>

definition ex_erase_raises :: env where
  "ex_erase_raises = \<lparr>rv = ex_rpcvalues, lg = ex_ledger,
     wl = (ex_wallet ex_failed)\<lparr>EraseSigmaMint :=
            (\<lambda>s i. if pubKey i = 2 then Some (other_exception ''std::bad_alloc'') else None)\<rparr>\<rparr>"

section \<open>Running the calls\<close>

subsection \<open>Running one step\<close>

lemma throws_apply [simp]: "throws e s = (Inl e, s)"
  by (simp add: throws_def)

lemma returns_apply [simp]: "returns x s = (Inr x, s)"
  by (simp add: returns_def)

lemma lift_apply [simp]: "lift r s = (r, s)"
  by (simp add: lift_def)

lemma usage_apply [simp]: "usage n s = (Inl (runtime_error n), s)"
  by (simp add: usage_def)

lemma read_autoCommit_apply [simp]: "read_autoCommit s = (Inr (autoCommit s), s)"
  by (simp add: read_autoCommit_def)

lemma read_payTxFee_apply [simp]: "read_payTxFee s = (Inr (payTxFee s), s)"
  by (simp add: read_payTxFee_def)

lemma write_payTxFee_apply [simp]: "write_payTxFee f s = (Inr (), s\<lparr>payTxFee := f\<rparr>)"
  by (simp add: write_payTxFee_def)

lemma PendingAdd_apply [simp]:
  "PendingAdd t a k p n b s = (Inr (), s\<lparr>calls := calls s @ [PendingAdd_call t a k p n b]\<rparr>)"
  by (simp add: PendingAdd_def)

lemma SetSigmaMintUsedTransaction_apply [simp]:
  "SetSigmaMintUsedTransaction i t s =
     (Inr (), s\<lparr>calls := calls s @ [SetSigmaMintUsedTransaction_call i t]\<rparr>)"
  by (simp add: SetSigmaMintUsedTransaction_def)

lemma LogPrintf_apply [simp]: "LogPrintf m s = (Inr (), s\<lparr>calls := calls s @ [LogPrintf_call m]\<rparr>)"
  by (simp add: LogPrintf_def)

lemma call_WalletTxBuilder_apply [simp]:
  "call_WalletTxBuilder env a s =
     (WalletTxBuilder (wl env) s a,
      s\<lparr>calls := calls s @ [WalletTxBuilder_call a (payTxFee s) (WalletTxBuilder (wl env) s a)]\<rparr>)"
  by (simp add: call_WalletTxBuilder_def Let_def)

lemma call_CreateSigmaMints_apply [simp]:
  "call_CreateSigmaMints env p ds s =
     (CreateSigmaMints (wl env) s p ds,
      s\<lparr>calls := calls s @ [CreateSigmaMints_call p ds (CreateSigmaMints (wl env) s p ds)]\<rparr>)"
  by (simp add: call_CreateSigmaMints_def Let_def)

lemma call_CreateSigmaSpend_apply [simp]:
  "call_CreateSigmaSpend env p d s =
     (CreateSigmaSpend (wl env) s p d,
      s\<lparr>calls := calls s @ [CreateSigmaSpend_call p d (CreateSigmaSpend (wl env) s p d)]\<rparr>)"
  by (simp add: call_CreateSigmaSpend_def Let_def)

lemma call_EraseSigmaMint_apply:
  "call_EraseSigmaMint env i s =
     (case EraseSigmaMint (wl env) s i of None \<Rightarrow> Inr () | Some e \<Rightarrow> Inl e,
      s\<lparr>calls := calls s @ [EraseSigmaMint_call i (EraseSigmaMint (wl env) s i)]\<rparr>)"
  by (simp add: call_EraseSigmaMint_def split: option.splits)

lemma require_apply:
  "require env q s =
     (case Require (lg env) q of None \<Rightarrow> Inr () | Some e \<Rightarrow> Inl e,
      s\<lparr>checked := checked s @ [(Named q, Require (lg env) q)]\<rparr>)"
  by (simp add: require_def split: option.splits)

lemma throw_if_apply:
  "throw_if c failed e s =
     (if failed then Inl e else Inr (),
      s\<lparr>checked := checked s @ [(c, if failed then Some e else None)]\<rparr>)"
  by (simp add: throw_if_def)

lemma throw_if_null_apply:
  "throw_if_null c p e s =
     (case p of None \<Rightarrow> Inl e | Some x \<Rightarrow> Inr x,
      s\<lparr>checked := checked s @ [(c, case p of None \<Rightarrow> Some e | Some x \<Rightarrow> None)]\<rparr>)"
  by (simp add: throw_if_null_def split: option.splits)

lemma bnd_apply:
  "bnd m f s = (case m s of (Inl e, s') \<Rightarrow> (Inl e, s') | (Inr x, s') \<Rightarrow> f x s')"
  by (simp add: bnd_def)

lemma bnd_returns [simp]: "bnd (returns x) f = f x"
  by (simp add: bnd_def returns_def)

lemma bnd_throws [simp]: "bnd (throws e) f = throws e"
  by (simp add: bnd_def throws_def)

lemma bnd_E:
  assumes "bnd m f s = (r, s')"
  obtains (threw) e where "m s = (Inl e, s')" and "r = Inl e"
        | (went_on) x s1 where "m s = (Inr x, s1)" and "f x s1 = (r, s')"
  using assms by (auto simp: bnd_def split: prod.splits sum.splits)

lemma bnd_InrE:
  assumes "bnd m f s = (Inr v, s')"
  obtains x s1 where "m s = (Inr x, s1)" and "f x s1 = (Inr v, s')"
  using assms by (auto simp: bnd_def split: prod.splits sum.splits)

lemma bnd_eq_Inr_iff:
  "bnd m f s = (Inr v, s') \<longleftrightarrow> (\<exists>x s1. m s = (Inr x, s1) \<and> f x s1 = (Inr v, s'))"
  by (auto simp: bnd_def split: prod.splits sum.splits)

lemma bnd_eq_iff:
  "bnd m f s = (r, s') \<longleftrightarrow>
     (\<exists>e. m s = (Inl e, s') \<and> r = Inl e) \<or> (\<exists>x s1. m s = (Inr x, s1) \<and> f x s1 = (r, s'))"
  by (auto simp: bnd_def split: prod.splits sum.splits)

lemma require_eq_Inr_iff:
  "require env q s = (Inr u, s') \<longleftrightarrow>
     Require (lg env) q = None \<and> s' = s\<lparr>checked := checked s @ [(Named q, None)]\<rparr>"
  by (auto simp: require_def Let_def split: option.splits)

lemma require_InrE:
  assumes "require env q s = (Inr u, s')"
  obtains "Require (lg env) q = None" and "s' = s\<lparr>checked := checked s @ [(Named q, None)]\<rparr>"
  using assms by (auto simp: require_def Let_def split: option.splits)

subsection \<open>Following a run step by step\<close>

lemma require_eq_iff:
  "require env q s = (r, s') \<longleftrightarrow>
     s' = s\<lparr>checked := checked s @ [(Named q, Require (lg env) q)]\<rparr> \<and>
     (Require (lg env) q = None \<and> r = Inr () \<or> (\<exists>e. Require (lg env) q = Some e \<and> r = Inl e))"
  by (auto simp: require_apply split: option.splits)

lemma throw_if_eq_iff:
  "throw_if c failed e s = (r, s') \<longleftrightarrow>
     failed \<and> r = Inl e \<and> s' = s\<lparr>checked := checked s @ [(c, Some e)]\<rparr> \<or>
     \<not> failed \<and> r = Inr () \<and> s' = s\<lparr>checked := checked s @ [(c, None)]\<rparr>"
  by (auto simp: throw_if_def)

lemma throw_if_null_eq_iff:
  "throw_if_null c p e s = (r, s') \<longleftrightarrow>
     p = None \<and> r = Inl e \<and> s' = s\<lparr>checked := checked s @ [(c, Some e)]\<rparr> \<or>
     (\<exists>x. p = Some x \<and> r = Inr x \<and> s' = s\<lparr>checked := checked s @ [(c, None)]\<rparr>)"
  by (auto simp: throw_if_null_def split: option.splits)

lemma if_run_iff:
  "(if b then m1 else m2) s = (r, s') \<longleftrightarrow> b \<and> m1 s = (r, s') \<or> \<not> b \<and> m2 s = (r, s')"
  by simp

lemma case_option_run_iff:
  "(case v of None \<Rightarrow> m1 | Some x \<Rightarrow> m2 x) s = (r, s') \<longleftrightarrow>
     v = None \<and> m1 s = (r, s') \<or> (\<exists>x. v = Some x \<and> m2 x s = (r, s'))"
  by (cases v) simp_all

lemma case_prod_run_iff:
  "(case p of (a, b) \<Rightarrow> f a b) s = (r, s') \<longleftrightarrow> (\<exists>a b. p = (a, b) \<and> f a b s = (r, s'))"
  by (cases p) simp

lemma try_catch_eq_iff:
  "try_catch m h s = (r, s') \<longleftrightarrow>
     (\<exists>x. m s = (Inr x, s') \<and> r = Inr x) \<or>
     (\<exists>e s1. m s = (Inl e, s1) \<and>
        (h e = None \<and> r = Inl e \<and> s' = s1 \<or> (\<exists>k. h e = Some k \<and> k s1 = (r, s'))))"
  by (auto simp: try_catch_def split: prod.splits sum.splits option.splits)

lemma wallet_handler_Some_iff:
  "(case e of InsufficientFunds what \<Rightarrow> Some (A what) | WalletError what \<Rightarrow> Some (B what)
            | _ \<Rightarrow> None) = Some k \<longleftrightarrow>
     (\<exists>what. e = InsufficientFunds what \<and> k = A what) \<or>
     (\<exists>what. e = WalletError what \<and> k = B what)"
  by (cases e) auto

lemma wallet_handler_None_iff:
  "(case e of InsufficientFunds what \<Rightarrow> Some (A what) | WalletError what \<Rightarrow> Some (B what)
            | _ \<Rightarrow> None) = None \<longleftrightarrow>
     (\<forall>what. e \<noteq> InsufficientFunds what) \<and> (\<forall>what. e \<noteq> WalletError what)"
  by (cases e) auto

lemma sum_handler_Some_iff:
  "(case e of invalid_argument what \<Rightarrow> Some (A what) | overflow_error what \<Rightarrow> Some (B what)
            | _ \<Rightarrow> None) = Some k \<longleftrightarrow>
     (\<exists>what. e = invalid_argument what \<and> k = A what) \<or>
     (\<exists>what. e = overflow_error what \<and> k = B what)"
  by (cases e) auto

lemma sum_handler_None_iff:
  "(case e of invalid_argument what \<Rightarrow> Some (A what) | overflow_error what \<Rightarrow> Some (B what)
            | _ \<Rightarrow> None) = None \<longleftrightarrow>
     (\<forall>what. e \<noteq> invalid_argument what) \<and> (\<forall>what. e \<noteq> overflow_error what)"
  by (cases e) auto

lemma confirmation_handler_Some_iff:
  "(case e of invalid_argument what \<Rightarrow> Some (A what) | _ \<Rightarrow> None) = Some k \<longleftrightarrow>
     (\<exists>what. e = invalid_argument what \<and> k = A what)"
  by (cases e) auto

lemma confirmation_handler_None_iff:
  "(case e of invalid_argument what \<Rightarrow> Some (A what) | _ \<Rightarrow> None) = None \<longleftrightarrow>
     (\<forall>what. e \<noteq> invalid_argument what)"
  by (cases e) auto

lemmas run_iffs = bnd_eq_iff require_eq_iff throw_if_eq_iff throw_if_null_eq_iff if_run_iff case_option_run_iff case_prod_run_iff
  try_catch_eq_iff wallet_handler_Some_iff wallet_handler_None_iff sum_handler_Some_iff
  sum_handler_None_iff confirmation_handler_Some_iff confirmation_handler_None_iff


lemmas ex_defs = ex_env_def ex_world_def ex_wallet_def ex_ledger_def ex_rpcvalues_def
  ex_string_def ex_integer_def ex_natural_def ex_json_int_def ex_built_def ex_send_request_def ex_accept_request_def
  ex_cancel_request_def ex_spend_request_def ex_mint_request_def ex_failed_def ex_raised_def
  ex_sell_request_def ex_denomination_request_def ex_unparsed_accept_request_def

lemmas run_defs = bnd_apply require_apply throw_if_apply throw_if_null_apply
  call_EraseSigmaMint_apply try_catch_def
  PendingAdd_default_fSubtract_def

lemma ex_world_simps [simp]:
  "payTxFee (ex_world commit) = 1000"
  "autoCommit (ex_world commit) = commit"
  "calls (ex_world commit) = []"
  "checked (ex_world commit) = []"
  by (simp_all add: ex_world_def)

section \<open>Checks come first\<close>

subsection \<open>Steps that only check\<close>

lemma all_passed_simps [simp]:
  "all_passed []"
  "all_passed (c # cs) \<longleftrightarrow> snd c = None \<and> all_passed cs"
  "all_passed (cs @ ds) \<longleftrightarrow> all_passed cs \<and> all_passed ds"
  by (simp_all add: all_passed_def)

lemma first_failure_Inr [simp]: "\<not> first_failure cs (Inr x)"
  by (simp add: first_failure_def)

lemma first_failure_Inl [simp]: "first_failure cs (Inl e) \<longleftrightarrow> failed_last cs e"
  by (simp add: first_failure_def)

lemma failed_last_single [simp]: "failed_last [(q, Some e)] e' \<longleftrightarrow> e' = e"
  by (auto simp: failed_last_def)

lemma first_failure_append:
  "all_passed cs \<Longrightarrow> first_failure ds r \<Longrightarrow> first_failure (cs @ ds) r"
  by (cases r) (auto simp: failed_last_def butlast_append)

lemma checks_onlyI:
  assumes "\<And>s r s'. m s = (r, s') \<Longrightarrow>
     calls s' = calls s \<and> payTxFee s' = payTxFee s \<and> autoCommit s' = autoCommit s \<and>
     (\<exists>new. checked s' = checked s @ new \<and> (all_passed new \<or> first_failure new r))"
  shows "checks_only m"
  using assms unfolding checks_only_def by blast

lemma pure_checks_only:
  assumes "\<And>s. snd (m s) = s"
  shows "checks_only m"
proof (rule checks_onlyI)
  fix s r s' assume "m s = (r, s')"
  with assms [of s] have "s' = s" by simp
  then show "calls s' = calls s \<and> payTxFee s' = payTxFee s \<and> autoCommit s' = autoCommit s \<and>
     (\<exists>new. checked s' = checked s @ new \<and> (all_passed new \<or> first_failure new r))"
    by simp
qed

lemma checks_only_returns: "checks_only (returns x)"
  by (rule pure_checks_only) simp

lemma checks_only_throws: "checks_only (throws e)"
  by (rule pure_checks_only) simp

lemma checks_only_lift: "checks_only (lift r)"
  by (rule pure_checks_only) simp

lemma checks_only_usage: "checks_only (usage n)"
  by (rule pure_checks_only) simp

lemma checks_only_read_autoCommit: "checks_only read_autoCommit"
  by (rule pure_checks_only) simp

lemma checks_only_read_payTxFee: "checks_only read_payTxFee"
  by (rule pure_checks_only) simp

lemma checks_only_require: "checks_only (require env q)"
  by (rule checks_onlyI) (auto simp: require_apply split: option.splits)

lemma checks_only_throw_if: "checks_only (throw_if c failed e)"
  by (rule checks_onlyI) (auto simp: throw_if_apply)

lemma checks_only_throw_if_null: "checks_only (throw_if_null c p e)"
  by (rule checks_onlyI) (auto simp: throw_if_null_apply split: option.splits)

lemma checks_only_bnd:
  assumes m: "checks_only m" and f: "\<And>x. checks_only (f x)"
  shows "checks_only (bnd m f)"
proof (rule checks_onlyI)
  fix s r s' assume run: "bnd m f s = (r, s')"
  show "calls s' = calls s \<and> payTxFee s' = payTxFee s \<and> autoCommit s' = autoCommit s \<and>
     (\<exists>new. checked s' = checked s @ new \<and> (all_passed new \<or> first_failure new r))"
    using run
  proof (cases rule: bnd_E)
    case (threw e)
    with m have "calls s' = calls s \<and> payTxFee s' = payTxFee s \<and> autoCommit s' = autoCommit s \<and>
      (\<exists>new. checked s' = checked s @ new \<and> (all_passed new \<or> failed_last new e))"
      unfolding checks_only_def by fastforce
    with threw show ?thesis by simp
  next
    case (went_on x s1)
    from m went_on(1) obtain new1 where 1: "calls s1 = calls s" "payTxFee s1 = payTxFee s"
      "autoCommit s1 = autoCommit s" "checked s1 = checked s @ new1" "all_passed new1"
      unfolding checks_only_def by fastforce
    from f [of x] went_on(2) obtain new2 where 2: "calls s' = calls s1" "payTxFee s' = payTxFee s1"
      "autoCommit s' = autoCommit s1" "checked s' = checked s1 @ new2"
      "all_passed new2 \<or> first_failure new2 r"
      unfolding checks_only_def by blast
    from 1 2 have "checked s' = checked s @ (new1 @ new2)"
      and "all_passed (new1 @ new2) \<or> first_failure (new1 @ new2) r"
      by (auto intro: first_failure_append)
    with 1 2 show ?thesis by metis
  qed
qed

lemma checks_only_if:
  "checks_only m1 \<Longrightarrow> checks_only m2 \<Longrightarrow> checks_only (if b then m1 else m2)"
  by simp

lemma checks_only_case_option:
  "checks_only m1 \<Longrightarrow> (\<And>x. checks_only (m2 x)) \<Longrightarrow>
   checks_only (case v of None \<Rightarrow> m1 | Some x \<Rightarrow> m2 x)"
  by (cases v) simp_all

lemma checks_only_case_prod:
  "(\<And>a b. checks_only (f a b)) \<Longrightarrow> checks_only (case p of (a, b) \<Rightarrow> f a b)"
  by (cases p) simp

lemma checks_only_try_lift:
  assumes "\<And>e k. h e = Some k \<Longrightarrow> checks_only k"
  shows "checks_only (try_catch (lift r) h)"
proof (cases r)
  case (Inl e)
  show ?thesis
  proof (cases "h e")
    case None
    with Inl have "try_catch (lift r) h = throws e"
      by (simp add: try_catch_def fun_eq_iff)
    then show ?thesis by (simp add: checks_only_throws)
  next
    case (Some k)
    with Inl have "try_catch (lift r) h = k"
      by (simp add: try_catch_def fun_eq_iff)
    with assms Some show ?thesis by simp
  qed
next
  case (Inr x)
  then have "try_catch (lift r) h = returns x"
    by (simp add: try_catch_def fun_eq_iff)
  then show ?thesis by (simp add: checks_only_returns)
qed

lemmas checks_only_rules =
  checks_only_returns checks_only_throws checks_only_lift checks_only_usage
  checks_only_read_autoCommit checks_only_read_payTxFee checks_only_require
  checks_only_throw_if checks_only_throw_if_null
  checks_only_bnd checks_only_if checks_only_case_option checks_only_case_prod

lemma checks_only_collect:
  "checks_only (exodus_sendmint_collect env propertyId denominations minConfirms keys denoms)"
proof (induction keys arbitrary: denoms)
  case Nil
  show ?case unfolding exodus_sendmint_collect.simps by (rule checks_only_returns)
next
  case (Cons denom keys)
  show ?case
    unfolding exodus_sendmint_collect.simps
    by (intro checks_only_rules checks_only_try_lift Cons.IH)
       (auto split: cpp_exception.splits intro: checks_only_throws)
qed

subsection \<open>Steps that check nothing\<close>

lemma no_checksI:
  assumes "\<And>s r s'. m s = (r, s') \<Longrightarrow> checked s' = checked s"
  shows "no_checks m"
  using assms unfolding no_checks_def by blast

lemma no_checks_returns: "no_checks (returns x)"
  by (rule no_checksI) simp

lemma no_checks_throws: "no_checks (throws e)"
  by (rule no_checksI) simp

lemma no_checks_lift: "no_checks (lift r)"
  by (rule no_checksI) simp

lemma no_checks_read_autoCommit: "no_checks read_autoCommit"
  by (rule no_checksI) simp

lemma no_checks_read_payTxFee: "no_checks read_payTxFee"
  by (rule no_checksI) simp

lemma no_checks_write_payTxFee: "no_checks (write_payTxFee f)"
  by (rule no_checksI) auto

lemma no_checks_PendingAdd: "no_checks (PendingAdd t a k p n b)"
  by (rule no_checksI) auto

lemma no_checks_SetSigmaMintUsedTransaction: "no_checks (SetSigmaMintUsedTransaction i t)"
  by (rule no_checksI) auto

lemma no_checks_LogPrintf: "no_checks (LogPrintf m)"
  by (rule no_checksI) auto

lemma no_checks_call_WalletTxBuilder: "no_checks (call_WalletTxBuilder env a)"
  by (rule no_checksI) auto

lemma no_checks_call_CreateSigmaMints: "no_checks (call_CreateSigmaMints env p ds)"
  by (rule no_checksI) auto

lemma no_checks_call_CreateSigmaSpend: "no_checks (call_CreateSigmaSpend env p d)"
  by (rule no_checksI) auto

lemma no_checks_call_EraseSigmaMint: "no_checks (call_EraseSigmaMint env i)"
  by (rule no_checksI) (auto simp: call_EraseSigmaMint_apply)

lemma no_checks_bnd:
  assumes "no_checks m" and "\<And>x. no_checks (f x)"
  shows "no_checks (bnd m f)"
proof (rule no_checksI)
  fix s r s' assume "bnd m f s = (r, s')"
  then show "checked s' = checked s"
  proof (cases rule: bnd_E)
    case (threw e)
    with assms(1) show ?thesis unfolding no_checks_def by blast
  next
    case (went_on x s1)
    with assms(1) assms(2) [of x] show ?thesis unfolding no_checks_def by metis
  qed
qed

lemma no_checks_try_catch:
  assumes "no_checks m" and "\<And>e k. h e = Some k \<Longrightarrow> no_checks k"
  shows "no_checks (try_catch m h)"
proof (rule no_checksI)
  fix s r s' assume "try_catch m h s = (r, s')"
  then show "checked s' = checked s"
    using assms unfolding no_checks_def try_catch_def
    by (auto split: prod.splits sum.splits option.splits)
qed

lemma no_checks_if:
  "no_checks m1 \<Longrightarrow> no_checks m2 \<Longrightarrow> no_checks (if b then m1 else m2)"
  by simp

lemma no_checks_case_prod:
  "(\<And>a b. no_checks (f a b)) \<Longrightarrow> no_checks (case p of (a, b) \<Rightarrow> f a b)"
  by (cases p) simp

lemma no_checks_case_option:
  "no_checks m1 \<Longrightarrow> (\<And>x. no_checks (m2 x)) \<Longrightarrow>
   no_checks (case v of None \<Rightarrow> m1 | Some x \<Rightarrow> m2 x)"
  by (cases v) simp_all

lemmas no_checks_rules =
  no_checks_returns no_checks_throws no_checks_lift no_checks_read_autoCommit
  no_checks_read_payTxFee no_checks_write_payTxFee no_checks_PendingAdd
  no_checks_SetSigmaMintUsedTransaction no_checks_LogPrintf no_checks_call_WalletTxBuilder
  no_checks_call_CreateSigmaMints no_checks_call_CreateSigmaSpend no_checks_call_EraseSigmaMint
  no_checks_bnd no_checks_if no_checks_case_prod no_checks_case_option

lemma no_checks_erase: "no_checks (exodus_sendmint_erase env ids)"
proof (induction ids)
  case Nil
  show ?case unfolding exodus_sendmint_erase.simps by (rule no_checks_returns)
next
  case (Cons i ids)
  show ?case
    unfolding exodus_sendmint_erase.simps
    by (intro no_checks_rules no_checks_try_catch Cons.IH)
       (auto split: option.splits intro: no_checks_LogPrintf)
qed

subsection \<open>Calls that stop at the first failing check\<close>

lemma stopsI:
  assumes "\<And>s r s'. m s = (r, s') \<Longrightarrow>
     (\<exists>new. checked s' = checked s @ new \<and>
        (all_passed new \<or>
         first_failure new r \<and> calls s' = calls s \<and> payTxFee s' = payTxFee s))"
  shows "stops_at_first_failing_check m"
  using assms unfolding stops_at_first_failing_check_def by blast

lemma stops_checks_only: "checks_only m \<Longrightarrow> stops_at_first_failing_check m"
  unfolding checks_only_def stops_at_first_failing_check_def by metis

lemma stops_no_checks:
  assumes "no_checks m"
  shows "stops_at_first_failing_check m"
proof (rule stopsI)
  fix s r s' assume "m s = (r, s')"
  with assms have "checked s' = checked s @ []" unfolding no_checks_def by simp
  then show "\<exists>new. checked s' = checked s @ new \<and>
        (all_passed new \<or>
         first_failure new r \<and> calls s' = calls s \<and> payTxFee s' = payTxFee s)"
    by (intro exI [of _ "[]"]) simp
qed

lemma stops_bnd:
  assumes m: "checks_only m" and f: "\<And>x. stops_at_first_failing_check (f x)"
  shows "stops_at_first_failing_check (bnd m f)"
proof (rule stopsI)
  fix s r s' assume run: "bnd m f s = (r, s')"
  show "\<exists>new. checked s' = checked s @ new \<and>
        (all_passed new \<or>
         first_failure new r \<and> calls s' = calls s \<and> payTxFee s' = payTxFee s)"
    using run
  proof (cases rule: bnd_E)
    case (threw e)
    with m have "calls s' = calls s \<and> payTxFee s' = payTxFee s \<and>
      (\<exists>new. checked s' = checked s @ new \<and> (all_passed new \<or> failed_last new e))"
      unfolding checks_only_def by fastforce
    with threw show ?thesis by auto
  next
    case (went_on x s1)
    from m went_on(1) obtain new1 where 1: "calls s1 = calls s" "payTxFee s1 = payTxFee s"
      "checked s1 = checked s @ new1" "all_passed new1"
      unfolding checks_only_def by fastforce
    from f [of x] went_on(2) obtain new2 where 2: "checked s' = checked s1 @ new2"
      "all_passed new2 \<or>
         first_failure new2 r \<and> calls s' = calls s1 \<and> payTxFee s' = payTxFee s1"
      unfolding stops_at_first_failing_check_def by blast
    from 1 2 have "checked s' = checked s @ (new1 @ new2)"
      and "all_passed (new1 @ new2) \<or>
         first_failure (new1 @ new2) r \<and> calls s' = calls s \<and> payTxFee s' = payTxFee s"
      by (auto intro: first_failure_append)
    then show ?thesis by blast
  qed
qed

lemma stops_if:
  "stops_at_first_failing_check m1 \<Longrightarrow> stops_at_first_failing_check m2 \<Longrightarrow>
   stops_at_first_failing_check (if b then m1 else m2)"
  by simp

lemma stops_case_prod:
  "(\<And>a b. stops_at_first_failing_check (f a b)) \<Longrightarrow>
   stops_at_first_failing_check (case p of (a, b) \<Rightarrow> f a b)"
  by (cases p) simp

lemma stops_usage: "stops_at_first_failing_check (usage n)"
  by (rule stops_checks_only) (rule checks_only_usage)

lemma stops_throws: "stops_at_first_failing_check (throws e)"
  by (rule stops_checks_only) (rule checks_only_throws)

lemma stops_from_builder:
  "(\<And>x. no_checks (f x)) \<Longrightarrow> stops_at_first_failing_check (bnd (call_WalletTxBuilder env a) f)"
  by (intro stops_no_checks no_checks_rules)

lemma stops_from_write_payTxFee:
  "(\<And>x. no_checks (f x)) \<Longrightarrow> stops_at_first_failing_check (bnd (write_payTxFee v) f)"
  by (intro stops_no_checks no_checks_rules)

lemma stops_from_CreateSigmaMints:
  "(\<And>x. no_checks (f x)) \<Longrightarrow> stops_at_first_failing_check (bnd (call_CreateSigmaMints env p ds) f)"
  by (intro stops_no_checks no_checks_rules)

lemma stops_from_try_catch:
  "no_checks (bnd (try_catch m h) f) \<Longrightarrow> stops_at_first_failing_check (bnd (try_catch m h) f)"
  by (rule stops_no_checks)

lemmas stops_rules =
  stops_from_builder stops_from_write_payTxFee stops_from_CreateSigmaMints
  stops_usage stops_throws stops_if stops_case_prod stops_bnd checks_only_rules no_checks_rules

lemma stops_exodus_sendrawtx: "stops_at_first_failing_check (exodus_sendrawtx env params fHelp)"
  unfolding exodus_sendrawtx_def by (intro stops_rules)

lemma stops_exodus_send: "stops_at_first_failing_check (exodus_send env params fHelp)"
  unfolding exodus_send_def by (intro stops_rules)

lemma stops_exodus_sendall: "stops_at_first_failing_check (exodus_sendall env params fHelp)"
  unfolding exodus_sendall_def by (intro stops_rules)

lemma stops_exodus_senddexsell: "stops_at_first_failing_check (exodus_senddexsell env params fHelp)"
  unfolding exodus_senddexsell_def by (intro stops_rules)

lemma stops_exodus_senddexaccept: "stops_at_first_failing_check (exodus_senddexaccept env params fHelp)"
  unfolding exodus_senddexaccept_def by (intro stops_rules)

lemma stops_exodus_sendissuancecrowdsale: "stops_at_first_failing_check (exodus_sendissuancecrowdsale env params fHelp)"
  unfolding exodus_sendissuancecrowdsale_def by (intro stops_rules)

lemma stops_exodus_sendissuancefixed: "stops_at_first_failing_check (exodus_sendissuancefixed env params fHelp)"
  unfolding exodus_sendissuancefixed_def by (intro stops_rules)

lemma stops_exodus_sendissuancemanaged: "stops_at_first_failing_check (exodus_sendissuancemanaged env params fHelp)"
  unfolding exodus_sendissuancemanaged_def by (intro stops_rules)

lemma stops_exodus_sendsto: "stops_at_first_failing_check (exodus_sendsto env params fHelp)"
  unfolding exodus_sendsto_def by (intro stops_rules)

lemma stops_exodus_sendgrant: "stops_at_first_failing_check (exodus_sendgrant env params fHelp)"
  unfolding exodus_sendgrant_def by (intro stops_rules)

lemma stops_exodus_sendrevoke: "stops_at_first_failing_check (exodus_sendrevoke env params fHelp)"
  unfolding exodus_sendrevoke_def by (intro stops_rules)

lemma stops_exodus_sendclosecrowdsale: "stops_at_first_failing_check (exodus_sendclosecrowdsale env params fHelp)"
  unfolding exodus_sendclosecrowdsale_def by (intro stops_rules)

lemma stops_exodus_sendtrade: "stops_at_first_failing_check (exodus_sendtrade env params fHelp)"
  unfolding exodus_sendtrade_def by (intro stops_rules)

lemma stops_exodus_sendcanceltradesbyprice: "stops_at_first_failing_check (exodus_sendcanceltradesbyprice env params fHelp)"
  unfolding exodus_sendcanceltradesbyprice_def by (intro stops_rules)

lemma stops_exodus_sendcanceltradesbypair: "stops_at_first_failing_check (exodus_sendcanceltradesbypair env params fHelp)"
  unfolding exodus_sendcanceltradesbypair_def by (intro stops_rules)

lemma stops_exodus_sendcancelalltrades: "stops_at_first_failing_check (exodus_sendcancelalltrades env params fHelp)"
  unfolding exodus_sendcancelalltrades_def by (intro stops_rules)

lemma stops_exodus_sendchangeissuer: "stops_at_first_failing_check (exodus_sendchangeissuer env params fHelp)"
  unfolding exodus_sendchangeissuer_def by (intro stops_rules)

lemma stops_exodus_sendenablefreezing: "stops_at_first_failing_check (exodus_sendenablefreezing env params fHelp)"
  unfolding exodus_sendenablefreezing_def by (intro stops_rules)

lemma stops_exodus_senddisablefreezing: "stops_at_first_failing_check (exodus_senddisablefreezing env params fHelp)"
  unfolding exodus_senddisablefreezing_def by (intro stops_rules)

lemma stops_exodus_sendfreeze: "stops_at_first_failing_check (exodus_sendfreeze env params fHelp)"
  unfolding exodus_sendfreeze_def by (intro stops_rules)

lemma stops_exodus_sendunfreeze: "stops_at_first_failing_check (exodus_sendunfreeze env params fHelp)"
  unfolding exodus_sendunfreeze_def by (intro stops_rules)

lemma stops_exodus_sendactivation: "stops_at_first_failing_check (exodus_sendactivation env params fHelp)"
  unfolding exodus_sendactivation_def by (intro stops_rules)

lemma stops_exodus_senddeactivation: "stops_at_first_failing_check (exodus_senddeactivation env params fHelp)"
  unfolding exodus_senddeactivation_def by (intro stops_rules)

lemma stops_exodus_sendalert: "stops_at_first_failing_check (exodus_sendalert env params fHelp)"
  unfolding exodus_sendalert_def by (intro stops_rules)

lemma stops_exodus_sendcreatedenomination: "stops_at_first_failing_check (exodus_sendcreatedenomination env params fHelp)"
  unfolding exodus_sendcreatedenomination_def by (intro stops_rules)

lemma stops_trade_MP: "stops_at_first_failing_check (trade_MP env params fHelp)"
  unfolding trade_MP_def
  by (intro stops_rules stops_exodus_sendtrade stops_exodus_sendcanceltradesbyprice
        stops_exodus_sendcanceltradesbypair stops_exodus_sendcancelalltrades)

lemma stops_exodus_sendmint: "stops_at_first_failing_check (exodus_sendmint env params fHelp)"
  unfolding exodus_sendmint_def
  by (intro stops_rules checks_only_collect checks_only_try_lift no_checks_erase)
     (auto split: cpp_exception.splits intro: checks_only_throws)

lemma stops_exodus_sendspend: "stops_at_first_failing_check (exodus_sendspend env params fHelp)"
  unfolding exodus_sendspend_def
  by (intro stops_rules stops_from_try_catch no_checks_try_catch)
     (auto split: cpp_exception.splits intro: no_checks_throws)

lemmas stops_commands =
  stops_exodus_sendrawtx stops_exodus_send stops_exodus_sendall stops_exodus_senddexsell
  stops_exodus_senddexaccept stops_exodus_sendissuancecrowdsale stops_exodus_sendissuancefixed
  stops_exodus_sendissuancemanaged stops_exodus_sendsto stops_exodus_sendgrant
  stops_exodus_sendrevoke stops_exodus_sendclosecrowdsale stops_exodus_sendtrade
  stops_exodus_sendcanceltradesbyprice stops_exodus_sendcanceltradesbypair
  stops_exodus_sendcancelalltrades stops_exodus_sendchangeissuer stops_exodus_sendenablefreezing
  stops_exodus_senddisablefreezing stops_exodus_sendfreeze stops_exodus_sendunfreeze
  stops_exodus_sendactivation stops_exodus_senddeactivation stops_exodus_sendalert
  stops_exodus_sendcreatedenomination stops_exodus_sendmint stops_exodus_sendspend stops_trade_MP

lemma stops_every_command:
  assumes "(category, name, actor, okSafeMode) \<in> set (commands env)"
  shows "stops_at_first_failing_check (actor params fHelp)"
  using assms unfolding commands_def by (auto simp: stops_commands)

lemma failed_check_is_last:
  assumes "checked s' = checked s @ new" and "(q, Some e) \<in> set new"
    and "all_passed new \<or> first_failure new r \<and> P"
  shows "\<exists>passed. new = passed @ [(q, Some e)] \<and> all_passed passed \<and> r = Inl e \<and> P"
proof -
  from assms(2) have "\<not> all_passed new"
    by (force simp: all_passed_def list_all_iff)
  with assms(3) have ff: "first_failure new r" and P: P by auto
  then obtain e' where r: "r = Inl e'" and fl: "failed_last new e'"
    by (cases r) auto
  from fl have ne: "new \<noteq> []" and bl: "all_passed (butlast new)" and l: "snd (last new) = Some e'"
    by (auto simp: failed_last_def)
  from ne have new: "new = butlast new @ [last new]" by simp
  from assms(2) new have "(q, Some e) \<in> set (butlast new) \<or> (q, Some e) = last new"
    by (metis Un_iff empty_iff empty_set insert_iff list.simps(15) set_append)
  moreover from bl have "(q, Some e) \<notin> set (butlast new)"
    by (force simp: all_passed_def list_all_iff)
  ultimately have "last new = (q, Some e)" by simp
  with l new r bl P show ?thesis by (intro exI [of _ "butlast new"]) auto
qed

text \<open>
  C5. Whatever command is called and whatever it is given: when one of the checks it
  evaluates fails, that check is the last one evaluated and all the checks before it
  passed, the call throws the error of that check, and by then it has called neither the
  transaction builder nor any other collaborator and has left \<^verbatim>\<open>payTxFee\<close> alone. The
  checks are the named ones of \<^verbatim>\<open>rpcrequirements.h\<close> and the ones a call writes in
  place: that the sell offer is found, that a property has room for a new denomination
  and none of the same value yet, that each denomination to mint is valid and has its
  confirmations, that the fields of an alert are in range. The checks an action runs
  may depend on the request, as the \<^verbatim>\<open>switch\<close> of \<^verbatim>\<open>exodus_senddexsell\<close> does; the
  statement is about the ones that were run.
\<close>

theorem precondition_failure_stops_the_call:
  assumes cmd: "(category, name, actor, okSafeMode) \<in> set (commands env)"
    and run: "actor params fHelp s = (r, s')"
    and failed: "(q, Some e) \<in> set (checks_made s s')"
  shows "\<exists>passed. checks_made s s' = passed @ [(q, Some e)] \<and> all_passed passed \<and>
           r = Inl e \<and> calls s' = calls s \<and> payTxFee s' = payTxFee s"
proof -
  from stops_every_command [OF cmd] run obtain new where new: "checked s' = checked s @ new"
    and "all_passed new \<or> first_failure new r \<and> (calls s' = calls s \<and> payTxFee s' = payTxFee s)"
    unfolding stops_at_first_failing_check_def by blast
  moreover from new have "checks_made s s' = new" by (simp add: checks_made_def)
  ultimately show ?thesis using failed failed_check_is_last [of s' s new q e r] by simp
qed

text \<open>
  A simple send of 5000 units by a sender who holds 1000: the balance check fails after
  the property check passed, and nothing is built. And a new denomination of the value
  200 for a property that has one: the check written in place fails after the three
  named checks and the check for room passed, and nothing is built.
\<close>

theorem precondition_failure_stops_the_call_witness:
  "(''exodus (transaction creation)'', ''exodus_send'', exodus_send (ex_env ex_built), False)
       \<in> set (commands (ex_env ex_built)) \<and>
   fst (exodus_send (ex_env ex_built) (ex_send_request 5000) False (ex_world True)) =
       Inl (JSONRPCError RPC_TYPE_ERROR ''Sender has insufficient balance'') \<and>
   checks_made (ex_world True)
       (snd (exodus_send (ex_env ex_built) (ex_send_request 5000) False (ex_world True))) =
     [(Named (RequireExistingProperty 3), None),
      (Named (RequireBalance ''A'' 3 5000),
       Some (JSONRPCError RPC_TYPE_ERROR ''Sender has insufficient balance''))] \<and>
   calls (snd (exodus_send (ex_env ex_built) (ex_send_request 5000) False (ex_world True))) = [] \<and>
   (''exodus (transaction creation)'', ''exodus_sendcreatedenomination'',
    exodus_sendcreatedenomination (ex_env ex_built), False) \<in> set (commands (ex_env ex_built)) \<and>
   fst (exodus_sendcreatedenomination (ex_env ex_built) ex_denomination_request False
          (ex_world True)) =
       Inl (JSONRPCError RPC_INVALID_PARAMETER ''Denomination with value ? already exists'') \<and>
   checks_made (ex_world True)
       (snd (exodus_sendcreatedenomination (ex_env ex_built) ex_denomination_request False
          (ex_world True))) =
     [(Named (RequireExistingProperty 3), None), (Named (RequireTokenIssuer ''A'' 3), None),
      (Named (RequireSigma 3), None), (RoomForNewDenomination 3, None),
      (NewDenominationValue 3 200,
       Some (JSONRPCError RPC_INVALID_PARAMETER ''Denomination with value ? already exists''))] \<and>
   calls (snd (exodus_sendcreatedenomination (ex_env ex_built) ex_denomination_request False
          (ex_world True))) = []"
proof -
  let ?e = "JSONRPCError RPC_TYPE_ERROR ''Sender has insufficient balance''"
  let ?run = "exodus_send (ex_env ex_built) (ex_send_request 5000) False (ex_world True)"
  have cmd: "(''exodus (transaction creation)'', ''exodus_send'', exodus_send (ex_env ex_built), False)
       \<in> set (commands (ex_env ex_built))"
    by (simp add: commands_def)
  have run: "?run = (fst ?run, snd ?run)" by simp
  have made: "checks_made (ex_world True) (snd ?run) =
     [(Named (RequireExistingProperty 3), None), (Named (RequireBalance ''A'' 3 5000), Some ?e)]"
    by (simp add: exodus_send_def run_defs ex_defs checks_made_def)
  then have failed: "(Named (RequireBalance ''A'' 3 5000), Some ?e)
      \<in> set (checks_made (ex_world True) (snd ?run))"
    by simp
  from precondition_failure_stops_the_call [OF cmd run failed]
  have send: "fst ?run = Inl ?e" "calls (snd ?run) = []" by auto
  let ?d = "JSONRPCError RPC_INVALID_PARAMETER ''Denomination with value ? already exists''"
  let ?new = "exodus_sendcreatedenomination (ex_env ex_built) ex_denomination_request False
          (ex_world True)"
  have cmd': "(''exodus (transaction creation)'', ''exodus_sendcreatedenomination'',
    exodus_sendcreatedenomination (ex_env ex_built), False) \<in> set (commands (ex_env ex_built))"
    by (simp add: commands_def)
  have run': "?new = (fst ?new, snd ?new)" by simp
  have made': "checks_made (ex_world True) (snd ?new) =
     [(Named (RequireExistingProperty 3), None), (Named (RequireTokenIssuer ''A'' 3), None),
      (Named (RequireSigma 3), None), (RoomForNewDenomination 3, None),
      (NewDenominationValue 3 200, Some ?d)]"
    by (simp add: exodus_sendcreatedenomination_def run_defs ex_defs checks_made_def)
  then have failed': "(NewDenominationValue 3 200, Some ?d)
      \<in> set (checks_made (ex_world True) (snd ?new))"
    by simp
  from precondition_failure_stops_the_call [OF cmd' run' failed']
  have new: "fst ?new = Inl ?d" "calls (snd ?new) = []" by auto
  from cmd made send cmd' made' new show ?thesis by simp
qed

section \<open>Dry runs\<close>

subsection \<open>Steps that neither build nor add a pending entry\<close>

lemma quietI:
  assumes "\<And>s r s'. m s = (r, s') \<Longrightarrow>
     autoCommit s' = autoCommit s \<and>
     (\<exists>new. calls s' = calls s @ new \<and>
        list_all (\<lambda>c. \<not> is_PendingAdd c \<and> built_raw c = None) new)"
  shows "quiet m"
  using assms unfolding quiet_def by blast

lemma quiet_frame:
  assumes "\<And>s r s'. m s = (r, s') \<Longrightarrow> autoCommit s' = autoCommit s \<and> calls s' = calls s"
  shows "quiet m"
proof (rule quietI)
  fix s r s' assume "m s = (r, s')"
  with assms have "autoCommit s' = autoCommit s" and "calls s' = calls s @ []" by auto
  then show "autoCommit s' = autoCommit s \<and>
     (\<exists>new. calls s' = calls s @ new \<and>
        list_all (\<lambda>c. \<not> is_PendingAdd c \<and> built_raw c = None) new)"
    by (intro conjI exI [of _ "[]"]) simp_all
qed

lemma quiet_checks_only: "checks_only m \<Longrightarrow> quiet m"
  by (rule quiet_frame) (auto simp: checks_only_def)

lemma quiet_returns: "quiet (returns x)"
  by (rule quiet_frame) simp

lemma quiet_throws: "quiet (throws e)"
  by (rule quiet_frame) simp

lemma quiet_lift: "quiet (lift r)"
  by (rule quiet_frame) simp

lemma quiet_usage: "quiet (usage n)"
  by (rule quiet_frame) simp

lemma quiet_read_autoCommit: "quiet read_autoCommit"
  by (rule quiet_frame) simp

lemma quiet_read_payTxFee: "quiet read_payTxFee"
  by (rule quiet_frame) simp

lemma quiet_write_payTxFee: "quiet (write_payTxFee f)"
  by (rule quiet_frame) auto

lemma quiet_require: "quiet (require env q)"
  by (rule quiet_frame) (auto simp: require_apply)

lemma quiet_throw_if: "quiet (throw_if c failed e)"
  by (rule quiet_checks_only) (rule checks_only_throw_if)

lemma quiet_throw_if_null: "quiet (throw_if_null c p e)"
  by (rule quiet_checks_only) (rule checks_only_throw_if_null)

lemma quiet_call_CreateSigmaMints: "quiet (call_CreateSigmaMints env p ds)"
  by (rule quietI) auto

lemma quiet_call_CreateSigmaSpend: "quiet (call_CreateSigmaSpend env p d)"
  by (rule quietI) auto

lemma quiet_call_EraseSigmaMint: "quiet (call_EraseSigmaMint env i)"
  by (rule quietI) (auto simp: call_EraseSigmaMint_apply)

lemma quiet_LogPrintf: "quiet (LogPrintf m)"
  by (rule quietI) auto

lemma quiet_bnd:
  assumes m: "quiet m" and f: "\<And>x. quiet (f x)"
  shows "quiet (bnd m f)"
proof (rule quietI)
  fix s r s' assume "bnd m f s = (r, s')"
  then show "autoCommit s' = autoCommit s \<and>
     (\<exists>new. calls s' = calls s @ new \<and>
        list_all (\<lambda>c. \<not> is_PendingAdd c \<and> built_raw c = None) new)"
  proof (cases rule: bnd_E)
    case (threw e)
    with m show ?thesis unfolding quiet_def by blast
  next
    case (went_on x s1)
    from m went_on(1) obtain new1 where 1: "autoCommit s1 = autoCommit s"
      "calls s1 = calls s @ new1" "list_all (\<lambda>c. \<not> is_PendingAdd c \<and> built_raw c = None) new1"
      unfolding quiet_def by blast
    from f [of x] went_on(2) obtain new2 where 2: "autoCommit s' = autoCommit s1"
      "calls s' = calls s1 @ new2" "list_all (\<lambda>c. \<not> is_PendingAdd c \<and> built_raw c = None) new2"
      unfolding quiet_def by blast
    from 1 2 show ?thesis by (intro conjI exI [of _ "new1 @ new2"]) simp_all
  qed
qed

lemma quiet_try_catch:
  assumes m: "quiet m" and h: "\<And>e k. h e = Some k \<Longrightarrow> quiet k"
  shows "quiet (try_catch m h)"
proof (rule quietI)
  fix s r s' assume run: "try_catch m h s = (r, s')"
  obtain r1 s1 where ms: "m s = (r1, s1)" by (cases "m s")
  from m ms obtain new1 where 1: "autoCommit s1 = autoCommit s"
    "calls s1 = calls s @ new1" "list_all (\<lambda>c. \<not> is_PendingAdd c \<and> built_raw c = None) new1"
    unfolding quiet_def by blast
  show "autoCommit s' = autoCommit s \<and>
     (\<exists>new. calls s' = calls s @ new \<and>
        list_all (\<lambda>c. \<not> is_PendingAdd c \<and> built_raw c = None) new)"
  proof (cases "\<exists>e k. r1 = Inl e \<and> h e = Some k")
    case True
    then obtain e k where ek: "r1 = Inl e" "h e = Some k" by blast
    with run ms have "k s1 = (r, s')" by (simp add: try_catch_def)
    with h [OF ek(2)] obtain new2 where 2: "autoCommit s' = autoCommit s1"
      "calls s' = calls s1 @ new2" "list_all (\<lambda>c. \<not> is_PendingAdd c \<and> built_raw c = None) new2"
      unfolding quiet_def by blast
    from 1 2 show ?thesis by (intro conjI exI [of _ "new1 @ new2"]) simp_all
  next
    case False
    with run ms have "s' = s1"
      by (auto simp: try_catch_def split: sum.splits option.splits)
    with 1 show ?thesis by blast
  qed
qed

lemma quiet_if: "quiet m1 \<Longrightarrow> quiet m2 \<Longrightarrow> quiet (if b then m1 else m2)"
  by simp

lemma quiet_case_prod: "(\<And>a b. quiet (f a b)) \<Longrightarrow> quiet (case p of (a, b) \<Rightarrow> f a b)"
  by (cases p) simp

lemma quiet_case_option:
  "quiet m1 \<Longrightarrow> (\<And>x. quiet (m2 x)) \<Longrightarrow> quiet (case v of None \<Rightarrow> m1 | Some x \<Rightarrow> m2 x)"
  by (cases v) simp_all

lemmas quiet_rules =
  quiet_returns quiet_throws quiet_lift quiet_usage quiet_read_autoCommit quiet_read_payTxFee
  quiet_write_payTxFee quiet_require quiet_throw_if quiet_throw_if_null quiet_call_CreateSigmaMints quiet_call_CreateSigmaSpend
  quiet_call_EraseSigmaMint quiet_LogPrintf quiet_bnd quiet_if quiet_case_prod quiet_case_option

lemma quiet_collect:
  "quiet (exodus_sendmint_collect env propertyId denominations minConfirms keys denoms)"
  by (rule quiet_checks_only) (rule checks_only_collect)

lemma quiet_erase: "quiet (exodus_sendmint_erase env ids)"
proof (induction ids)
  case Nil
  show ?case unfolding exodus_sendmint_erase.simps by (rule quiet_returns)
next
  case (Cons i ids)
  show ?case
    unfolding exodus_sendmint_erase.simps
    by (intro quiet_rules quiet_try_catch Cons.IH)
       (auto split: option.splits intro: quiet_LogPrintf)
qed

subsection \<open>Calls that return the raw transaction of a dry run\<close>

lemma after_build_failed:
  assumes "result \<noteq> 0" and "quiet m"
  shows "after_build result rawHex m"
  using assms unfolding after_build_def quiet_def by blast

lemma after_build_if:
  assumes "result \<noteq> 0 \<Longrightarrow> quiet m1" and "result = 0 \<Longrightarrow> after_build 0 rawHex m2"
  shows "after_build result rawHex (if result \<noteq> 0 then m1 else m2)"
  using assms by (auto intro: after_build_failed)

lemma dry_run_ok_build:
  assumes f: "\<And>result txid rawHex. after_build result rawHex (f (result, txid, rawHex))"
  shows "dry_run_ok (bnd (call_WalletTxBuilder env a) f)"
  unfolding dry_run_ok_def
proof (intro allI impI, elim conjE)
  fix s r s' assume run: "bnd (call_WalletTxBuilder env a) f s = (r, s')" and dry: "\<not> autoCommit s"
  let ?out = "WalletTxBuilder (wl env) s a"
  let ?b = "WalletTxBuilder_call a (payTxFee s) ?out"
  let ?s1 = "s\<lparr>calls := calls s @ [?b]\<rparr>"
  show "\<exists>new. calls s' = calls s @ new \<and> list_all (\<lambda>c. \<not> is_PendingAdd c) new \<and>
          (\<forall>c \<in> set new. \<forall>rawHex. built_raw c = Some rawHex \<longrightarrow> r = Inr (VSTR rawHex))"
  proof (cases ?out)
    case (Inl e)
    with run have "s' = ?s1" by (simp add: bnd_apply)
    with Inl show ?thesis by (intro exI [of _ "[?b]"]) simp
  next
    case (Inr res)
    obtain result txid rawHex where res: "res = (result, txid, rawHex)" by (cases res)
    with run Inr have "f (result, txid, rawHex) ?s1 = (r, s')" by (simp add: bnd_apply)
    with f [of result rawHex txid] dry obtain new2 where 2: "calls s' = calls ?s1 @ new2"
      "list_all (\<lambda>c. \<not> is_PendingAdd c \<and> built_raw c = None) new2"
      "result = 0 \<longrightarrow> r = Inr (VSTR rawHex)"
      unfolding after_build_def by fastforce
    from 2(2) have "list_all (\<lambda>c. \<not> is_PendingAdd c) new2" and "\<forall>c \<in> set new2. built_raw c = None"
      by (auto simp: list_all_iff)
    with 2 Inr res show ?thesis by (intro exI [of _ "?b # new2"]) auto
  qed
qed

lemma dry_run_ok_bnd:
  assumes m: "quiet m" and f: "\<And>x. dry_run_ok (f x)"
  shows "dry_run_ok (bnd m f)"
  unfolding dry_run_ok_def
proof (intro allI impI, elim conjE)
  fix s r s' assume run: "bnd m f s = (r, s')" and dry: "\<not> autoCommit s"
  from run show "\<exists>new. calls s' = calls s @ new \<and> list_all (\<lambda>c. \<not> is_PendingAdd c) new \<and>
          (\<forall>c \<in> set new. \<forall>rawHex. built_raw c = Some rawHex \<longrightarrow> r = Inr (VSTR rawHex))"
  proof (cases rule: bnd_E)
    case (threw e)
    with m obtain new where "calls s' = calls s @ new"
      "list_all (\<lambda>c. \<not> is_PendingAdd c \<and> built_raw c = None) new"
      unfolding quiet_def by blast
    then show ?thesis by (intro exI [of _ new]) (auto simp: list_all_iff)
  next
    case (went_on x s1)
    from m went_on(1) obtain new1 where 1: "autoCommit s1 = autoCommit s"
      "calls s1 = calls s @ new1" "list_all (\<lambda>c. \<not> is_PendingAdd c \<and> built_raw c = None) new1"
      unfolding quiet_def by blast
    from f [of x] went_on(2) 1(1) dry obtain new2 where 2: "calls s' = calls s1 @ new2"
      "list_all (\<lambda>c. \<not> is_PendingAdd c) new2"
      "\<forall>c \<in> set new2. \<forall>rawHex. built_raw c = Some rawHex \<longrightarrow> r = Inr (VSTR rawHex)"
      unfolding dry_run_ok_def by fastforce
    from 1 2 show ?thesis by (intro exI [of _ "new1 @ new2"]) (auto simp: list_all_iff)
  qed
qed

lemma dry_run_ok_quiet:
  assumes "quiet m"
  shows "dry_run_ok m"
  unfolding dry_run_ok_def
proof (intro allI impI, elim conjE)
  fix s r s' assume "m s = (r, s')"
  with assms obtain new where "calls s' = calls s @ new"
    "list_all (\<lambda>c. \<not> is_PendingAdd c \<and> built_raw c = None) new"
    unfolding quiet_def by blast
  then show "\<exists>new. calls s' = calls s @ new \<and> list_all (\<lambda>c. \<not> is_PendingAdd c) new \<and>
          (\<forall>c \<in> set new. \<forall>rawHex. built_raw c = Some rawHex \<longrightarrow> r = Inr (VSTR rawHex))"
    by (intro exI [of _ new]) (auto simp: list_all_iff)
qed

lemma dry_run_ok_usage: "dry_run_ok (usage n)"
  by (rule dry_run_ok_quiet) (rule quiet_usage)

lemma dry_run_ok_throws: "dry_run_ok (throws e)"
  by (rule dry_run_ok_quiet) (rule quiet_throws)

lemma dry_run_ok_if: "dry_run_ok m1 \<Longrightarrow> dry_run_ok m2 \<Longrightarrow> dry_run_ok (if b then m1 else m2)"
  by simp

lemma dry_run_ok_case_prod:
  "(\<And>a b. dry_run_ok (f a b)) \<Longrightarrow> dry_run_ok (case p of (a, b) \<Rightarrow> f a b)"
  by (cases p) simp

lemmas dry_run_rules =
  dry_run_ok_build dry_run_ok_usage dry_run_ok_throws dry_run_ok_if dry_run_ok_case_prod
  dry_run_ok_bnd quiet_rules

lemmas after_build_steps = after_build_def bnd_eq_iff

lemma dry_exodus_sendrawtx: "dry_run_ok (exodus_sendrawtx env params fHelp)"
  unfolding exodus_sendrawtx_def by (intro dry_run_rules) (auto simp: after_build_steps)

lemma dry_exodus_send: "dry_run_ok (exodus_send env params fHelp)"
  unfolding exodus_send_def by (intro dry_run_rules) (auto simp: after_build_steps)

lemma dry_exodus_sendall: "dry_run_ok (exodus_sendall env params fHelp)"
  unfolding exodus_sendall_def by (intro dry_run_rules) (auto simp: after_build_steps)

lemma dry_exodus_senddexsell: "dry_run_ok (exodus_senddexsell env params fHelp)"
  unfolding exodus_senddexsell_def by (intro dry_run_rules) (auto simp: after_build_steps)

lemma dry_exodus_senddexaccept: "dry_run_ok (exodus_senddexaccept env params fHelp)"
  unfolding exodus_senddexaccept_def by (intro dry_run_rules) (auto simp: after_build_steps)

lemma dry_exodus_sendissuancecrowdsale: "dry_run_ok (exodus_sendissuancecrowdsale env params fHelp)"
  unfolding exodus_sendissuancecrowdsale_def by (intro dry_run_rules) (auto simp: after_build_steps)

lemma dry_exodus_sendissuancefixed: "dry_run_ok (exodus_sendissuancefixed env params fHelp)"
  unfolding exodus_sendissuancefixed_def by (intro dry_run_rules) (auto simp: after_build_steps)

lemma dry_exodus_sendissuancemanaged: "dry_run_ok (exodus_sendissuancemanaged env params fHelp)"
  unfolding exodus_sendissuancemanaged_def by (intro dry_run_rules) (auto simp: after_build_steps)

lemma dry_exodus_sendsto: "dry_run_ok (exodus_sendsto env params fHelp)"
  unfolding exodus_sendsto_def by (intro dry_run_rules) (auto simp: after_build_steps)

lemma dry_exodus_sendgrant: "dry_run_ok (exodus_sendgrant env params fHelp)"
  unfolding exodus_sendgrant_def by (intro dry_run_rules) (auto simp: after_build_steps)

lemma dry_exodus_sendrevoke: "dry_run_ok (exodus_sendrevoke env params fHelp)"
  unfolding exodus_sendrevoke_def by (intro dry_run_rules) (auto simp: after_build_steps)

lemma dry_exodus_sendclosecrowdsale: "dry_run_ok (exodus_sendclosecrowdsale env params fHelp)"
  unfolding exodus_sendclosecrowdsale_def by (intro dry_run_rules) (auto simp: after_build_steps)

lemma dry_exodus_sendtrade: "dry_run_ok (exodus_sendtrade env params fHelp)"
  unfolding exodus_sendtrade_def by (intro dry_run_rules) (auto simp: after_build_steps)

lemma dry_exodus_sendcanceltradesbyprice: "dry_run_ok (exodus_sendcanceltradesbyprice env params fHelp)"
  unfolding exodus_sendcanceltradesbyprice_def by (intro dry_run_rules) (auto simp: after_build_steps)

lemma dry_exodus_sendcanceltradesbypair: "dry_run_ok (exodus_sendcanceltradesbypair env params fHelp)"
  unfolding exodus_sendcanceltradesbypair_def by (intro dry_run_rules) (auto simp: after_build_steps)

lemma dry_exodus_sendcancelalltrades: "dry_run_ok (exodus_sendcancelalltrades env params fHelp)"
  unfolding exodus_sendcancelalltrades_def by (intro dry_run_rules) (auto simp: after_build_steps)

lemma dry_exodus_sendchangeissuer: "dry_run_ok (exodus_sendchangeissuer env params fHelp)"
  unfolding exodus_sendchangeissuer_def by (intro dry_run_rules) (auto simp: after_build_steps)

lemma dry_exodus_sendenablefreezing: "dry_run_ok (exodus_sendenablefreezing env params fHelp)"
  unfolding exodus_sendenablefreezing_def by (intro dry_run_rules) (auto simp: after_build_steps)

lemma dry_exodus_senddisablefreezing: "dry_run_ok (exodus_senddisablefreezing env params fHelp)"
  unfolding exodus_senddisablefreezing_def by (intro dry_run_rules) (auto simp: after_build_steps)

lemma dry_exodus_sendfreeze: "dry_run_ok (exodus_sendfreeze env params fHelp)"
  unfolding exodus_sendfreeze_def by (intro dry_run_rules) (auto simp: after_build_steps)

lemma dry_exodus_sendunfreeze: "dry_run_ok (exodus_sendunfreeze env params fHelp)"
  unfolding exodus_sendunfreeze_def by (intro dry_run_rules) (auto simp: after_build_steps)

lemma dry_exodus_sendactivation: "dry_run_ok (exodus_sendactivation env params fHelp)"
  unfolding exodus_sendactivation_def by (intro dry_run_rules) (auto simp: after_build_steps)

lemma dry_exodus_senddeactivation: "dry_run_ok (exodus_senddeactivation env params fHelp)"
  unfolding exodus_senddeactivation_def by (intro dry_run_rules) (auto simp: after_build_steps)

lemma dry_exodus_sendalert: "dry_run_ok (exodus_sendalert env params fHelp)"
  unfolding exodus_sendalert_def by (intro dry_run_rules) (auto simp: after_build_steps)

lemma dry_exodus_sendcreatedenomination: "dry_run_ok (exodus_sendcreatedenomination env params fHelp)"
  unfolding exodus_sendcreatedenomination_def by (intro dry_run_rules) (auto simp: after_build_steps)

lemma dry_trade_MP: "dry_run_ok (trade_MP env params fHelp)"
  unfolding trade_MP_def
  by (intro dry_run_rules dry_exodus_sendtrade dry_exodus_sendcanceltradesbyprice
        dry_exodus_sendcanceltradesbypair dry_exodus_sendcancelalltrades)

lemma dry_exodus_sendspend: "dry_run_ok (exodus_sendspend env params fHelp)"
  unfolding exodus_sendspend_def
  by (intro dry_run_rules quiet_try_catch)
     (auto simp: after_build_steps split: cpp_exception.splits intro: quiet_throws)

lemma dry_exodus_sendmint: "dry_run_ok (exodus_sendmint env params fHelp)"
  unfolding exodus_sendmint_def
  apply (intro dry_run_rules quiet_collect quiet_try_catch)
                apply (auto split: cpp_exception.splits intro: quiet_throws)[1]
  apply (simp only: prod.case)
  apply (rule after_build_if)
   apply (intro quiet_rules quiet_erase)
  apply (auto simp: after_build_steps)
  done

lemmas dry_commands =
  dry_exodus_sendrawtx dry_exodus_send dry_exodus_sendall dry_exodus_senddexsell
  dry_exodus_senddexaccept dry_exodus_sendissuancecrowdsale dry_exodus_sendissuancefixed
  dry_exodus_sendissuancemanaged dry_exodus_sendsto dry_exodus_sendgrant
  dry_exodus_sendrevoke dry_exodus_sendclosecrowdsale dry_exodus_sendtrade
  dry_exodus_sendcanceltradesbyprice dry_exodus_sendcanceltradesbypair
  dry_exodus_sendcancelalltrades dry_exodus_sendchangeissuer dry_exodus_sendenablefreezing
  dry_exodus_senddisablefreezing dry_exodus_sendfreeze dry_exodus_sendunfreeze
  dry_exodus_sendactivation dry_exodus_senddeactivation dry_exodus_sendalert
  dry_exodus_sendcreatedenomination dry_exodus_sendmint dry_exodus_sendspend dry_trade_MP

lemma dry_every_command:
  assumes "(category, name, actor, okSafeMode) \<in> set (commands env)"
  shows "dry_run_ok (actor params fHelp)"
  using assms unfolding commands_def by (auto simp: dry_commands)

text \<open>
  C6. Whatever command is called: when \<^verbatim>\<open>autoCommit\<close> is off and the builder returns the
  result code 0, the call returns the raw transaction hex the builder produced, not a
  transaction id, and the run calls \<^verbatim>\<open>PendingAdd\<close> not once.
\<close>

theorem dry_run_returns_raw_hex_and_adds_no_pending:
  assumes cmd: "(category, name, actor, okSafeMode) \<in> set (commands env)"
    and run: "actor params fHelp s = (r, s')"
    and dry: "\<not> autoCommit s"
    and built: "WalletTxBuilder_call a fee (Inr (0, txid, rawHex)) \<in> set (calls_made s s')"
  shows "r = Inr (VSTR rawHex) \<and>
         (\<forall>t f k p n b. PendingAdd_call t f k p n b \<notin> set (calls_made s s'))"
proof -
  from dry_every_command [OF cmd] run dry obtain new where new: "calls s' = calls s @ new"
    and np: "list_all (\<lambda>c. \<not> is_PendingAdd c) new"
    and raw: "\<forall>c \<in> set new. \<forall>rawHex. built_raw c = Some rawHex \<longrightarrow> r = Inr (VSTR rawHex)"
    unfolding dry_run_ok_def by blast
  from new have made: "calls_made s s' = new" by (simp add: calls_made_def)
  with built raw have "r = Inr (VSTR rawHex)" by fastforce
  moreover from np made have "\<forall>t f k p n b. PendingAdd_call t f k p n b \<notin> set (calls_made s s')"
    by (fastforce simp: list_all_iff)
  ultimately show ?thesis by simp
qed

text \<open>A simple send of 100 units with \<^verbatim>\<open>autoCommit\<close> off.\<close>

theorem dry_run_returns_raw_hex_and_adds_no_pending_witness:
  "(''exodus (transaction creation)'', ''exodus_send'', exodus_send (ex_env ex_built), False)
       \<in> set (commands (ex_env ex_built)) \<and>
   \<not> autoCommit (ex_world False) \<and>
   calls_made (ex_world False)
       (snd (exodus_send (ex_env ex_built) (ex_send_request 100) False (ex_world False))) =
     [WalletTxBuilder_call (''A'', ''B'', [], 0, CreatePayload_SimpleSend 3 100, False, None) 1000
        (Inr (0, 42, ''0100''))] \<and>
   fst (exodus_send (ex_env ex_built) (ex_send_request 100) False (ex_world False)) =
     Inr (VSTR ''0100'')"
proof -
  let ?run = "exodus_send (ex_env ex_built) (ex_send_request 100) False (ex_world False)"
  let ?b = "WalletTxBuilder_call (''A'', ''B'', [], 0, CreatePayload_SimpleSend 3 100, False, None) 1000
        (Inr (0, 42, ''0100''))"
  have cmd: "(''exodus (transaction creation)'', ''exodus_send'', exodus_send (ex_env ex_built), False)
       \<in> set (commands (ex_env ex_built))"
    by (simp add: commands_def)
  have run: "?run = (fst ?run, snd ?run)" by simp
  have dry: "\<not> autoCommit (ex_world False)" by simp
  have made: "calls_made (ex_world False) (snd ?run) = [?b]"
    by (simp add: exodus_send_def run_defs ex_defs calls_made_def)
  then have built: "?b \<in> set (calls_made (ex_world False) (snd ?run))" by simp
  from dry_run_returns_raw_hex_and_adds_no_pending [OF cmd run dry built]
  have "fst ?run = Inr (VSTR ''0100'')" by simp
  with cmd dry made show ?thesis by simp
qed

section \<open>Simple send\<close>

text \<open>
  C7. In every run of \<^verbatim>\<open>exodus_send\<close> with \<^verbatim>\<open>autoCommit\<close> on in which the builder
  returned the result code 0, the call has made exactly two calls: that one, with the
  commit flag set, and one \<^verbatim>\<open>PendingAdd\<close>. The entry is keyed by the transaction id of
  the builder, whose hex form the call returns, and it carries the sender, the property
  and the amount parsed from the request, the type of a simple send, and the subtract
  flag \<open>True\<close>; they are the values that passed the checks and went into the payload.
\<close>

theorem exodus_send_commit_pending:
  assumes run: "exodus_send env params fHelp s = (r, s')"
    and commit: "autoCommit s"
    and built: "WalletTxBuilder_call a fee (Inr (0, txid, rawHex)) \<in> set (calls_made s s')"
  shows "\<exists>fromAddress toAddress propertyId amount redeemAddress referenceAmount.
     ParseAddress (rv env) (params ! 0) = Inr fromAddress \<and>
     ParsePropertyId (rv env) (params ! 2) = Inr propertyId \<and>
     ParseAmount (rv env) (params ! 3) (isPropertyDivisible (lg env) propertyId) = Inr amount \<and>
     Require (lg env) (RequireExistingProperty propertyId) = None \<and>
     Require (lg env) (RequireBalance fromAddress propertyId amount) = None \<and>
     Require (lg env) (RequireSaneReferenceAmount referenceAmount) = None \<and>
     a = (fromAddress, toAddress, redeemAddress, referenceAmount,
          CreatePayload_SimpleSend propertyId amount, True, None) \<and>
     fee = payTxFee s \<and>
     calls s' = calls s @
       [WalletTxBuilder_call a fee (Inr (0, txid, rawHex)),
        PendingAdd_call txid fromAddress EXODUS_TYPE_SIMPLE_SEND propertyId amount True] \<and>
     r = Inr (VSTR (GetHex (wl env) txid))"
  using run commit built unfolding exodus_send_def
  by (auto simp: run_iffs calls_made_def PendingAdd_default_fSubtract_def)

text \<open>A simple send of 100 units with \<^verbatim>\<open>autoCommit\<close> on.\<close>

theorem exodus_send_commit_pending_witness:
  "autoCommit (ex_world True) \<and>
   WalletTxBuilder_call (''A'', ''B'', [], 0, CreatePayload_SimpleSend 3 100, True, None) 1000
       (Inr (0, 42, ''0100''))
     \<in> set (calls_made (ex_world True)
         (snd (exodus_send (ex_env ex_built) (ex_send_request 100) False (ex_world True)))) \<and>
   calls (snd (exodus_send (ex_env ex_built) (ex_send_request 100) False (ex_world True))) =
     [WalletTxBuilder_call (''A'', ''B'', [], 0, CreatePayload_SimpleSend 3 100, True, None) 1000
        (Inr (0, 42, ''0100'')),
      PendingAdd_call 42 ''A'' EXODUS_TYPE_SIMPLE_SEND 3 100 True] \<and>
   fst (exodus_send (ex_env ex_built) (ex_send_request 100) False (ex_world True)) =
     Inr (VSTR (GetHex (wl (ex_env ex_built)) 42))"
proof -
  let ?run = "exodus_send (ex_env ex_built) (ex_send_request 100) False (ex_world True)"
  let ?b = "WalletTxBuilder_call (''A'', ''B'', [], 0, CreatePayload_SimpleSend 3 100, True, None)
       1000 (Inr (0, 42, ''0100''))"
  have run: "?run = (fst ?run, snd ?run)" by simp
  have commit: "autoCommit (ex_world True)" by simp
  have built: "?b \<in> set (calls_made (ex_world True) (snd ?run))"
    by (simp add: exodus_send_def run_defs ex_defs calls_made_def)
  have parsed: "ParseAddress (rv (ex_env ex_built)) (ex_send_request 100 ! 0) = Inr ''A''"
    "ParsePropertyId (rv (ex_env ex_built)) (ex_send_request 100 ! 2) = Inr 3"
    "ParseAmount (rv (ex_env ex_built)) (ex_send_request 100 ! 3)
       (isPropertyDivisible (lg (ex_env ex_built)) 3) = Inr 100"
    by (simp_all add: ex_defs)
  from exodus_send_commit_pending [OF run commit built]
  obtain fromAddress propertyId amount where
    "ParseAddress (rv (ex_env ex_built)) (ex_send_request 100 ! 0) = Inr fromAddress"
    "ParsePropertyId (rv (ex_env ex_built)) (ex_send_request 100 ! 2) = Inr propertyId"
    "ParseAmount (rv (ex_env ex_built)) (ex_send_request 100 ! 3)
       (isPropertyDivisible (lg (ex_env ex_built)) propertyId) = Inr amount"
    "calls (snd ?run) = calls (ex_world True) @
       [?b, PendingAdd_call 42 fromAddress EXODUS_TYPE_SIMPLE_SEND propertyId amount True]"
    "fst ?run = Inr (VSTR (GetHex (wl (ex_env ex_built)) 42))"
    by blast
  with parsed have "calls (snd ?run) =
       [?b, PendingAdd_call 42 ''A'' EXODUS_TYPE_SIMPLE_SEND 3 100 True]"
    and "fst ?run = Inr (VSTR (GetHex (wl (ex_env ex_built)) 42))"
    by auto
  with commit built show ?thesis by blast
qed

section \<open>Spending a mint\<close>


lemma ex_spend_commit:
  "exodus_sendspend (ex_env ex_built) ex_spend_request False (ex_world True) =
     (Inr (VSTR (GetHex (wl (ex_env ex_built)) 42)),
      \<lparr>payTxFee = 1000, autoCommit = True,
       calls = [CreateSigmaSpend_call 3 1 (Inr ex_spent), ex_spend_build True ex_built,
                SetSigmaMintUsedTransaction_call (mint ex_spent) 42,
                PendingAdd_call 42 ''Spend'' EXODUS_TYPE_SIMPLE_SPEND 3 200 False],
       checked = ex_spend_checked\<rparr>)"
  by (simp add: exodus_sendspend_def run_defs ex_defs ex_spent_def ex_spend_build_def
        ex_spend_checked_def)

lemma ex_spend_failed:
  "exodus_sendspend (ex_env ex_failed) ex_spend_request False (ex_world True) =
     (Inl (JSONRPCError (result_code (- 1)) ''Error creating transaction''),
      \<lparr>payTxFee = 1000, autoCommit = True,
       calls = [CreateSigmaSpend_call 3 1 (Inr ex_spent), ex_spend_build True ex_failed],
       checked = ex_spend_checked\<rparr>)"
  by (simp add: exodus_sendspend_def run_defs ex_defs ex_spent_def ex_spend_build_def
        ex_spend_checked_def)

text \<open>
  C4. Every run of \<^verbatim>\<open>exodus_sendspend\<close> is of one of two kinds. Either the builder
  returned the result code 0: then the run created the spend for the property and the
  denomination of the request, built, and called \<^verbatim>\<open>SetSigmaMintUsedTransaction\<close> once,
  on the mint of that spend and with the transaction id of the builder. Or no builder
  call returned the result code 0: then the run holds no call of
  \<^verbatim>\<open>SetSigmaMintUsedTransaction\<close> at all and ends in an error, so that a build that
  fails leaves the mint unmarked.
\<close>

theorem exodus_sendspend_marks_iff_built:
  assumes run: "exodus_sendspend env params fHelp s = (r, s')"
  shows "(\<exists>propertyId denom spend a fee txid rawHex rest.
            ParsePropertyId (rv env) (params ! 1) = Inr propertyId \<and>
            ParseSigmaDenomination (rv env) (params ! 2) = Inr denom \<and>
            calls s' = calls s @
              [CreateSigmaSpend_call propertyId denom (Inr spend),
               WalletTxBuilder_call a fee (Inr (0, txid, rawHex)),
               SetSigmaMintUsedTransaction_call (mint spend) txid] @ rest \<and>
            list_all is_PendingAdd rest) \<or>
         ((\<forall>a fee txid rawHex.
             WalletTxBuilder_call a fee (Inr (0, txid, rawHex)) \<notin> set (calls_made s s')) \<and>
          (\<forall>i t. SetSigmaMintUsedTransaction_call i t \<notin> set (calls_made s s')) \<and>
          (\<exists>e. r = Inl e))"
  using run unfolding exodus_sendspend_def
  by (auto simp: run_iffs calls_made_def)

text \<open>
  The run whose build returns the result code -1 marks nothing; the committed run marks
  the mint with public key 7, which is the one of the spend it created, with the
  transaction id 42 of the builder.
\<close>

theorem exodus_sendspend_marks_iff_built_witness:
  "calls_made (ex_world True)
     (snd (exodus_sendspend (ex_env ex_failed) ex_spend_request False (ex_world True))) =
     [CreateSigmaSpend_call 3 1 (Inr ex_spent), ex_spend_build True ex_failed] \<and>
   (\<exists>e. fst (exodus_sendspend (ex_env ex_failed) ex_spend_request False (ex_world True)) = Inl e) \<and>
   WalletTxBuilder_call ([], ''B'', [], 0, CreatePayload_SimpleSpend 3 1 0 1 9, True,
       Some InputMode_SIGMA) 1000 (Inr (0, 42, ''0100''))
     \<in> set (calls_made (ex_world True)
         (snd (exodus_sendspend (ex_env ex_built) ex_spend_request False (ex_world True)))) \<and>
   (\<exists>spend build rest.
      calls (snd (exodus_sendspend (ex_env ex_built) ex_spend_request False (ex_world True))) =
        [CreateSigmaSpend_call 3 1 (Inr spend), build,
         SetSigmaMintUsedTransaction_call (mint spend) 42] @ rest \<and>
      pubKey (mint spend) = 7)"
proof -
  let ?bad = "exodus_sendspend (ex_env ex_failed) ex_spend_request False (ex_world True)"
  let ?good = "exodus_sendspend (ex_env ex_built) ex_spend_request False (ex_world True)"
  let ?b = "WalletTxBuilder_call ([], ''B'', [], 0, CreatePayload_SimpleSpend 3 1 0 1 9, True,
       Some InputMode_SIGMA) 1000 (Inr (0, 42, ''0100''))"
  have bad: "?bad = (fst ?bad, snd ?bad)" by simp
  have made: "calls_made (ex_world True) (snd ?bad) =
     [CreateSigmaSpend_call 3 1 (Inr ex_spent), ex_spend_build True ex_failed]"
    by (simp add: ex_spend_failed calls_made_def)
  then have none: "calls (snd ?bad) \<noteq>
      [CreateSigmaSpend_call p d (Inr spend), WalletTxBuilder_call a fee (Inr (0, txid, rawHex)),
       SetSigmaMintUsedTransaction_call (mint spend) txid] @ rest" for p d spend a fee txid rawHex rest
    by (auto simp: calls_made_def)
  from exodus_sendspend_marks_iff_built [OF bad] none
  have threw: "\<exists>e. fst ?bad = Inl e" by auto
  have good: "?good = (fst ?good, snd ?good)" by simp
  have calls: "calls (snd ?good) =
     [CreateSigmaSpend_call 3 1 (Inr ex_spent), ?b,
      SetSigmaMintUsedTransaction_call (mint ex_spent) 42,
      PendingAdd_call 42 ''Spend'' EXODUS_TYPE_SIMPLE_SPEND 3 200 False]"
    unfolding ex_spend_commit by (simp add: ex_spend_build_def ex_built_def)
  then have built: "?b \<in> set (calls_made (ex_world True) (snd ?good))"
    by (simp add: calls_made_def)
  from exodus_sendspend_marks_iff_built [OF good] built
  have "\<exists>propertyId denom spend a fee txid rawHex rest.
      calls (snd ?good) = calls (ex_world True) @
        [CreateSigmaSpend_call propertyId denom (Inr spend),
         WalletTxBuilder_call a fee (Inr (0, txid, rawHex)),
         SetSigmaMintUsedTransaction_call (mint spend) txid] @ rest"
    by blast
  then obtain propertyId denom spend a fee txid rawHex rest where
    eq: "calls (snd ?good) = calls (ex_world True) @
        [CreateSigmaSpend_call propertyId denom (Inr spend),
         WalletTxBuilder_call a fee (Inr (0, txid, rawHex)),
         SetSigmaMintUsedTransaction_call (mint spend) txid] @ rest"
    by blast
  from eq have same: "propertyId = 3 \<and> denom = 1 \<and> spend = ex_spent \<and> txid = 42"
    unfolding calls by simp
  with eq have "calls (snd ?good) =
        [CreateSigmaSpend_call 3 1 (Inr spend), WalletTxBuilder_call a fee (Inr (0, 42, rawHex)),
         SetSigmaMintUsedTransaction_call (mint spend) 42] @ rest"
    by simp
  moreover from same have "pubKey (mint spend) = 7" by (simp add: ex_spent_def)
  ultimately have "\<exists>spend build rest. calls (snd ?good) =
        [CreateSigmaSpend_call 3 1 (Inr spend), build,
         SetSigmaMintUsedTransaction_call (mint spend) 42] @ rest \<and> pubKey (mint spend) = 7"
    by blast
  with made threw built show ?thesis by blast
qed






section \<open>The distributed exchange\<close>

text \<open>
  A new offer, a cancelled one and two accepted ones on the small ledger. The cancel
  request holds \<^verbatim>\<open>null\<close> where the amounts, the payment window and the fee would stand.
  Every offer of the ledger asks for a minimum accept fee of 5000, which over 225 bytes
  is the rate 22222.
\<close>

lemma ex_sell_commit:
  "exodus_senddexsell (ex_env ex_built) ex_sell_request False (ex_world True) =
     (Inr (VSTR (GetHex (wl (ex_env ex_built)) 42)),
      \<lparr>payTxFee = 1000, autoCommit = True,
       calls = [WalletTxBuilder_call
                  (''A'', [], [], 0, CreatePayload_DExSell 1 100 7 10 5 1, True, None)
                  1000 (Inr (0, 42, ''0100'')),
                PendingAdd_call 42 ''A'' EXODUS_TYPE_TRADE_OFFER 1 100 True],
       checked = [(Named (RequirePrimaryToken 1), None), (Named (RequireBalance ''A'' 1 100), None),
                  (Named (RequireNoOtherDExOffer ''A'' 1), None)]\<rparr>)"
  by (simp add: exodus_senddexsell_def run_defs ex_defs CMPTransaction_NEW_def
        CMPTransaction_UPDATE_def CMPTransaction_CANCEL_def)

lemma ex_cancel_commit:
  "exodus_senddexsell (ex_env ex_built) ex_cancel_request False (ex_world True) =
     (Inr (VSTR (GetHex (wl (ex_env ex_built)) 42)),
      \<lparr>payTxFee = 1000, autoCommit = True,
       calls = [WalletTxBuilder_call
                  (''A'', [], [], 0, CreatePayload_DExSell 1 0 0 0 0 3, True, None)
                  1000 (Inr (0, 42, ''0100'')),
                PendingAdd_call 42 ''A'' EXODUS_TYPE_TRADE_OFFER 1 0 False],
       checked = [(Named (RequirePrimaryToken 1), None),
                  (Named (RequireMatchingDExOffer ''A'' 1), None)]\<rparr>)"
  by (simp add: exodus_senddexsell_def run_defs ex_defs CMPTransaction_NEW_def
        CMPTransaction_UPDATE_def CMPTransaction_CANCEL_def)

lemma ex_accept_ok:
  "exodus_senddexaccept (ex_env ex_built) ex_accept_request False (ex_world True) =
     (Inr (VSTR (GetHex (wl (ex_env ex_built)) 42)),
      \<lparr>payTxFee = 1000, autoCommit = True,
       calls = [WalletTxBuilder_call
                  (''A'', ''B'', [], 0, CreatePayload_DExAccept 1 15, True, None)
                  22222 (Inr (0, 42, ''0100''))],
       checked = [(Named (RequirePrimaryToken 1), None),
                  (Named (RequireMatchingDExOffer ''B'' 1), None),
                  (Named (RequireSaneDExFee ''B'' 1), None),
                  (Named (RequireSaneDExPaymentWindow ''B'' 1), None),
                  (SellOfferLoaded ''B'' 1, None)]\<rparr>)"
  by (simp add: exodus_senddexaccept_def run_defs ex_defs)

lemma ex_accept_raised:
  "exodus_senddexaccept (ex_env ex_raised) ex_accept_request False (ex_world True) =
     (Inl (other_exception ''std::bad_alloc''),
      \<lparr>payTxFee = 22222, autoCommit = True,
       calls = [WalletTxBuilder_call
                  (''A'', ''B'', [], 0, CreatePayload_DExAccept 1 15, True, None)
                  22222 (Inl (other_exception ''std::bad_alloc''))],
       checked = [(Named (RequirePrimaryToken 1), None),
                  (Named (RequireMatchingDExOffer ''B'' 1), None),
                  (Named (RequireSaneDExFee ''B'' 1), None),
                  (Named (RequireSaneDExPaymentWindow ''B'' 1), None),
                  (SellOfferLoaded ''B'' 1, None)]\<rparr>)"
  by (simp add: exodus_senddexaccept_def run_defs ex_defs)

lemma ex_accept_unparsed:
  "exodus_senddexaccept (ex_env ex_built) ex_unparsed_accept_request False (ex_world True) =
     (Inl (JSONRPCError RPC_TYPE_ERROR ''Expected type number''), ex_world True)"
  by (simp add: exodus_senddexaccept_def run_defs ex_defs)

text \<open>
  C9. In every run of \<^verbatim>\<open>exodus_senddexsell\<close> with \<^verbatim>\<open>autoCommit\<close> on in which the
  builder returned the result code 0, for one of the three actions the call documents
  (1 new, 2 update, 3 cancel), the call has made exactly two calls: that one and one
  \<^verbatim>\<open>PendingAdd\<close>, and it returns the hex form of the transaction id. The subtract flag
  of the entry is true exactly when the action is new or update. For a cancel the amount
  of the entry is 0 and the payload carries 0 for both amounts, the payment window and
  the fee: the four parameters are not parsed, so the call succeeds whatever stands in
  their place. For new and update the amount is the one parsed from the third
  parameter.
\<close>

theorem exodus_senddexsell_commit_pending:
  assumes run: "exodus_senddexsell env params fHelp s = (r, s')"
    and commit: "autoCommit s"
    and built: "WalletTxBuilder_call a fee (Inr (0, txid, rawHex)) \<in> set (calls_made s s')"
    and action: "ParseDExAction (rv env) (params ! 6) = Inr action"
    and known: "action \<in> {CMPTransaction_NEW, CMPTransaction_UPDATE, CMPTransaction_CANCEL}"
  shows "\<exists>fromAddress propertyIdForSale amountForSale.
     ParseAddress (rv env) (params ! 0) = Inr fromAddress \<and>
     ParsePropertyId (rv env) (params ! 1) = Inr propertyIdForSale \<and>
     calls s' = calls s @
       [WalletTxBuilder_call a fee (Inr (0, txid, rawHex)),
        PendingAdd_call txid fromAddress EXODUS_TYPE_TRADE_OFFER propertyIdForSale amountForSale
          (action = CMPTransaction_NEW \<or> action = CMPTransaction_UPDATE)] \<and>
     r = Inr (VSTR (GetHex (wl env) txid)) \<and>
     (if action = CMPTransaction_CANCEL
      then amountForSale = 0 \<and>
           a = (fromAddress, [], [], 0,
                CreatePayload_DExSell propertyIdForSale 0 0 0 0 CMPTransaction_CANCEL, True, None)
      else ParseAmount (rv env) (params ! 2) True = Inr amountForSale \<and>
           (\<exists>amountDesired paymentWindow minAcceptFee.
              a = (fromAddress, [], [], 0,
                   CreatePayload_DExSell propertyIdForSale amountForSale amountDesired
                     paymentWindow minAcceptFee action, True, None)))"
  using run commit built action known unfolding exodus_senddexsell_def
  by (auto simp: run_iffs calls_made_def CMPTransaction_NEW_def CMPTransaction_UPDATE_def
        CMPTransaction_CANCEL_def)

text \<open>
  The cancel of the offer of A for property 1, with \<^verbatim>\<open>null\<close> for the four unparsed
  parameters: one pending entry, amount 0, nothing subtracted. And a new offer of 100
  units: one pending entry, amount 100, subtracted.
\<close>

theorem exodus_senddexsell_commit_pending_witness:
  "autoCommit (ex_world True) \<and>
   ParseDExAction (rv (ex_env ex_built)) (ex_cancel_request ! 6) = Inr CMPTransaction_CANCEL \<and>
   ParseAmount (rv (ex_env ex_built)) (ex_cancel_request ! 2) True =
     Inl (JSONRPCError RPC_TYPE_ERROR ''Expected type number'') \<and>
   fst (exodus_senddexsell (ex_env ex_built) ex_cancel_request False (ex_world True)) =
     Inr (VSTR (GetHex (wl (ex_env ex_built)) 42)) \<and>
   calls (snd (exodus_senddexsell (ex_env ex_built) ex_cancel_request False (ex_world True))) =
     [WalletTxBuilder_call (''A'', [], [], 0, CreatePayload_DExSell 1 0 0 0 0 3, True, None)
        1000 (Inr (0, 42, ''0100'')),
      PendingAdd_call 42 ''A'' EXODUS_TYPE_TRADE_OFFER 1 0 False] \<and>
   ParseDExAction (rv (ex_env ex_built)) (ex_sell_request ! 6) = Inr CMPTransaction_NEW \<and>
   fst (exodus_senddexsell (ex_env ex_built) ex_sell_request False (ex_world True)) =
     Inr (VSTR (GetHex (wl (ex_env ex_built)) 42)) \<and>
   calls (snd (exodus_senddexsell (ex_env ex_built) ex_sell_request False (ex_world True))) =
     [WalletTxBuilder_call (''A'', [], [], 0, CreatePayload_DExSell 1 100 7 10 5 1, True, None)
        1000 (Inr (0, 42, ''0100'')),
      PendingAdd_call 42 ''A'' EXODUS_TYPE_TRADE_OFFER 1 100 True]"
proof -
  let ?env = "ex_env ex_built"
  let ?cancel = "exodus_senddexsell ?env ex_cancel_request False (ex_world True)"
  let ?sell = "exodus_senddexsell ?env ex_sell_request False (ex_world True)"
  let ?bc = "WalletTxBuilder_call (''A'', [], [], 0, CreatePayload_DExSell 1 0 0 0 0 3, True, None)
        1000 (Inr (0, 42, ''0100''))"
  let ?bs = "WalletTxBuilder_call (''A'', [], [], 0, CreatePayload_DExSell 1 100 7 10 5 1, True, None)
        1000 (Inr (0, 42, ''0100''))"
  have commit: "autoCommit (ex_world True)" by simp
  have known: "CMPTransaction_CANCEL
      \<in> {CMPTransaction_NEW, CMPTransaction_UPDATE, CMPTransaction_CANCEL}"
    "CMPTransaction_NEW \<in> {CMPTransaction_NEW, CMPTransaction_UPDATE, CMPTransaction_CANCEL}"
    by simp_all
  have differ: "CMPTransaction_CANCEL \<noteq> CMPTransaction_NEW"
    "CMPTransaction_CANCEL \<noteq> CMPTransaction_UPDATE"
    by (simp_all add: CMPTransaction_NEW_def CMPTransaction_UPDATE_def CMPTransaction_CANCEL_def)
  have cancel: "?cancel = (fst ?cancel, snd ?cancel)" by simp
  have cancel_built: "?bc \<in> set (calls_made (ex_world True) (snd ?cancel))"
    by (simp add: ex_cancel_commit calls_made_def)
  have cancel_action: "ParseDExAction (rv ?env) (ex_cancel_request ! 6) = Inr CMPTransaction_CANCEL"
    by (simp add: ex_defs CMPTransaction_CANCEL_def)
  have unparsed: "ParseAmount (rv ?env) (ex_cancel_request ! 2) True =
     Inl (JSONRPCError RPC_TYPE_ERROR ''Expected type number'')"
    by (simp add: ex_defs)
  have cancel_parsed: "ParseAddress (rv ?env) (ex_cancel_request ! 0) = Inr ''A''"
    "ParsePropertyId (rv ?env) (ex_cancel_request ! 1) = Inr 1"
    by (simp_all add: ex_defs)
  from exodus_senddexsell_commit_pending [OF cancel commit cancel_built cancel_action known(1)]
  obtain fromAddress propertyIdForSale amountForSale where
    "ParseAddress (rv ?env) (ex_cancel_request ! 0) = Inr fromAddress"
    "ParsePropertyId (rv ?env) (ex_cancel_request ! 1) = Inr propertyIdForSale"
    "calls (snd ?cancel) = calls (ex_world True) @
       [?bc, PendingAdd_call 42 fromAddress EXODUS_TYPE_TRADE_OFFER propertyIdForSale amountForSale
          (CMPTransaction_CANCEL = CMPTransaction_NEW \<or> CMPTransaction_CANCEL = CMPTransaction_UPDATE)]"
    "fst ?cancel = Inr (VSTR (GetHex (wl ?env) 42))"
    "amountForSale = 0"
    by auto
  with cancel_parsed differ have cancelled:
    "calls (snd ?cancel) = [?bc, PendingAdd_call 42 ''A'' EXODUS_TYPE_TRADE_OFFER 1 0 False]"
    "fst ?cancel = Inr (VSTR (GetHex (wl ?env) 42))"
    by auto
  have sell: "?sell = (fst ?sell, snd ?sell)" by simp
  have sell_built: "?bs \<in> set (calls_made (ex_world True) (snd ?sell))"
    by (simp add: ex_sell_commit calls_made_def)
  have sell_action: "ParseDExAction (rv ?env) (ex_sell_request ! 6) = Inr CMPTransaction_NEW"
    by (simp add: ex_defs CMPTransaction_NEW_def)
  have sell_parsed: "ParseAddress (rv ?env) (ex_sell_request ! 0) = Inr ''A''"
    "ParsePropertyId (rv ?env) (ex_sell_request ! 1) = Inr 1"
    "ParseAmount (rv ?env) (ex_sell_request ! 2) True = Inr 100"
    by (simp_all add: ex_defs)
  from exodus_senddexsell_commit_pending [OF sell commit sell_built sell_action known(2)] differ
  obtain fromAddress propertyIdForSale amountForSale where
    "ParseAddress (rv ?env) (ex_sell_request ! 0) = Inr fromAddress"
    "ParsePropertyId (rv ?env) (ex_sell_request ! 1) = Inr propertyIdForSale"
    "calls (snd ?sell) = calls (ex_world True) @
       [?bs, PendingAdd_call 42 fromAddress EXODUS_TYPE_TRADE_OFFER propertyIdForSale amountForSale
          (CMPTransaction_NEW = CMPTransaction_NEW \<or> CMPTransaction_NEW = CMPTransaction_UPDATE)]"
    "fst ?sell = Inr (VSTR (GetHex (wl ?env) 42))"
    "ParseAmount (rv ?env) (ex_sell_request ! 2) True = Inr amountForSale"
    by (metis (no_types, lifting))
  with sell_parsed have sold:
    "calls (snd ?sell) = [?bs, PendingAdd_call 42 ''A'' EXODUS_TYPE_TRADE_OFFER 1 100 True]"
    "fst ?sell = Inr (VSTR (GetHex (wl ?env) 42))"
    by auto
  from commit cancel_action unparsed cancelled sell_action sold show ?thesis by blast
qed

text \<open>
  C1, as the code has it. A request that passes the parsing and the checks of
  \<^verbatim>\<open>exodus_senddexaccept\<close> and whose offer is found makes the call reach the builder
  exactly once, and during that call \<^verbatim>\<open>payTxFee\<close> is the rate
  \<^verbatim>\<open>CFeeRate(nMinimumAcceptFee, 225)\<close> for the minimum accept fee of the offer. Whenever
  the builder returns, with the result code 0 or with another one, \<^verbatim>\<open>payTxFee\<close> has its
  prior value again when the call ends, and the call returns or throws as the result
  code says. For any other request the call throws before it touches \<^verbatim>\<open>payTxFee\<close> or
  the builder. Nothing is said about a builder that raises.
\<close>

theorem exodus_senddexaccept_fee_restored_after_return:
  assumes run: "exodus_senddexaccept env params fHelp s = (r, s')"
  shows "(\<forall>fromAddress toAddress propertyId amount nMinimumAcceptFee.
            accept_goes_to_build env params fHelp fromAddress toAddress propertyId amount
              nMinimumAcceptFee \<longrightarrow>
            (\<exists>out. calls s' = calls s @
               [WalletTxBuilder_call
                  (fromAddress, toAddress, [], 0, CreatePayload_DExAccept propertyId amount,
                   autoCommit s, None)
                  (CFeeRate_of (wl env) nMinimumAcceptFee 225) out] \<and>
               (\<forall>result txid rawHex. out = Inr (result, txid, rawHex) \<longrightarrow>
                  payTxFee s' = payTxFee s \<and>
                  r = (if result \<noteq> 0
                       then Inl (JSONRPCError (result_code result) (error_str (lg env) result))
                       else if autoCommit s then Inr (VSTR (GetHex (wl env) txid))
                       else Inr (VSTR rawHex))))) \<and>
         ((\<forall>fromAddress toAddress propertyId amount nMinimumAcceptFee.
            \<not> accept_goes_to_build env params fHelp fromAddress toAddress propertyId amount
                nMinimumAcceptFee) \<longrightarrow>
          calls s' = calls s \<and> payTxFee s' = payTxFee s \<and> (\<exists>e. r = Inl e))"
  using run unfolding exodus_senddexaccept_def accept_goes_to_build_def
  by (auto simp: run_iffs)

text \<open>
  An accept that goes through: the build runs at the rate 22222, and the rate is 1000
  again afterwards. And an accept whose property id does not parse: no call is made and
  the rate stays.
\<close>

theorem exodus_senddexaccept_fee_restored_after_return_witness:
  "payTxFee (ex_world True) = 1000 \<and>
   accept_goes_to_build (ex_env ex_built) ex_accept_request False ''A'' ''B'' 1 15 5000 \<and>
   calls (snd (exodus_senddexaccept (ex_env ex_built) ex_accept_request False (ex_world True))) =
     [WalletTxBuilder_call (''A'', ''B'', [], 0, CreatePayload_DExAccept 1 15, True, None)
        22222 (Inr (0, 42, ''0100''))] \<and>
   payTxFee (snd (exodus_senddexaccept (ex_env ex_built) ex_accept_request False (ex_world True))) =
     1000 \<and>
   ParsePropertyId (rv (ex_env ex_built)) (ex_unparsed_accept_request ! 2) =
     Inl (JSONRPCError RPC_TYPE_ERROR ''Expected type number'') \<and>
   calls (snd (exodus_senddexaccept (ex_env ex_built) ex_unparsed_accept_request False
            (ex_world True))) = [] \<and>
   payTxFee (snd (exodus_senddexaccept (ex_env ex_built) ex_unparsed_accept_request False
            (ex_world True))) = 1000"
proof -
  let ?env = "ex_env ex_built"
  let ?run = "exodus_senddexaccept ?env ex_accept_request False (ex_world True)"
  let ?bad = "exodus_senddexaccept ?env ex_unparsed_accept_request False (ex_world True)"
  let ?b = "WalletTxBuilder_call (''A'', ''B'', [], 0, CreatePayload_DExAccept 1 15, True, None)
        22222 (Inr (0, 42, ''0100''))"
  have run: "?run = (fst ?run, snd ?run)" by simp
  have goes: "accept_goes_to_build ?env ex_accept_request False ''A'' ''B'' 1 15 5000"
    by (auto simp: accept_goes_to_build_def ex_defs)
  have made: "calls (snd ?run) = [?b]" by (simp add: ex_accept_ok)
  from exodus_senddexaccept_fee_restored_after_return [OF run] goes
  obtain out where "calls (snd ?run) = calls (ex_world True) @
      [WalletTxBuilder_call (''A'', ''B'', [], 0, CreatePayload_DExAccept 1 15,
         autoCommit (ex_world True), None) (CFeeRate_of (wl ?env) 5000 225) out]"
    and "\<forall>result txid rawHex. out = Inr (result, txid, rawHex) \<longrightarrow>
           payTxFee (snd ?run) = payTxFee (ex_world True)"
    by blast
  with made have restored: "payTxFee (snd ?run) = 1000" by simp
  have bad: "?bad = (fst ?bad, snd ?bad)" by simp
  have unparsed: "ParsePropertyId (rv ?env) (ex_unparsed_accept_request ! 2) =
     Inl (JSONRPCError RPC_TYPE_ERROR ''Expected type number'')"
    by (simp add: ex_defs)
  then have stays: "\<not> accept_goes_to_build ?env ex_unparsed_accept_request False
      fromAddress toAddress propertyId amount nMinimumAcceptFee"
    for fromAddress toAddress propertyId amount nMinimumAcceptFee
    by (simp add: accept_goes_to_build_def)
  from exodus_senddexaccept_fee_restored_after_return [OF bad] stays
  have "calls (snd ?bad) = calls (ex_world True)"
    and "payTxFee (snd ?bad) = payTxFee (ex_world True)"
    by blast+
  with goes made restored unparsed show ?thesis by simp
qed

text \<open>
  The claim C1 as the spec states it fails where the builder raises: the exception leaves
  \<^verbatim>\<open>exodus_senddexaccept\<close> before the assignment that restores \<^verbatim>\<open>payTxFee\<close>, and the rate
  stays at 22222 where it was 1000 before the call.
\<close>

theorem exodus_senddexaccept_raising_build_keeps_override:
  "payTxFee (ex_world True) = 1000 \<and>
   fst (exodus_senddexaccept (ex_env ex_raised) ex_accept_request False (ex_world True)) =
     Inl (other_exception ''std::bad_alloc'') \<and>
   payTxFee (snd (exodus_senddexaccept (ex_env ex_raised) ex_accept_request False (ex_world True))) =
     22222"
  by (simp add: ex_accept_raised)

section \<open>Creating mints\<close>

text \<open>
  Three mint requests on the small ledger. Each asks for one mint of denomination 0 and
  two of a second denomination. Denomination 2 is confirmed, and the builder is made to
  fail: the three mints are erased again, the second erase fails and is logged. With
  the wallet whose erase raises another kind of exception, the rollback ends there.
  Denomination 1 still lacks two confirmations.
\<close>

lemma ex_mint_failed:
  "exodus_sendmint (ex_env ex_failed) (ex_mint_request ''2'') False (ex_world True) =
     (Inl (JSONRPCError (result_code (- 1)) ''Error creating transaction''),
      \<lparr>payTxFee = 1000, autoCommit = True,
       calls = [CreateSigmaMints_call 3 [0, 2, 2] (Inr ex_minted),
                WalletTxBuilder_call
                  (''A'', [], [], 0, CreatePayload_SimpleMint 3 [(0, 1), (2, 2), (2, 3)], True, None)
                  1000 (Inr (- 1, 0, [])),
                EraseSigmaMint_call \<lparr>property = 3, denomination = 2, pubKey = 3\<rparr> None,
                EraseSigmaMint_call \<lparr>property = 3, denomination = 2, pubKey = 2\<rparr>
                  (Some (runtime_error ''no mint data in wallet'')),
                LogPrintf_call (''exodus_sendmint : Fail to erase sigma mints, no mint data in wallet''
                                 @ [CHR 0x0A]),
                EraseSigmaMint_call \<lparr>property = 3, denomination = 0, pubKey = 1\<rparr> None],
       checked = [(Named (RequireExistingProperty 3), None), (Named (RequireSigma 3), None),
                  (ValidDenomination 0, None), (ValidAmountOfMints 1, None),
                  (ConfirmedDenomination 3 0 6, None),
                  (ValidDenomination 2, None), (ValidAmountOfMints 2, None),
                  (ConfirmedDenomination 3 2 6, None),
                  (Named (RequireBalance ''A'' 3 700), None)]\<rparr>)"
  by (simp add: exodus_sendmint_def run_defs ex_defs ex_minted_def UINT8_MAX_def numeral_2_eq_2)

lemma ex_mint_erase_raises:
  "exodus_sendmint ex_erase_raises (ex_mint_request ''2'') False (ex_world True) =
     (Inl (other_exception ''std::bad_alloc''),
      \<lparr>payTxFee = 1000, autoCommit = True,
       calls = [CreateSigmaMints_call 3 [0, 2, 2] (Inr ex_minted),
                WalletTxBuilder_call
                  (''A'', [], [], 0, CreatePayload_SimpleMint 3 [(0, 1), (2, 2), (2, 3)], True, None)
                  1000 (Inr (- 1, 0, [])),
                EraseSigmaMint_call \<lparr>property = 3, denomination = 2, pubKey = 3\<rparr> None,
                EraseSigmaMint_call \<lparr>property = 3, denomination = 2, pubKey = 2\<rparr>
                  (Some (other_exception ''std::bad_alloc''))],
       checked = [(Named (RequireExistingProperty 3), None), (Named (RequireSigma 3), None),
                  (ValidDenomination 0, None), (ValidAmountOfMints 1, None),
                  (ConfirmedDenomination 3 0 6, None),
                  (ValidDenomination 2, None), (ValidAmountOfMints 2, None),
                  (ConfirmedDenomination 3 2 6, None),
                  (Named (RequireBalance ''A'' 3 700), None)]\<rparr>)"
  by (simp add: exodus_sendmint_def run_defs ex_defs ex_erase_raises_def ex_minted_def
        UINT8_MAX_def numeral_2_eq_2)


lemma collect_frame:
  assumes "exodus_sendmint_collect env propertyId denominations minConfirms keys denoms s = (r, s')"
  shows "calls s' = calls s \<and> payTxFee s' = payTxFee s \<and> autoCommit s' = autoCommit s"
  using assms checks_only_collect [of env propertyId denominations minConfirms keys denoms]
  unfolding checks_only_def by blast

lemma erase_attempt_calls:
  "c \<in> set (erase_attempt i out) \<Longrightarrow>
     (\<exists>out'. c = EraseSigmaMint_call i out') \<or> (\<exists>m. c = LogPrintf_call m)"
  by (cases out) (auto split: option.splits)

lemma erase_attempt_others [simp]:
  "CreateSigmaMints_call p ds x \<notin> set (erase_attempt i out)"
  "WalletTxBuilder_call a f y \<notin> set (erase_attempt i out)"
  using erase_attempt_calls [of "CreateSigmaMints_call p ds x" i out]
    erase_attempt_calls [of "WalletTxBuilder_call a f y" i out]
  by auto

lemma erase_attempts_others [simp]:
  "CreateSigmaMints_call p ds x \<notin> set (concat (map2 erase_attempt ids outs))"
  "WalletTxBuilder_call a f y \<notin> set (concat (map2 erase_attempt ids outs))"
  by auto

lemma erase_outcomes_shape:
  "length (erase_outcomes env s ids) \<le> length ids \<and>
   list_all erase_went_on (butlast (erase_outcomes env s ids)) \<and>
   (list_all erase_went_on (erase_outcomes env s ids) \<longrightarrow>
      length (erase_outcomes env s ids) = length ids)"
proof (induction ids arbitrary: s)
  case Nil
  show ?case by simp
next
  case (Cons i ids)
  let ?s1 = "s\<lparr>calls := calls s @ erase_attempt i (EraseSigmaMint (wl env) s i)\<rparr>"
  from Cons [of ?s1] show ?case by auto
qed

lemma erase_run:
  assumes "exodus_sendmint_erase env ids s = (r, s')"
  shows "s' = s\<lparr>calls := calls s @ concat (map2 erase_attempt ids (erase_outcomes env s ids))\<rparr> \<and>
         (r = Inr () \<and> list_all erase_went_on (erase_outcomes env s ids) \<or>
          (\<exists>e. r = Inl e \<and> \<not> list_all erase_went_on (erase_outcomes env s ids) \<and>
               last (erase_outcomes env s ids) = Some e))"
  using assms
proof (induction ids arbitrary: s)
  case Nil
  then show ?case by simp
next
  case (Cons i ids)
  let ?out = "EraseSigmaMint (wl env) s i"
  let ?s1 = "s\<lparr>calls := calls s @ erase_attempt i ?out\<rparr>"
  show ?case
  proof (cases "erase_went_on ?out")
    case True
    with Cons.prems have step: "exodus_sendmint_erase env ids ?s1 = (r, s')"
      by (cases ?out) (auto simp: run_iffs call_EraseSigmaMint_apply split: option.splits)
    from Cons.IH [OF step] True show ?thesis by auto
  next
    case False
    then obtain e where e: "?out = Some e" "caught_as_runtime_error e = None"
      by (cases ?out) auto
    with Cons.prems have "r = Inl e" "s' = ?s1"
      by (auto simp: run_iffs call_EraseSigmaMint_apply)
    with e show ?thesis by simp
  qed
qed

text \<open>
  C3, as the code has it. A run of \<^verbatim>\<open>exodus_sendmint\<close> in which \<^verbatim>\<open>CreateSigmaMints\<close>
  returned the identifiers \<open>ids\<close> and the builder then returned a result code other than 0
  makes, after these two calls, erase attempts on the identifiers in the reverse of the
  order of creation, and nothing else: an attempt is the call of \<^verbatim>\<open>EraseSigmaMint\<close>,
  followed by one \<^verbatim>\<open>LogPrintf\<close> where the erase raised what
  \<^verbatim>\<open>catch (std::runtime_error const &e)\<close> catches. Where every erase returned or raised
  such an exception, there is one attempt for each identifier and the caller gets the
  error of the result code of the builder. An erase that raises anything else ends the
  rollback: its attempt is the last one, and its exception is what the caller gets.
\<close>

theorem exodus_sendmint_rollback:
  assumes run: "exodus_sendmint env params fHelp s = (r, s')"
    and created: "CreateSigmaMints_call p ds (Inr ids) \<in> set (calls_made s s')"
    and built: "WalletTxBuilder_call a fee (Inr (result, txid, rawHex)) \<in> set (calls_made s s')"
    and failed: "result \<noteq> 0"
  shows "\<exists>outs e. calls s' = calls s @
             [CreateSigmaMints_call p ds (Inr ids),
              WalletTxBuilder_call a fee (Inr (result, txid, rawHex))]
             @ concat (map2 erase_attempt (rev ids) outs) \<and>
           r = Inl e \<and>
           rollback_ends (length ids) outs
             (JSONRPCError (result_code result) (error_str (lg env) result)) e"
proof -
  let ?cb = "[CreateSigmaMints_call p ds (Inr ids),
              WalletTxBuilder_call a fee (Inr (result, txid, rawHex))]"
  let ?outs = "erase_outcomes env (s'\<lparr>calls := calls s @ ?cb\<rparr>) (rev ids)"
  let ?be = "JSONRPCError (result_code result) (error_str (lg env) result)"
  from run created built failed
  have mid: "calls s' = calls s @ ?cb @ concat (map2 erase_attempt (rev ids) ?outs) \<and>
        (r = Inl ?be \<and> list_all erase_went_on ?outs \<or>
         (\<exists>e. r = Inl e \<and> \<not> list_all erase_went_on ?outs \<and> last ?outs = Some e))"
    unfolding exodus_sendmint_def
    by (auto simp: run_iffs calls_made_def dest!: collect_frame erase_run)
  from erase_outcomes_shape [of env "s'\<lparr>calls := calls s @ ?cb\<rparr>" "rev ids"]
  have shape: "length ?outs \<le> length ids" "list_all erase_went_on (butlast ?outs)"
    "list_all erase_went_on ?outs \<longrightarrow> length ?outs = length ids"
    by simp_all
  from mid shape have "\<exists>e. r = Inl e \<and> rollback_ends (length ids) ?outs ?be e"
    unfolding rollback_ends_def by auto
  with mid show ?thesis by auto
qed

text \<open>
  The failed build of three mints: three erase attempts, the newest mint first, the
  failure of the second one logged, and the error of the builder returned.
\<close>

theorem exodus_sendmint_rollback_witness:
  "calls (snd (exodus_sendmint (ex_env ex_failed) (ex_mint_request ''2'') False (ex_world True))) =
     [CreateSigmaMints_call 3 [0, 2, 2] (Inr ex_minted),
      WalletTxBuilder_call
        (''A'', [], [], 0, CreatePayload_SimpleMint 3 [(0, 1), (2, 2), (2, 3)], True, None)
        1000 (Inr (- 1, 0, []))]
     @ concat (map2 erase_attempt (rev ex_minted)
                 [None, Some (runtime_error ''no mint data in wallet''), None]) \<and>
   fst (exodus_sendmint (ex_env ex_failed) (ex_mint_request ''2'') False (ex_world True)) =
     Inl (JSONRPCError (result_code (- 1)) ''Error creating transaction'') \<and>
   (\<exists>outs. calls (snd (exodus_sendmint (ex_env ex_failed) (ex_mint_request ''2'') False
                        (ex_world True))) =
        [CreateSigmaMints_call 3 [0, 2, 2] (Inr ex_minted),
         WalletTxBuilder_call
           (''A'', [], [], 0, CreatePayload_SimpleMint 3 [(0, 1), (2, 2), (2, 3)], True, None)
           1000 (Inr (- 1, 0, []))]
        @ concat (map2 erase_attempt (rev ex_minted) outs) \<and>
      rollback_ends 3 outs (JSONRPCError (result_code (- 1)) ''Error creating transaction'')
        (JSONRPCError (result_code (- 1)) ''Error creating transaction''))"
proof -
  let ?run = "exodus_sendmint (ex_env ex_failed) (ex_mint_request ''2'') False (ex_world True)"
  let ?a = "(''A'', [], [], 0, CreatePayload_SimpleMint 3 [(0, 1), (2, 2), (2, 3)], True, None)"
  let ?be = "JSONRPCError (result_code (- 1)) ''Error creating transaction''"
  have run: "?run = (fst ?run, snd ?run)" by simp
  have made: "calls (snd ?run) =
     [CreateSigmaMints_call 3 [0, 2, 2] (Inr ex_minted),
      WalletTxBuilder_call ?a 1000 (Inr (- 1, 0, []))]
     @ concat (map2 erase_attempt (rev ex_minted)
                 [None, Some (runtime_error ''no mint data in wallet''), None])"
    unfolding ex_mint_failed by (simp add: ex_minted_def)
  have res: "fst ?run = Inl ?be" by (simp add: ex_mint_failed)
  have created: "CreateSigmaMints_call 3 [0, 2, 2] (Inr ex_minted)
      \<in> set (calls_made (ex_world True) (snd ?run))"
    by (simp add: ex_mint_failed calls_made_def)
  have built: "WalletTxBuilder_call ?a 1000 (Inr (- 1, 0, []))
      \<in> set (calls_made (ex_world True) (snd ?run))"
    by (simp add: ex_mint_failed calls_made_def)
  have failed: "(- 1 :: int) \<noteq> 0" by simp
  have msg: "error_str (lg (ex_env ex_failed)) (- 1) = ''Error creating transaction''"
    by (simp add: ex_defs)
  have three: "length ex_minted = 3" by (simp add: ex_minted_def)
  from exodus_sendmint_rollback [OF run created built failed]
  obtain outs e where "calls (snd ?run) = calls (ex_world True) @
        [CreateSigmaMints_call 3 [0, 2, 2] (Inr ex_minted),
         WalletTxBuilder_call ?a 1000 (Inr (- 1, 0, []))]
        @ concat (map2 erase_attempt (rev ex_minted) outs)"
    and "fst ?run = Inl e"
    and "rollback_ends (length ex_minted) outs
           (JSONRPCError (result_code (- 1)) (error_str (lg (ex_env ex_failed)) (- 1))) e"
    by blast
  with res msg three have "\<exists>outs. calls (snd ?run) =
        [CreateSigmaMints_call 3 [0, 2, 2] (Inr ex_minted),
         WalletTxBuilder_call ?a 1000 (Inr (- 1, 0, []))]
        @ concat (map2 erase_attempt (rev ex_minted) outs) \<and>
      rollback_ends 3 outs ?be ?be"
    by auto
  with made res show ?thesis by blast
qed

text \<open>
  The claim C3 as the spec states it fails where an erase raises an exception that is no
  \<^verbatim>\<open>std::runtime_error\<close>: the build of the three mints fails with the result code -1,
  the erase of the second mint raises, and the call ends with that exception in the
  place of the error of the build, with nothing logged and the first mint not erased.
\<close>

theorem exodus_sendmint_erase_exception_escapes:
  "fst (exodus_sendmint ex_erase_raises (ex_mint_request ''2'') False (ex_world True)) =
     Inl (other_exception ''std::bad_alloc'') \<and>
   calls (snd (exodus_sendmint ex_erase_raises (ex_mint_request ''2'') False (ex_world True))) =
     [CreateSigmaMints_call 3 [0, 2, 2]
        (Inr [\<lparr>property = 3, denomination = 0, pubKey = 1\<rparr>,
              \<lparr>property = 3, denomination = 2, pubKey = 2\<rparr>,
              \<lparr>property = 3, denomination = 2, pubKey = 3\<rparr>]),
      WalletTxBuilder_call
        (''A'', [], [], 0, CreatePayload_SimpleMint 3 [(0, 1), (2, 2), (2, 3)], True, None)
        1000 (Inr (- 1, 0, [])),
      EraseSigmaMint_call \<lparr>property = 3, denomination = 2, pubKey = 3\<rparr> None,
      EraseSigmaMint_call \<lparr>property = 3, denomination = 2, pubKey = 2\<rparr>
        (Some (other_exception ''std::bad_alloc''))]"
  unfolding ex_mint_erase_raises by (simp add: ex_minted_def)




end
